(* ===== verification/ISR_Prelude.thy ===== *)
theory ISR_Prelude
  imports Complex_Main "HOL-Library.Word"
begin

text \<open>
  Shared vocabulary of the development: the fact collections the component
  theories add to, the sequencing of fallible steps over a sum type
  (\<open>Inl\<close> is a raised exception, \<open>Inr\<close> a normal return), and indexed maps over
  lists and planes (lists of rows), which is how the pixel buffers of the
  framework are represented; \<open>plane_all\<close> says that a predicate holds of every
  pixel of a plane.  Nothing here is specific to one component.
\<close>

unbundle bit_operations_syntax

section \<open>Fact collections\<close>

named_theorems isr_defs \<open>definitions of operations, unfolded to evaluate a closed call\<close>
named_theorems isr_frame \<open>what an operation leaves unchanged\<close>
named_theorems isr_wf \<open>well-formedness kept by an operation\<close>

section \<open>Sequencing of steps that may raise\<close>

definition rbind :: "'err + 'a \<Rightarrow> ('a \<Rightarrow> 'err + 'b) \<Rightarrow> 'err + 'b" where
  "rbind m f = (case m of Inl e \<Rightarrow> Inl e | Inr x \<Rightarrow> f x)"

definition raises :: "'err + 'a \<Rightarrow> bool" where
  "raises m = (case m of Inl e \<Rightarrow> True | Inr x \<Rightarrow> False)"

lemma rbind_Inl [simp]: "rbind (Inl e) f = Inl e"
  by (simp add: rbind_def)

lemma rbind_Inr [simp]: "rbind (Inr x) f = f x"
  by (simp add: rbind_def)

lemma rbind_return [simp]: "rbind m Inr = m"
  by (cases m) simp_all

lemma rbind_assoc: "rbind (rbind m f) g = rbind m (\<lambda>x. rbind (f x) g)"
  by (cases m) simp_all

lemma rbind_eq_Inr_iff: "rbind m f = Inr y \<longleftrightarrow> (\<exists>x. m = Inr x \<and> f x = Inr y)"
  by (cases m) simp_all

lemma rbind_eq_Inl_iff:
  "rbind m f = Inl e \<longleftrightarrow> m = Inl e \<or> (\<exists>x. m = Inr x \<and> f x = Inl e)"
  by (cases m) simp_all

lemma rbind_split:
  "P (rbind m f) \<longleftrightarrow> (\<forall>e. m = Inl e \<longrightarrow> P (Inl e)) \<and> (\<forall>x. m = Inr x \<longrightarrow> P (f x))"
  by (cases m) simp_all

lemma rbind_split_asm:
  "P (rbind m f) \<longleftrightarrow> \<not> ((\<exists>e. m = Inl e \<and> \<not> P (Inl e)) \<or> (\<exists>x. m = Inr x \<and> \<not> P (f x)))"
  by (cases m) simp_all

lemmas rbind_splits = rbind_split rbind_split_asm

lemma raises_simps [simp]: "raises (Inl e)" "\<not> raises (Inr x)"
  by (simp_all add: raises_def)

lemma raises_iff: "raises m \<longleftrightarrow> (\<exists>e. m = Inl e)"
  by (cases m) simp_all

lemma not_raises_iff: "\<not> raises m \<longleftrightarrow> (\<exists>x. m = Inr x)"
  by (cases m) simp_all

lemma raises_rbindI: "(\<And>x. m = Inr x \<Longrightarrow> raises (f x)) \<Longrightarrow> raises (rbind m f)"
  by (cases m) simp_all

lemma raises_rbind [simp]:
  "raises (rbind m f) \<longleftrightarrow> raises m \<or> (\<exists>x. m = Inr x \<and> raises (f x))"
  by (cases m) simp_all

section \<open>Indexed maps over lists\<close>

text \<open>
  \<open>imapi k f xs\<close> applies \<open>f\<close> to every element together with its coordinate,
  counting from \<open>k\<close>.  Coordinates are integers because the framework's pixel
  coordinates are: an image whose origin is not \<open>(0, 0)\<close> starts counting at
  its origin.
\<close>

primrec imapi :: "int \<Rightarrow> (int \<Rightarrow> 'a \<Rightarrow> 'b) \<Rightarrow> 'a list \<Rightarrow> 'b list" where
  "imapi k f [] = []"
| "imapi k f (x # xs) = f k x # imapi (k + 1) f xs"

lemma length_imapi [simp]: "length (imapi k f xs) = length xs"
  by (induction xs arbitrary: k) simp_all

lemma nth_imapi [simp]:
  "i < length xs \<Longrightarrow> imapi k f xs ! i = f (k + int i) (xs ! i)"
proof (induction xs arbitrary: k i)
  case Nil
  then show ?case by simp
next
  case (Cons x xs)
  then show ?case by (cases i) (simp_all add: algebra_simps)
qed

lemma imapi_eq_Nil_iff [simp]: "imapi k f xs = [] \<longleftrightarrow> xs = []"
  by (cases xs) simp_all

lemma imapi_id [simp]: "imapi k (\<lambda>_ x. x) xs = xs"
  by (induction xs arbitrary: k) simp_all

lemma imapi_imapi:
  "imapi k g (imapi k f xs) = imapi k (\<lambda>i x. g i (f i x)) xs"
  by (induction xs arbitrary: k) simp_all

lemma imapi_cong:
  assumes "\<And>i. i < length xs \<Longrightarrow> f (k + int i) (xs ! i) = g (k + int i) (xs ! i)"
  shows "imapi k f xs = imapi k g xs"
  by (rule nth_equalityI) (simp_all add: assms)

lemma imapi_shift: "imapi (k + d) f = imapi k (\<lambda>i. f (i + d))"
proof
  fix xs
  show "imapi (k + d) f xs = imapi k (\<lambda>i. f (i + d)) xs"
  proof (induction xs arbitrary: k)
    case Nil
    show ?case by simp
  next
    case (Cons x xs)
    from Cons.IH [of "k + 1"] show ?case by (simp add: ac_simps)
  qed
qed

lemma imapi_const_map: "imapi k (\<lambda>_. h) xs = map h xs"
  by (induction xs arbitrary: k) simp_all

section \<open>Planes\<close>

text \<open>
  A plane is a list of rows; row \<open>j\<close>, column \<open>i\<close> of a plane with origin
  \<open>(x0, y0)\<close> holds the pixel at \<open>(x0 + i, y0 + j)\<close>.
\<close>

type_synonym 'a plane = "'a list list"
type_synonym point2i = "int \<times> int"

definition plane_height :: "'a plane \<Rightarrow> nat" where
  "plane_height p = length p"

definition plane_width :: "'a plane \<Rightarrow> nat" where
  "plane_width p = (case p of [] \<Rightarrow> 0 | r # _ \<Rightarrow> length r)"

definition rect :: "nat \<Rightarrow> nat \<Rightarrow> 'a plane \<Rightarrow> bool" where
  "rect w h p \<longleftrightarrow> length p = h \<and> list_all (\<lambda>r. length r = w) p"

definition map_plane :: "point2i \<Rightarrow> (int \<Rightarrow> int \<Rightarrow> 'a \<Rightarrow> 'b) \<Rightarrow> 'a plane \<Rightarrow> 'b plane" where
  "map_plane org f p = imapi (snd org) (\<lambda>y. imapi (fst org) (\<lambda>x. f x y)) p"

definition zip_plane :: "'a plane \<Rightarrow> 'b plane \<Rightarrow> ('a \<times> 'b) plane" where
  "zip_plane p q = map2 zip p q"

definition pixel :: "point2i \<Rightarrow> 'a plane \<Rightarrow> int \<Rightarrow> int \<Rightarrow> 'a option" where
  "pixel org p x y =
     (if snd org \<le> y \<and> fst org \<le> x \<and> nat (y - snd org) < length p
         \<and> nat (x - fst org) < length (p ! nat (y - snd org))
      then Some (p ! nat (y - snd org) ! nat (x - fst org)) else None)"

definition plane_all :: "('a \<Rightarrow> bool) \<Rightarrow> 'a plane \<Rightarrow> bool" where
  "plane_all P p \<longleftrightarrow> list_all (list_all P) p"

lemma rect_iff:
  "rect w h p \<longleftrightarrow> length p = h \<and> (\<forall>j < h. length (p ! j) = w)"
  by (auto simp: rect_def list_all_length)

lemma rect_nth: "rect w h p \<Longrightarrow> j < h \<Longrightarrow> length (p ! j) = w"
  by (simp add: rect_iff)

lemma rect_length: "rect w h p \<Longrightarrow> length p = h"
  by (simp add: rect_def)

lemma rect_plane_width: "rect w h p \<Longrightarrow> 0 < h \<Longrightarrow> plane_width p = w"
  by (cases p) (auto simp: rect_def plane_width_def)

lemma length_map_plane [simp]: "length (map_plane org f p) = length p"
  by (simp add: map_plane_def)

lemma nth_map_plane [simp]:
  "j < length p \<Longrightarrow>
   map_plane org f p ! j = imapi (fst org) (\<lambda>x. f x (snd org + int j)) (p ! j)"
  by (simp add: map_plane_def)

lemma rect_map_plane [simp, isr_wf]: "rect w h (map_plane org f p) \<longleftrightarrow> rect w h p"
  by (auto simp: rect_iff)

lemma map_plane_shift:
  "map_plane (fst org + dx, snd org + dy) f p = map_plane org (\<lambda>x y. f (x + dx) (y + dy)) p"
  by (simp add: map_plane_def imapi_shift)

lemma map_plane_id [simp]: "map_plane org (\<lambda>_ _ v. v) p = p"
  by (rule nth_equalityI) simp_all

lemma map_plane_cong:
  assumes "\<And>x y v. pixel org p x y = Some v \<Longrightarrow> f x y v = g x y v"
  shows "map_plane org f p = map_plane org g p"
proof (rule nth_equalityI)
  show "length (map_plane org f p) = length (map_plane org g p)" by simp
next
  fix j assume "j < length (map_plane org f p)"
  then have j: "j < length p" by simp
  have "imapi (fst org) (\<lambda>x. f x (snd org + int j)) (p ! j)
      = imapi (fst org) (\<lambda>x. g x (snd org + int j)) (p ! j)"
  proof (rule imapi_cong)
    fix i assume "i < length (p ! j)"
    with j have "pixel org p (fst org + int i) (snd org + int j) = Some (p ! j ! i)"
      by (simp add: pixel_def)
    then show "f (fst org + int i) (snd org + int j) (p ! j ! i)
             = g (fst org + int i) (snd org + int j) (p ! j ! i)"
      by (rule assms)
  qed
  with j show "map_plane org f p ! j = map_plane org g p ! j" by simp
qed

lemma map_plane_map_plane:
  "map_plane org g (map_plane org f p) = map_plane org (\<lambda>x y v. g x y (f x y v)) p"
  by (rule nth_equalityI) (simp_all add: imapi_imapi)

lemma pixel_map_plane [simp]:
  "pixel org (map_plane org f p) x y = map_option (f x y) (pixel org p x y)"
  by (simp add: pixel_def)

lemma pixel_SomeD:
  "pixel org p x y = Some v \<Longrightarrow>
   snd org \<le> y \<and> fst org \<le> x \<and> nat (y - snd org) < length p \<and>
   nat (x - fst org) < length (p ! nat (y - snd org)) \<and> v = p ! nat (y - snd org) ! nat (x - fst org)"
  by (auto simp: pixel_def split: if_splits)

lemma pixel_rect:
  "rect w h p \<Longrightarrow>
   pixel org p x y =
     (if fst org \<le> x \<and> x < fst org + int w \<and> snd org \<le> y \<and> y < snd org + int h
      then Some (p ! nat (y - snd org) ! nat (x - fst org)) else None)"
  by (auto simp: pixel_def rect_iff)

lemma plane_eqI:
  assumes "length p = length q"
    and "\<And>j. j < length p \<Longrightarrow> length (p ! j) = length (q ! j)"
    and "\<And>x y. pixel org p x y = pixel org q x y"
  shows "p = q"
proof (rule nth_equalityI)
  show "length p = length q" by fact
next
  fix j assume j: "j < length p"
  show "p ! j = q ! j"
  proof (rule nth_equalityI)
    show "length (p ! j) = length (q ! j)" using j by (rule assms(2))
  next
    fix i assume i: "i < length (p ! j)"
    have "pixel org p (fst org + int i) (snd org + int j) = Some (p ! j ! i)"
      using i j by (simp add: pixel_def)
    moreover have "pixel org q (fst org + int i) (snd org + int j) = Some (q ! j ! i)"
      using i j assms(1,2) by (simp add: pixel_def)
    ultimately show "p ! j ! i = q ! j ! i"
      using assms(3) [of "fst org + int i" "snd org + int j"] by simp
  qed
qed

lemma length_zip_plane [simp]: "length (zip_plane p q) = min (length p) (length q)"
  by (simp add: zip_plane_def)

lemma nth_zip_plane [simp]:
  "j < length p \<Longrightarrow> j < length q \<Longrightarrow> zip_plane p q ! j = zip (p ! j) (q ! j)"
  by (simp add: zip_plane_def)

lemma rect_zip_plane [isr_wf]:
  "rect w h p \<Longrightarrow> rect w h q \<Longrightarrow> rect w h (zip_plane p q)"
  by (simp add: rect_iff)

lemma pixel_zip_plane:
  "rect w h p \<Longrightarrow> rect w h q \<Longrightarrow>
   pixel org (zip_plane p q) x y =
     (case (pixel org p x y, pixel org q x y) of
        (Some a, Some b) \<Rightarrow> Some (a, b) | _ \<Rightarrow> None)"
  by (auto simp: pixel_rect [of w h] rect_iff)

section \<open>A predicate on every pixel\<close>

lemma list_all_imapi:
  "list_all Q xs \<Longrightarrow> (\<And>i v. Q v \<Longrightarrow> P (f i v)) \<Longrightarrow> list_all P (imapi k f xs)"
  by (induction xs arbitrary: k) simp_all

lemma plane_all_map_plane:
  "plane_all Q p \<Longrightarrow> (\<And>x y v. Q v \<Longrightarrow> P (f x y v)) \<Longrightarrow> plane_all P (map_plane org f p)"
  unfolding plane_all_def map_plane_def
  by (rule list_all_imapi [where Q = "list_all Q"]) (simp_all add: list_all_imapi)

lemma plane_all_zip_snd:
  "plane_all P q \<Longrightarrow> plane_all (\<lambda>vm. P (snd vm)) (zip_plane p q)"
  unfolding plane_all_def zip_plane_def list_all_iff
  by (auto dest!: set_zip_rightD)

lemma plane_all_pixel: "plane_all P p \<Longrightarrow> pixel org p x y = Some v \<Longrightarrow> P v"
  by (auto simp: plane_all_def pixel_def list_all_length split: if_splits)

section \<open>Filtering by an optional result\<close>

lemma map_filter_Nil_iff:
  "List.map_filter f xs = [] \<longleftrightarrow> \<not> list_ex (\<lambda>a. f a \<noteq> None) xs"
  by (induction xs) (auto simp: List.map_filter_simps split: option.splits)

end
