(* ===== verification/PyValues.thy ===== *)
theory PyValues
  imports ISR_Prelude
begin

text \<open>
  The values the Python sources compute with: floating-point numbers and
  exceptions.

  A \<open>pyfloat\<close> is a real number or NaN.  Arithmetic on finite values is exact
  (rounding to 32 or 64 bits is not modelled, and neither are the two
  infinities); NaN is kept because the sources depend on it: every comparison
  with NaN is false except \<open>!=\<close>, which is true, and NaN propagates through
  \<open>+\<close> and \<open>*\<close>.  The guards of \<open>ProportionalLinearizeTask.run\<close> and the NaN
  count of \<open>IsrTask.maskAndInterpNan\<close> are sensitive to exactly that.

  An \<open>error\<close> is a raised exception, by class.  \<open>RuntimeError\<close> carries the
  component's own message type, so each \<open>raise RuntimeError(...)\<close> of the
  sources is one constructor with the values the message is formatted from.
\<close>

section \<open>Floating-point numbers\<close>

datatype pyfloat = Fin real | NaN

instantiation pyfloat :: "{comm_monoid_add, comm_monoid_mult, numeral}"
begin

definition zero_pyfloat :: pyfloat where
  "zero_pyfloat = Fin 0"

definition one_pyfloat :: pyfloat where
  "one_pyfloat = Fin 1"

fun plus_pyfloat :: "pyfloat \<Rightarrow> pyfloat \<Rightarrow> pyfloat" where
  "plus_pyfloat (Fin a) (Fin b) = Fin (a + b)"
| "plus_pyfloat _ _ = NaN"

fun times_pyfloat :: "pyfloat \<Rightarrow> pyfloat \<Rightarrow> pyfloat" where
  "times_pyfloat (Fin a) (Fin b) = Fin (a * b)"
| "times_pyfloat _ _ = NaN"

instance
proof
  fix x y z :: pyfloat
  show "x * y = y * x"
    by (cases x; cases y; simp)
  show "x + y = y + x"
    by (cases x; cases y; simp)
  show "1 * x = x"
    unfolding one_pyfloat_def by (cases x; simp)
  show "0 + x = x"
    unfolding zero_pyfloat_def by (cases x; simp)
  show "(x * y) * z = x * (y * z)"
    by (cases x; cases y; cases z; simp)
  show "(x + y) + z = x + (y + z)"
    by (cases x; cases y; cases z; simp)
qed

end

fun py_lt :: "pyfloat \<Rightarrow> pyfloat \<Rightarrow> bool" where
  "py_lt (Fin a) (Fin b) \<longleftrightarrow> a < b"
| "py_lt _ _ \<longleftrightarrow> False"

fun py_le :: "pyfloat \<Rightarrow> pyfloat \<Rightarrow> bool" where
  "py_le (Fin a) (Fin b) \<longleftrightarrow> a \<le> b"
| "py_le _ _ \<longleftrightarrow> False"

fun py_eq :: "pyfloat \<Rightarrow> pyfloat \<Rightarrow> bool" where
  "py_eq (Fin a) (Fin b) \<longleftrightarrow> a = b"
| "py_eq _ _ \<longleftrightarrow> False"

definition py_gt :: "pyfloat \<Rightarrow> pyfloat \<Rightarrow> bool" where
  "py_gt a b = py_lt b a"

definition py_ge :: "pyfloat \<Rightarrow> pyfloat \<Rightarrow> bool" where
  "py_ge a b = py_le b a"

definition py_ne :: "pyfloat \<Rightarrow> pyfloat \<Rightarrow> bool" where
  "py_ne a b = (\<not> py_eq a b)"

definition isnan :: "pyfloat \<Rightarrow> bool" where
  "isnan a = (case a of NaN \<Rightarrow> True | Fin _ \<Rightarrow> False)"

section \<open>Exceptions\<close>

datatype 'm error =
    RuntimeError 'm
  | NameError string
  | ValueError nat
  | IndexError
  | TypeError string
  | AttributeError string
  | KeyError string
  | LengthError
  | InvalidParameterError string
  | NoResults string
  | PexRuntimeError string
  | FieldValidationError string

type_synonym ('m, 'a) result = "'m error + 'a"

text \<open>
  The assignment \<open>a, b, c = xs\<close> of a sequence to three names: it raises
  \<open>ValueError\<close> unless the sequence has exactly three elements.
\<close>

fun unpack3 :: "'a list \<Rightarrow> 'm error + 'a \<times> 'a \<times> 'a" where
  "unpack3 [a, b, c] = Inr (a, b, c)"
| "unpack3 xs = Inl (ValueError (length xs))"

section \<open>Facts about unpacking\<close>

lemma unpack3_take3:
  "3 \<le> length xs \<Longrightarrow> unpack3 (take 3 xs) = Inr (xs ! 0, xs ! 1, xs ! 2)"
  by (cases xs; cases "tl xs"; cases "tl (tl xs)") (auto simp: numeral_3_eq_3)

lemma unpack3_short:
  "length xs < 3 \<Longrightarrow> unpack3 xs = Inl (ValueError (length xs))"
  by (cases xs rule: unpack3.cases) auto

lemma unpack3_take3_short:
  "length xs < 3 \<Longrightarrow> unpack3 (take 3 xs) = Inl (ValueError (length xs))"
  by (simp add: unpack3_short)

lemma take3_nth: "3 \<le> length xs \<Longrightarrow> take 3 xs = [xs ! 0, xs ! 1, xs ! 2]"
  by (cases xs; cases "tl xs"; cases "tl (tl xs)") (auto simp: numeral_3_eq_3)

lemma unpack3_Inr_iff: "unpack3 xs = Inr (a, b, c) \<longleftrightarrow> xs = [a, b, c]"
  by (cases xs rule: unpack3.cases) auto

section \<open>Arithmetic and comparison facts\<close>

lemma Fin_zero: "Fin 0 = 0"
  by (simp add: zero_pyfloat_def)

lemma Fin_one: "Fin 1 = 1"
  by (simp add: one_pyfloat_def)

lemma Fin_numeral: "Fin (numeral n) = numeral n"
proof (induction n)
  case One
  show ?case by (simp add: one_pyfloat_def)
next
  case (Bit0 n)
  then show ?case
    by (simp only: numeral_Bit0 plus_pyfloat.simps(1) [symmetric])
next
  case (Bit1 n)
  then show ?case
    by (simp only: numeral_Bit1 plus_pyfloat.simps(1) [symmetric] Fin_one)
qed

lemma NaN_arith [simp]:
  "NaN + a = NaN" "a + NaN = NaN" "NaN * a = NaN" "a * NaN = NaN"
  by (cases a; simp)+

lemma NaN_neq_consts [simp]:
  "NaN \<noteq> 0" "NaN \<noteq> 1" "0 \<noteq> NaN" "1 \<noteq> NaN"
  by (simp_all add: zero_pyfloat_def one_pyfloat_def)

lemma Fin_eq_consts [simp]:
  "Fin a = 0 \<longleftrightarrow> a = 0" "Fin a = 1 \<longleftrightarrow> a = 1"
  "0 = Fin a \<longleftrightarrow> a = 0" "1 = Fin a \<longleftrightarrow> a = 1"
  by (auto simp: zero_pyfloat_def one_pyfloat_def)

lemma py_cmp_NaN [simp]:
  "\<not> py_lt NaN a" "\<not> py_lt a NaN" "\<not> py_le NaN a" "\<not> py_le a NaN"
  "\<not> py_eq NaN a" "\<not> py_eq a NaN" "\<not> py_gt NaN a" "\<not> py_gt a NaN"
  "\<not> py_ge NaN a" "\<not> py_ge a NaN" "py_ne NaN a" "py_ne a NaN"
  by (cases a; simp add: py_gt_def py_ge_def py_ne_def)+

lemma py_cmp_Fin [simp]:
  "py_gt (Fin a) (Fin b) \<longleftrightarrow> b < a" "py_ge (Fin a) (Fin b) \<longleftrightarrow> b \<le> a"
  "py_ne (Fin a) (Fin b) \<longleftrightarrow> a \<noteq> b"
  by (simp_all add: py_gt_def py_ge_def py_ne_def)

lemma py_cmp_zero [simp]:
  "py_lt (Fin a) 0 \<longleftrightarrow> a < 0" "py_le (Fin a) 0 \<longleftrightarrow> a \<le> 0" "py_eq (Fin a) 0 \<longleftrightarrow> a = 0"
  "py_gt (Fin a) 0 \<longleftrightarrow> 0 < a" "py_ge (Fin a) 0 \<longleftrightarrow> 0 \<le> a" "py_ne (Fin a) 0 \<longleftrightarrow> a \<noteq> 0"
  "py_lt 0 (Fin a) \<longleftrightarrow> 0 < a" "py_le 0 (Fin a) \<longleftrightarrow> 0 \<le> a"
  by (simp_all add: zero_pyfloat_def)

lemma py_eq_iff: "py_eq a b \<longleftrightarrow> a = b \<and> a \<noteq> NaN"
  by (cases a; cases b) simp_all

lemma py_ne_iff: "py_ne a b \<longleftrightarrow> a \<noteq> b \<or> a = NaN"
  by (simp add: py_ne_def py_eq_iff)

lemma py_ne_self_iff: "py_ne a a \<longleftrightarrow> isnan a"
  by (cases a) (simp_all add: isnan_def)

lemma py_eq_zero_iff [simp]: "py_eq a 0 \<longleftrightarrow> a = 0"
  by (cases a) simp_all

lemma py_ne_zero_iff [simp]: "py_ne a 0 \<longleftrightarrow> a \<noteq> 0"
  by (cases a) simp_all

lemma py_gt_le_zero: "py_gt a 0 \<Longrightarrow> \<not> py_le a 0"
  by (cases a) simp_all

lemma isnan_simps [simp]: "isnan NaN" "\<not> isnan (Fin a)" "\<not> isnan 0" "\<not> isnan 1"
  by (simp_all add: isnan_def zero_pyfloat_def one_pyfloat_def)

lemma isnan_iff: "isnan a \<longleftrightarrow> a = NaN"
  by (cases a) simp_all

lemma mult_zero_pyfloat: "\<not> isnan a \<Longrightarrow> 0 * a = 0" "\<not> isnan a \<Longrightarrow> a * 0 = 0"
  by (cases a; simp add: zero_pyfloat_def)+

lemma distrib_pyfloat: "a * (b + c) = a * b + a * (c :: pyfloat)"
  by (cases a; cases b; cases c) (simp_all add: distrib_left)

text \<open>
  On values that are not negative, and with a coefficient that is not
  negative, \<open>v + s * v\<^sup>2\<close> keeps the order.
\<close>

lemma quadratic_less_iff:
  fixes s v w :: real
  assumes "0 \<le> s" "0 \<le> v" "0 \<le> w"
  shows "v + s * (v * v) < w + s * (w * w) \<longleftrightarrow> v < w"
proof -
  have "w + s * (w * w) - (v + s * (v * v)) = (w - v) * (1 + s * (v + w))"
    by (simp add: algebra_simps)
  moreover from assms have "0 < 1 + s * (v + w)"
    by (simp add: add_pos_nonneg)
  ultimately have "0 < w + s * (w * w) - (v + s * (v * v)) \<longleftrightarrow> 0 < w - v"
    by (simp add: zero_less_mult_iff)
  then show ?thesis by simp
qed

text \<open>
  The in-place update \<open>v *= 1.0 + s*v\<close> with \<open>s = 0\<close> leaves every value as it
  is, NaN included: this is why the source may skip the update when the
  coefficient is zero.
\<close>

lemma scale_by_zero_coeff [simp]: "v * (1 + 0 * v) = (v :: pyfloat)"
  by (cases v) (simp_all add: zero_pyfloat_def one_pyfloat_def)

end
