(* ===== verification/AfwGeom.thy ===== *)
theory AfwGeom
  imports ISR_Prelude
begin

text \<open>
  Integer boxes of the host framework (\<open>afwGeom.Box2I\<close>), as far as the sources
  and the unit test use them: a box is its minimum corner and its dimensions,
  it contains the pixels \<open>minX \<le> x < minX + width\<close>, \<open>minY \<le> y < minY + height\<close>,
  and it is empty when a dimension is zero.  The framework's code is not part
  of the repository; the operations are modelled from their use
  (\<open>amp.getBBox()\<close>, \<open>Box2I(Point2I, Extent2I)\<close>, sub-image construction).
\<close>

section \<open>Boxes\<close>

type_synonym extent2i = "nat \<times> nat"

record box2i =
  getMinX :: int
  getMinY :: int
  getWidth :: nat
  getHeight :: nat

definition Box2I :: "point2i \<Rightarrow> extent2i \<Rightarrow> box2i" where
  "Box2I p e = \<lparr>getMinX = fst p, getMinY = snd p, getWidth = fst e, getHeight = snd e\<rparr>"

definition isEmpty :: "box2i \<Rightarrow> bool" where
  "isEmpty b \<longleftrightarrow> getWidth b = 0 \<or> getHeight b = 0"

definition containsPoint :: "box2i \<Rightarrow> int \<Rightarrow> int \<Rightarrow> bool" where
  "containsPoint b x y \<longleftrightarrow>
     getMinX b \<le> x \<and> x < getMinX b + int (getWidth b) \<and>
     getMinY b \<le> y \<and> y < getMinY b + int (getHeight b)"

definition containsBox :: "box2i \<Rightarrow> box2i \<Rightarrow> bool" where
  "containsBox b c \<longleftrightarrow>
     isEmpty c \<or>
     (getMinX b \<le> getMinX c \<and> getMinX c + int (getWidth c) \<le> getMinX b + int (getWidth b) \<and>
      getMinY b \<le> getMinY c \<and> getMinY c + int (getHeight c) \<le> getMinY b + int (getHeight b))"

definition overlaps :: "box2i \<Rightarrow> box2i \<Rightarrow> bool" where
  "overlaps b c \<longleftrightarrow>
     \<not> isEmpty b \<and> \<not> isEmpty c \<and>
     getMinX b < getMinX c + int (getWidth c) \<and> getMinX c < getMinX b + int (getWidth b) \<and>
     getMinY b < getMinY c + int (getHeight c) \<and> getMinY c < getMinY b + int (getHeight b)"

fun pairwise_disjoint :: "box2i list \<Rightarrow> bool" where
  "pairwise_disjoint [] \<longleftrightarrow> True"
| "pairwise_disjoint (b # bs) \<longleftrightarrow> list_all (\<lambda>c. \<not> overlaps b c) bs \<and> pairwise_disjoint bs"

section \<open>Facts about boxes\<close>

lemma Box2I_sel [simp]:
  "getMinX (Box2I p e) = fst p" "getMinY (Box2I p e) = snd p"
  "getWidth (Box2I p e) = fst e" "getHeight (Box2I p e) = snd e"
  by (simp_all add: Box2I_def)

lemma isEmpty_no_point: "isEmpty b \<Longrightarrow> \<not> containsPoint b x y"
  by (auto simp: isEmpty_def containsPoint_def)

lemma containsPoint_not_empty: "containsPoint b x y \<Longrightarrow> \<not> isEmpty b"
  by (auto simp: isEmpty_def containsPoint_def)

lemma not_empty_has_point:
  "\<not> isEmpty b \<Longrightarrow> containsPoint b (getMinX b) (getMinY b)"
  by (auto simp: isEmpty_def containsPoint_def)

lemma containsBox_refl [simp]: "containsBox b b"
  by (simp add: containsBox_def)

lemma containsBox_point:
  "containsBox b c \<Longrightarrow> containsPoint c x y \<Longrightarrow> containsPoint b x y"
  by (auto simp: containsBox_def containsPoint_def isEmpty_def)

lemma containsBox_iff_points:
  "containsBox b c \<longleftrightarrow> (\<forall>x y. containsPoint c x y \<longrightarrow> containsPoint b x y)"
proof
  assume "containsBox b c"
  then show "\<forall>x y. containsPoint c x y \<longrightarrow> containsPoint b x y"
    by (blast intro: containsBox_point)
next
  assume all: "\<forall>x y. containsPoint c x y \<longrightarrow> containsPoint b x y"
  show "containsBox b c"
  proof (cases "isEmpty c")
    case True
    then show ?thesis by (simp add: containsBox_def)
  next
    case False
    then have lo: "containsPoint c (getMinX c) (getMinY c)"
      and hi: "containsPoint c (getMinX c + int (getWidth c) - 1) (getMinY c + int (getHeight c) - 1)"
      by (auto simp: isEmpty_def containsPoint_def)
    from all lo have "containsPoint b (getMinX c) (getMinY c)" by blast
    moreover from all hi
    have "containsPoint b (getMinX c + int (getWidth c) - 1) (getMinY c + int (getHeight c) - 1)"
      by blast
    ultimately show ?thesis
      by (auto simp: containsBox_def containsPoint_def)
  qed
qed

lemma containsBox_trans: "containsBox a b \<Longrightarrow> containsBox b c \<Longrightarrow> containsBox a c"
  by (simp add: containsBox_iff_points)

lemma overlaps_sym: "overlaps b c \<longleftrightarrow> overlaps c b"
  by (auto simp: overlaps_def)

lemma overlaps_iff_point:
  "overlaps b c \<longleftrightarrow> (\<exists>x y. containsPoint b x y \<and> containsPoint c x y)"
proof
  assume ov: "overlaps b c"
  let ?x = "max (getMinX b) (getMinX c)" and ?y = "max (getMinY b) (getMinY c)"
  from ov have "containsPoint b ?x ?y \<and> containsPoint c ?x ?y"
    by (auto simp: overlaps_def containsPoint_def isEmpty_def)
  then show "\<exists>x y. containsPoint b x y \<and> containsPoint c x y" by blast
next
  assume "\<exists>x y. containsPoint b x y \<and> containsPoint c x y"
  then show "overlaps b c"
    by (auto simp: overlaps_def containsPoint_def isEmpty_def)
qed

lemma not_overlaps_disjoint:
  "\<not> overlaps b c \<Longrightarrow> containsPoint b x y \<Longrightarrow> \<not> containsPoint c x y"
  by (auto simp: overlaps_iff_point)

lemma pairwise_disjoint_Cons_point:
  "pairwise_disjoint (b # bs) \<Longrightarrow> containsPoint b x y \<Longrightarrow> c \<in> set bs \<Longrightarrow>
   \<not> containsPoint c x y"
  by (auto simp: list_all_iff dest: not_overlaps_disjoint)

lemma pairwise_disjoint_tl: "pairwise_disjoint (b # bs) \<Longrightarrow> pairwise_disjoint bs"
  by simp

lemma pairwise_disjoint_unique:
  "pairwise_disjoint bs \<Longrightarrow> i < length bs \<Longrightarrow> j < length bs \<Longrightarrow>
   containsPoint (bs ! i) x y \<Longrightarrow> containsPoint (bs ! j) x y \<Longrightarrow> i = j"
proof (induction bs arbitrary: i j)
  case Nil
  then show ?case by simp
next
  case (Cons b bs)
  show ?case
  proof (cases i; cases j)
    fix i' j' assume ij: "i = Suc i'" "j = Suc j'"
    with Cons.prems have "i' = j'"
      by (intro Cons.IH) simp_all
    with ij show ?thesis by simp
  next
    fix j' assume ij: "i = 0" "j = Suc j'"
    with Cons.prems have "bs ! j' \<in> set bs" "containsPoint b x y" "containsPoint (bs ! j') x y"
      by simp_all
    with Cons.prems(1) show ?thesis
      by (blast dest: pairwise_disjoint_Cons_point)
  next
    fix i' assume ij: "i = Suc i'" "j = 0"
    with Cons.prems have "bs ! i' \<in> set bs" "containsPoint b x y" "containsPoint (bs ! i') x y"
      by simp_all
    with Cons.prems(1) show ?thesis
      by (blast dest: pairwise_disjoint_Cons_point)
  qed simp
qed

end
