(* ===== verification/AfwImage.thy ===== *)
theory AfwImage
  imports PyValues AfwGeom
begin

text \<open>
  Masked images of the host framework (\<open>afwImage.MaskedImageF\<close>): an image
  plane, a mask plane of 16-bit pixels and a variance plane over the same box,
  with the dictionary that names the mask bits.  A sub-image made with the
  \<open>PARENT\<close> origin is a view: writing through it writes the parent's pixels
  inside the view's box.  The model keeps one buffer per plane and restricts
  every update to the box of the view (\<open>update_box\<close>), so the aliasing of
  view and parent is explicit.  \<open>mask_typed\<close> says that the mask pixels of an
  image use no bit but those of the planes its dictionary defines
  (\<open>plane_bits\<close>).  The framework's code is not part of the repository; these
  operations are modelled from their documented behaviour.
\<close>

section \<open>Masked images\<close>

type_synonym maskPixel = "16 word"
type_synonym maskPlaneDict = "(string \<times> nat) list"

record maskedImage =
  getImage :: "pyfloat plane"
  getMask :: "maskPixel plane"
  getVariance :: "pyfloat plane"
  getXY0 :: point2i
  getMaskPlaneDict :: maskPlaneDict

record 'd exposure =
  getMaskedImage :: maskedImage
  getDetector :: 'd
  getExptime :: pyfloat

definition defaultMaskPlaneDict :: maskPlaneDict where
  "defaultMaskPlaneDict =
     [(''BAD'', 0), (''SAT'', 1), (''INTRP'', 2), (''CR'', 3), (''EDGE'', 4),
      (''DETECTED'', 5), (''DETECTED_NEGATIVE'', 6), (''SUSPECT'', 7), (''NO_DATA'', 8)]"

definition imageWidth :: "maskedImage \<Rightarrow> nat" where
  "imageWidth mi = plane_width (getImage mi)"

definition imageHeight :: "maskedImage \<Rightarrow> nat" where
  "imageHeight mi = plane_height (getImage mi)"

definition imageBBox :: "maskedImage \<Rightarrow> box2i" where
  "imageBBox mi =
     \<lparr>getMinX = fst (getXY0 mi), getMinY = snd (getXY0 mi),
      getWidth = imageWidth mi, getHeight = imageHeight mi\<rparr>"

definition wf_dict :: "maskPlaneDict \<Rightarrow> bool" where
  "wf_dict d \<longleftrightarrow> distinct (map fst d) \<and> distinct (map snd d) \<and> list_all (\<lambda>e. snd e < 16) d"

definition wf_image :: "maskedImage \<Rightarrow> bool" where
  "wf_image mi \<longleftrightarrow>
     rect (imageWidth mi) (imageHeight mi) (getImage mi) \<and>
     rect (imageWidth mi) (imageHeight mi) (getMask mi) \<and>
     rect (imageWidth mi) (imageHeight mi) (getVariance mi) \<and>
     wf_dict (getMaskPlaneDict mi)"

definition image_at :: "maskedImage \<Rightarrow> int \<Rightarrow> int \<Rightarrow> pyfloat option" where
  "image_at mi = pixel (getXY0 mi) (getImage mi)"

definition mask_at :: "maskedImage \<Rightarrow> int \<Rightarrow> int \<Rightarrow> maskPixel option" where
  "mask_at mi = pixel (getXY0 mi) (getMask mi)"

definition variance_at :: "maskedImage \<Rightarrow> int \<Rightarrow> int \<Rightarrow> pyfloat option" where
  "variance_at mi = pixel (getXY0 mi) (getVariance mi)"

section \<open>Mask planes\<close>

definition planeBitMask :: "maskPlaneDict \<Rightarrow> string \<Rightarrow> maskPixel option" where
  "planeBitMask d name = map_option (\<lambda>b. push_bit b 1) (map_of d name)"

definition getPlaneBitMask :: "maskPlaneDict \<Rightarrow> string \<Rightarrow> 'm error + maskPixel" where
  "getPlaneBitMask d name =
     (case planeBitMask d name of
        None \<Rightarrow> Inl (InvalidParameterError name)
      | Some bits \<Rightarrow> Inr bits)"

definition plane_bits :: "maskPlaneDict \<Rightarrow> maskPixel" where
  "plane_bits d = fold (\<lambda>e acc. acc OR push_bit (snd e) 1) d 0"

definition mask_typed :: "maskedImage \<Rightarrow> bool" where
  "mask_typed mi \<longleftrightarrow>
     plane_all (\<lambda>m. m AND NOT (plane_bits (getMaskPlaneDict mi)) = 0) (getMask mi)"

section \<open>Views and updates through a view\<close>

definition subImage :: "maskedImage \<Rightarrow> box2i \<Rightarrow> 'm error + box2i" where
  "subImage mi b = (if containsBox (imageBBox mi) b then Inr b else Inl LengthError)"

definition update_box :: "box2i \<Rightarrow> point2i \<Rightarrow> ('a \<Rightarrow> 'a) \<Rightarrow> 'a plane \<Rightarrow> 'a plane" where
  "update_box b org f p = map_plane org (\<lambda>x y v. if containsPoint b x y then f v else v) p"

definition setMaskAbove :: "box2i \<Rightarrow> pyfloat \<Rightarrow> maskPixel \<Rightarrow> maskedImage \<Rightarrow> maskedImage" where
  "setMaskAbove b t bits mi =
     mi\<lparr>getMask :=
          map_plane (getXY0 mi)
            (\<lambda>x y vm. if containsPoint b x y \<and> py_gt (fst vm) t then snd vm OR bits else snd vm)
            (zip_plane (getImage mi) (getMask mi))\<rparr>"

section \<open>Sub-images as copies, and writing them back\<close>

text \<open>
  Where a view is handed to a routine outside the repository, the model gives
  the routine the pixels of the view (\<open>crop\<close>) and writes what it returns
  back into the parent (\<open>paste\<close>), so the routine can only have changed
  pixels of the view.  \<open>toParent\<close> resolves a box given in the \<open>LOCAL\<close> frame
  of an image.  The mask plane dictionary is shared by view and parent.
\<close>

datatype imageOrigin = PARENT | LOCAL

definition toParent :: "imageOrigin \<Rightarrow> point2i \<Rightarrow> box2i \<Rightarrow> box2i" where
  "toParent origin xy0 b =
     (case origin of
        PARENT \<Rightarrow> b
      | LOCAL \<Rightarrow> b\<lparr>getMinX := getMinX b + fst xy0, getMinY := getMinY b + snd xy0\<rparr>)"

definition crop_plane :: "box2i \<Rightarrow> point2i \<Rightarrow> 'a plane \<Rightarrow> 'a plane" where
  "crop_plane b org p =
     map (\<lambda>row. take (getWidth b) (drop (nat (getMinX b - fst org)) row))
       (take (getHeight b) (drop (nat (getMinY b - snd org)) p))"

definition crop :: "box2i \<Rightarrow> maskedImage \<Rightarrow> maskedImage" where
  "crop b mi =
     mi\<lparr>getImage := crop_plane b (getXY0 mi) (getImage mi),
        getMask := crop_plane b (getXY0 mi) (getMask mi),
        getVariance := crop_plane b (getXY0 mi) (getVariance mi),
        getXY0 := (getMinX b, getMinY b)\<rparr>"

definition paste_plane :: "point2i \<Rightarrow> 'a plane \<Rightarrow> point2i \<Rightarrow> 'a plane \<Rightarrow> 'a plane" where
  "paste_plane sorg sub org p =
     map_plane org (\<lambda>x y v. case pixel sorg sub x y of Some w \<Rightarrow> w | None \<Rightarrow> v) p"

definition paste :: "maskedImage \<Rightarrow> maskedImage \<Rightarrow> maskedImage" where
  "paste sub mi =
     mi\<lparr>getImage := paste_plane (getXY0 sub) (getImage sub) (getXY0 mi) (getImage mi),
        getMask := paste_plane (getXY0 sub) (getMask sub) (getXY0 mi) (getMask mi),
        getVariance := paste_plane (getXY0 sub) (getVariance sub) (getXY0 mi) (getVariance mi),
        getMaskPlaneDict := getMaskPlaneDict sub\<rparr>"

definition keeps_shape :: "maskedImage \<Rightarrow> maskedImage \<Rightarrow> bool" where
  "keeps_shape mi mi' \<longleftrightarrow> wf_image mi' \<and> imageBBox mi' = imageBBox mi"

definition ExposureFactory ::
  "imageOrigin \<Rightarrow> 'd exposure \<Rightarrow> box2i \<Rightarrow> 'm error + 'd exposure" where
  "ExposureFactory origin e bbox =
     (let mi = getMaskedImage e; b = toParent origin (getXY0 mi) bbox in
      if containsBox (imageBBox mi) b then Inr (e\<lparr>getMaskedImage := crop b mi\<rparr>)
      else Inl LengthError)"

definition ImageFactory :: "imageOrigin \<Rightarrow> maskedImage \<Rightarrow> box2i \<Rightarrow> 'm error + box2i" where
  "ImageFactory origin mi bbox =
     (let b = toParent origin (getXY0 mi) bbox in
      if containsBox (imageBBox mi) b then Inr b else Inl LengthError)"

definition addMaskPlane :: "string \<Rightarrow> maskedImage \<Rightarrow> 'm error + maskedImage" where
  "addMaskPlane name mi =
     (let d = getMaskPlaneDict mi in
      if name \<in> fst ` set d then Inr mi
      else case find (\<lambda>b. b \<notin> snd ` set d) [0..<16] of
             None \<Rightarrow> Inl (PexRuntimeError ''Max number of planes already used'')
           | Some b \<Rightarrow> Inr (mi\<lparr>getMaskPlaneDict := d @ [(name, b)]\<rparr>))"

section \<open>A small image\<close>

text \<open>
  Two rows of two pixels, one of them NaN and one already carrying mask bit 0;
  the closed instances of the development are evaluated on it.
\<close>

definition ex_image :: maskedImage where
  "ex_image = \<lparr>getImage = [[Fin 10, Fin 2], [Fin 4, NaN]], getMask = [[0, 1], [0, 0]],
     getVariance = [[Fin 1, Fin 1], [Fin 1, Fin 1]], getXY0 = (0, 0),
     getMaskPlaneDict = defaultMaskPlaneDict\<rparr>"

section \<open>Facts\<close>

lemma update_box_length [simp]: "length (update_box b org f p) = length p"
  by (simp add: update_box_def)

lemma rect_update_box [simp, isr_wf]: "rect w h (update_box b org f p) \<longleftrightarrow> rect w h p"
  by (simp add: update_box_def)

lemma plane_width_map_plane [simp]: "plane_width (map_plane org f p) = plane_width p"
  by (cases p) (simp_all add: plane_width_def map_plane_def)

lemma plane_width_update_box [simp]: "plane_width (update_box b org f p) = plane_width p"
  by (simp add: update_box_def)

lemma pixel_update_box [simp]:
  "pixel org (update_box b org f p) x y =
     map_option (\<lambda>v. if containsPoint b x y then f v else v) (pixel org p x y)"
  by (simp add: update_box_def)

lemma update_box_id [simp]: "update_box b org (\<lambda>v. v) p = p"
  by (simp add: update_box_def)

lemma update_box_empty: "isEmpty b \<Longrightarrow> update_box b org f p = p"
  by (simp add: update_box_def isEmpty_no_point)

lemma update_box_cong:
  assumes "\<And>x y v. containsPoint b x y \<Longrightarrow> pixel org p x y = Some v \<Longrightarrow> f v = g v"
  shows "update_box b org f p = update_box b org g p"
  unfolding update_box_def by (rule map_plane_cong) (simp add: assms)

lemma update_box_compose:
  "update_box b org g (update_box b org f p) = update_box b org (\<lambda>v. g (f v)) p"
  unfolding update_box_def map_plane_map_plane by (rule map_plane_cong) simp

lemma update_box_commute:
  assumes "\<not> overlaps b c"
  shows "update_box b org f (update_box c org g p) = update_box c org g (update_box b org f p)"
  unfolding update_box_def map_plane_map_plane
  by (rule map_plane_cong) (use assms in \<open>auto dest: not_overlaps_disjoint\<close>)

lemma imageBBox_sel [simp]:
  "getMinX (imageBBox mi) = fst (getXY0 mi)" "getMinY (imageBBox mi) = snd (getXY0 mi)"
  "getWidth (imageBBox mi) = imageWidth mi" "getHeight (imageBBox mi) = imageHeight mi"
  by (simp_all add: imageBBox_def)

lemma wf_image_rects:
  assumes "wf_image mi"
  shows "rect (imageWidth mi) (imageHeight mi) (getImage mi)"
    and "rect (imageWidth mi) (imageHeight mi) (getMask mi)"
    and "rect (imageWidth mi) (imageHeight mi) (getVariance mi)"
  using assms by (simp_all add: wf_image_def)

lemma image_at_in_box:
  assumes "wf_image mi"
  shows "image_at mi x y \<noteq> None \<longleftrightarrow> containsPoint (imageBBox mi) x y"
  using pixel_rect [OF wf_image_rects(1) [OF assms], of "getXY0 mi" x y]
  by (auto simp: image_at_def containsPoint_def)

lemma mask_at_in_box:
  assumes "wf_image mi"
  shows "mask_at mi x y \<noteq> None \<longleftrightarrow> containsPoint (imageBBox mi) x y"
  using pixel_rect [OF wf_image_rects(2) [OF assms], of "getXY0 mi" x y]
  by (auto simp: mask_at_def containsPoint_def)

lemma variance_at_in_box:
  assumes "wf_image mi"
  shows "variance_at mi x y \<noteq> None \<longleftrightarrow> containsPoint (imageBBox mi) x y"
  using pixel_rect [OF wf_image_rects(3) [OF assms], of "getXY0 mi" x y]
  by (auto simp: variance_at_def containsPoint_def)

lemma maskedImage_eqI:
  assumes "wf_image mi" "wf_image mi'"
    and "imageWidth mi = imageWidth mi'" "imageHeight mi = imageHeight mi'"
    and "getXY0 mi = getXY0 mi'" "getMaskPlaneDict mi = getMaskPlaneDict mi'"
    and "\<And>x y. image_at mi x y = image_at mi' x y"
    and "\<And>x y. mask_at mi x y = mask_at mi' x y"
    and "\<And>x y. variance_at mi x y = variance_at mi' x y"
  shows "mi = mi'"
proof -
  have eq: "p = q" if "rect (imageWidth mi) (imageHeight mi) p"
    "rect (imageWidth mi) (imageHeight mi) q"
    "\<And>x y. pixel (getXY0 mi) p x y = pixel (getXY0 mi) q x y" for p q :: "'a plane"
    using that by (intro plane_eqI [of p q "getXY0 mi"]) (auto simp: rect_iff)
  have "getImage mi = getImage mi'"
    using wf_image_rects(1) [OF assms(1)] wf_image_rects(1) [OF assms(2)] assms(3-5,7)
    by (intro eq) (simp_all add: image_at_def)
  moreover have "getMask mi = getMask mi'"
    using wf_image_rects(2) [OF assms(1)] wf_image_rects(2) [OF assms(2)] assms(3-5,8)
    by (intro eq) (simp_all add: mask_at_def)
  moreover have "getVariance mi = getVariance mi'"
    using wf_image_rects(3) [OF assms(1)] wf_image_rects(3) [OF assms(2)] assms(3-5,9)
    by (intro eq) (simp_all add: variance_at_def)
  ultimately show ?thesis using assms(5,6) by simp
qed

lemma planeBitMask_default [simp]:
  "planeBitMask defaultMaskPlaneDict ''SUSPECT'' = Some 128"
  "planeBitMask defaultMaskPlaneDict ''SAT'' = Some 2"
  "planeBitMask defaultMaskPlaneDict ''BAD'' = Some 1"
  by (simp_all add: planeBitMask_def defaultMaskPlaneDict_def)

lemma wf_dict_default [simp]: "wf_dict defaultMaskPlaneDict"
  by (simp add: wf_dict_def defaultMaskPlaneDict_def)

lemma getPlaneBitMask_Some [simp]:
  "planeBitMask d name = Some bits \<Longrightarrow> getPlaneBitMask d name = Inr bits"
  by (simp add: getPlaneBitMask_def)

lemma getPlaneBitMask_None [simp]:
  "planeBitMask d name = None \<Longrightarrow> getPlaneBitMask d name = Inl (InvalidParameterError name)"
  by (simp add: getPlaneBitMask_def)

lemma getPlaneBitMask_Inr_iff:
  "getPlaneBitMask d name = Inr bits \<longleftrightarrow> planeBitMask d name = Some bits"
  by (simp add: getPlaneBitMask_def split: option.splits)

lemma planeBitMask_bit:
  assumes "wf_dict d" "planeBitMask d name = Some bits"
  shows "\<exists>b < 16. map_of d name = Some b \<and> (\<forall>n. bit bits n \<longleftrightarrow> n = b)"
proof -
  from assms(2) obtain b where b: "map_of d name = Some b" "bits = push_bit b 1"
    by (auto simp: planeBitMask_def)
  from b(1) have "(name, b) \<in> set d" by (rule map_of_SomeD)
  with assms(1) have "b < 16" by (auto simp: wf_dict_def list_all_iff)
  moreover from this have "\<forall>n. bit (push_bit b (1 :: maskPixel)) n \<longleftrightarrow> n = b"
    by (auto simp: bit_simps)
  ultimately show ?thesis using b by blast
qed

lemma suspect_test:
  assumes "wf_dict d" "planeBitMask d name = Some bits"
  shows "(m OR bits) AND bits \<noteq> 0" "bits \<noteq> 0"
proof -
  from planeBitMask_bit [OF assms] obtain b where b: "\<forall>n. bit bits n \<longleftrightarrow> n = b" by blast
  then have "bit ((m OR bits) AND bits) b" "bit bits b" by (simp_all add: bit_simps)
  then show "(m OR bits) AND bits \<noteq> 0" "bits \<noteq> 0" by auto
qed

lemma planeBitMask_disjoint:
  assumes "wf_dict d" "planeBitMask d name = Some bits" "planeBitMask d name' = Some bits'"
    and "name \<noteq> name'"
  shows "bits AND bits' = 0"
proof -
  from planeBitMask_bit [OF assms(1,2)] obtain b where
    b: "map_of d name = Some b" "\<forall>n. bit bits n \<longleftrightarrow> n = b" by blast
  from planeBitMask_bit [OF assms(1,3)] obtain b' where
    b': "map_of d name' = Some b'" "\<forall>n. bit bits' n \<longleftrightarrow> n = b'" by blast
  from b(1) b'(1) have "(name, b) \<in> set d" "(name', b') \<in> set d"
    by (auto dest: map_of_SomeD)
  note mem = this
  from assms(1) have "inj_on snd (set d)" by (simp add: wf_dict_def distinct_map)
  from inj_onD [OF this _ mem] assms(4) have "b \<noteq> b'" by auto
  with b(2) b'(2) show ?thesis by (auto simp: bit_eq_iff bit_simps)
qed

lemma bit_fold_plane_bits:
  "bit (fold (\<lambda>e acc. acc OR push_bit (snd e) 1) d (acc :: maskPixel)) n \<longleftrightarrow>
     bit acc n \<or> n < 16 \<and> n \<in> snd ` set d"
  by (induction d arbitrary: acc) (auto simp: bit_simps)

lemma bit_plane_bits: "bit (plane_bits d) n \<longleftrightarrow> n < 16 \<and> n \<in> snd ` set d"
  unfolding plane_bits_def bit_fold_plane_bits by simp

lemma typed_iff: "m AND NOT (plane_bits d) = 0 \<longleftrightarrow> (\<forall>n. bit m n \<longrightarrow> n \<in> snd ` set d)"
proof -
  have "n < 16" if "bit m n" for n using bit_imp_le_length [OF that] by simp
  then show ?thesis by (auto simp: bit_eq_iff bit_simps bit_plane_bits)
qed

lemma planeBitMask_typed:
  assumes "planeBitMask d name = Some bits"
  shows "bits AND NOT (plane_bits d) = 0"
proof -
  from assms obtain b where b: "map_of d name = Some b" "bits = push_bit b 1"
    by (auto simp: planeBitMask_def)
  from map_of_SomeD [OF b(1)] have "b \<in> snd ` set d" by force
  with b(2) show ?thesis by (auto simp: typed_iff bit_simps)
qed

lemma typed_or:
  "m AND NOT pb = 0 \<Longrightarrow> bits AND NOT pb = 0 \<Longrightarrow> (m OR bits) AND NOT pb = (0 :: maskPixel)"
  by (simp add: bit.conj_disj_distrib2)

lemma setMaskAbove_frame [simp, isr_frame]:
  "getImage (setMaskAbove b t bits mi) = getImage mi"
  "getVariance (setMaskAbove b t bits mi) = getVariance mi"
  "getXY0 (setMaskAbove b t bits mi) = getXY0 mi"
  "getMaskPlaneDict (setMaskAbove b t bits mi) = getMaskPlaneDict mi"
  by (simp_all add: setMaskAbove_def)

lemma setMaskAbove_dims [simp]:
  "imageWidth (setMaskAbove b t bits mi) = imageWidth mi"
  "imageHeight (setMaskAbove b t bits mi) = imageHeight mi"
  "imageBBox (setMaskAbove b t bits mi) = imageBBox mi"
  by (simp_all add: imageWidth_def imageHeight_def imageBBox_def)

lemma wf_setMaskAbove [isr_wf]: "wf_image mi \<Longrightarrow> wf_image (setMaskAbove b t bits mi)"
  by (simp add: wf_image_def) (simp add: setMaskAbove_def rect_zip_plane)

lemma mask_typed_setMaskAbove:
  assumes "mask_typed mi" "planeBitMask (getMaskPlaneDict mi) name = Some bits"
  shows "mask_typed (setMaskAbove b t bits mi)"
  using assms(1) planeBitMask_typed [OF assms(2)]
  unfolding mask_typed_def setMaskAbove_def
  by (auto intro!: plane_all_map_plane [OF plane_all_zip_snd] simp: typed_or)

lemma image_at_setMaskAbove [simp]:
  "image_at (setMaskAbove b t bits mi) = image_at mi"
  by (simp add: image_at_def)

lemma variance_at_setMaskAbove [simp]:
  "variance_at (setMaskAbove b t bits mi) = variance_at mi"
  by (simp add: variance_at_def)

lemma mask_at_setMaskAbove:
  assumes "wf_image mi"
  shows "mask_at (setMaskAbove b t bits mi) x y =
     (case (image_at mi x y, mask_at mi x y) of
        (Some v, Some m) \<Rightarrow> Some (if containsPoint b x y \<and> py_gt v t then m OR bits else m)
      | _ \<Rightarrow> None)"
  using pixel_zip_plane [OF wf_image_rects(1,2) [OF assms], of "getXY0 mi" x y]
  by (auto simp: mask_at_def image_at_def setMaskAbove_def split: option.splits)

section \<open>Facts about sub-images and mask planes\<close>

lemma length_crop_plane:
  "length (crop_plane b org p) = min (getHeight b) (length p - nat (getMinY b - snd org))"
  by (simp add: crop_plane_def)

lemma pixel_crop_plane:
  assumes "rect w h p"
    and "fst org \<le> getMinX b" "getMinX b + int (getWidth b) \<le> fst org + int w"
    and "snd org \<le> getMinY b" "getMinY b + int (getHeight b) \<le> snd org + int h"
  shows "pixel (getMinX b, getMinY b) (crop_plane b org p) x y =
     (if containsPoint b x y then pixel org p x y else None)"
proof (cases "containsPoint b x y")
  case False
  with assms show ?thesis
    by (auto simp: pixel_def crop_plane_def containsPoint_def rect_iff)
next
  case True
  let ?j = "nat (y - getMinY b)" and ?i = "nat (x - getMinX b)"
  let ?dy = "nat (getMinY b - snd org)" and ?dx = "nat (getMinX b - fst org)"
  from True assms have j: "?j < getHeight b" "?dy + ?j < length p" "?dy + ?j < h"
    and i: "?i < getWidth b" "?dx + ?i < w"
    by (auto simp: containsPoint_def rect_iff)
  from j assms(1) have row: "length (p ! (?dy + ?j)) = w" by (simp add: rect_iff)
  have idx: "nat (y - snd org) = ?dy + ?j" "nat (x - fst org) = ?dx + ?i"
    using True assms by (auto simp: containsPoint_def)
  have "?j < length p - ?dy" "?i < w - ?dx" using j i by linarith+
  with True j i row assms show ?thesis
    by (simp add: pixel_def crop_plane_def idx containsPoint_def)
qed

lemma rect_crop_plane:
  assumes "rect w h p"
    and "fst org \<le> getMinX b" "getMinX b + int (getWidth b) \<le> fst org + int w"
    and "snd org \<le> getMinY b" "getMinY b + int (getHeight b) \<le> snd org + int h"
  shows "rect (getWidth b) (getHeight b) (crop_plane b org p)"
proof -
  have "nat (getMinY b - snd org) + getHeight b \<le> h" "nat (getMinX b - fst org) + getWidth b \<le> w"
    using assms(2-5) by linarith+
  with assms(1) show ?thesis
    by (auto simp: rect_iff crop_plane_def min_def)
qed

lemma plane_width_rect: "rect w h p \<Longrightarrow> plane_width p = (if h = 0 then 0 else w)"
  by (cases p) (auto simp: rect_def plane_width_def)

lemma containsBox_nonemptyD:
  assumes "containsBox a b" "\<not> isEmpty b"
  shows "getMinX a \<le> getMinX b" "getMinX b + int (getWidth b) \<le> getMinX a + int (getWidth a)"
    "getMinY a \<le> getMinY b" "getMinY b + int (getHeight b) \<le> getMinY a + int (getHeight a)"
  using assms by (simp_all add: containsBox_def)

lemma crop_frame [simp]:
  "getXY0 (crop b mi) = (getMinX b, getMinY b)"
  "getMaskPlaneDict (crop b mi) = getMaskPlaneDict mi"
  by (simp_all add: crop_def)

lemma crop_planes:
  assumes "wf_image mi" "containsBox (imageBBox mi) b" "\<not> isEmpty b"
  shows "rect (getWidth b) (getHeight b) (getImage (crop b mi))"
    and "rect (getWidth b) (getHeight b) (getMask (crop b mi))"
    and "rect (getWidth b) (getHeight b) (getVariance (crop b mi))"
  using wf_image_rects [OF assms(1)] containsBox_nonemptyD [OF assms(2,3)]
  by (simp_all add: crop_def rect_crop_plane [where w = "imageWidth mi" and h = "imageHeight mi"])

lemma crop_dims:
  assumes "wf_image mi" "containsBox (imageBBox mi) b" "\<not> isEmpty b"
  shows "imageWidth (crop b mi) = getWidth b" "imageHeight (crop b mi) = getHeight b"
    "imageBBox (crop b mi) = b"
proof -
  from assms(3) have pos: "0 < getWidth b" "0 < getHeight b" by (simp_all add: isEmpty_def)
  from crop_planes(1) [OF assms] pos show w: "imageWidth (crop b mi) = getWidth b"
    by (simp add: imageWidth_def plane_width_rect)
  from crop_planes(1) [OF assms] show h: "imageHeight (crop b mi) = getHeight b"
    by (simp add: imageHeight_def plane_height_def rect_def)
  from w h show "imageBBox (crop b mi) = b" by (simp add: imageBBox_def)
qed

lemma wf_crop [isr_wf]:
  assumes "wf_image mi" "containsBox (imageBBox mi) b" "\<not> isEmpty b"
  shows "wf_image (crop b mi)"
  using crop_planes [OF assms] crop_dims(1,2) [OF assms] assms(1)
  by (simp add: wf_image_def)

lemma crop_at:
  assumes "wf_image mi" "containsBox (imageBBox mi) b" "\<not> isEmpty b"
  shows "image_at (crop b mi) x y = (if containsPoint b x y then image_at mi x y else None)"
    and "mask_at (crop b mi) x y = (if containsPoint b x y then mask_at mi x y else None)"
    and "variance_at (crop b mi) x y = (if containsPoint b x y then variance_at mi x y else None)"
  using wf_image_rects [OF assms(1)] containsBox_nonemptyD [OF assms(2,3)]
  by (simp_all add: image_at_def mask_at_def variance_at_def crop_def
      pixel_crop_plane [where w = "imageWidth mi" and h = "imageHeight mi"])

lemma paste_frame [simp]:
  "getXY0 (paste sub mi) = getXY0 mi"
  "getMaskPlaneDict (paste sub mi) = getMaskPlaneDict sub"
  "imageWidth (paste sub mi) = imageWidth mi" "imageHeight (paste sub mi) = imageHeight mi"
  "imageBBox (paste sub mi) = imageBBox mi"
  by (simp_all add: paste_def paste_plane_def imageWidth_def imageHeight_def imageBBox_def
      plane_height_def)

lemma wf_paste [isr_wf]:
  "wf_image mi \<Longrightarrow> wf_dict (getMaskPlaneDict sub) \<Longrightarrow> wf_image (paste sub mi)"
  by (simp add: wf_image_def) (simp add: paste_def paste_plane_def)

lemma paste_at:
  "image_at (paste sub mi) x y =
     map_option (\<lambda>v. case image_at sub x y of Some w \<Rightarrow> w | None \<Rightarrow> v) (image_at mi x y)"
  "mask_at (paste sub mi) x y =
     map_option (\<lambda>v. case mask_at sub x y of Some w \<Rightarrow> w | None \<Rightarrow> v) (mask_at mi x y)"
  "variance_at (paste sub mi) x y =
     map_option (\<lambda>v. case variance_at sub x y of Some w \<Rightarrow> w | None \<Rightarrow> v) (variance_at mi x y)"
  by (simp_all add: image_at_def mask_at_def variance_at_def paste_def paste_plane_def)

lemma paste_crop:
  assumes "wf_image mi" "containsBox (imageBBox mi) b" "\<not> isEmpty b"
  shows "paste (crop b mi) mi = mi"
proof (rule maskedImage_eqI)
  show "wf_image (paste (crop b mi) mi)"
    using assms(1) by (intro wf_paste) (simp_all add: wf_image_def)
  show "wf_image mi" by fact
  fix x y
  show "image_at (paste (crop b mi) mi) x y = image_at mi x y"
    by (cases "image_at mi x y") (simp_all add: paste_at crop_at [OF assms])
  show "mask_at (paste (crop b mi) mi) x y = mask_at mi x y"
    by (cases "mask_at mi x y") (simp_all add: paste_at crop_at [OF assms])
  show "variance_at (paste (crop b mi) mi) x y = variance_at mi x y"
    by (cases "variance_at mi x y") (simp_all add: paste_at crop_at [OF assms])
qed simp_all

lemma crop_paste:
  assumes "wf_image mi" "wf_image sub" "imageBBox sub = b" "containsBox (imageBBox mi) b"
    "\<not> isEmpty b"
  shows "crop b (paste sub mi) = sub"
proof (rule maskedImage_eqI)
  have wfp: "wf_image (paste sub mi)"
    using assms(1,2) by (intro wf_paste) (simp_all add: wf_image_def)
  have cb: "containsBox (imageBBox (paste sub mi)) b" using assms(4) by simp
  show "wf_image (crop b (paste sub mi))" by (rule wf_crop [OF wfp cb assms(5)])
  show "wf_image sub" by fact
  show "imageWidth (crop b (paste sub mi)) = imageWidth sub"
    "imageHeight (crop b (paste sub mi)) = imageHeight sub"
    using crop_dims [OF wfp cb assms(5)] assms(3) by (auto simp: imageBBox_def)
  show "getXY0 (crop b (paste sub mi)) = getXY0 sub"
    using assms(3) by (auto simp: imageBBox_def)
  fix x y
  have in_mi: "containsPoint (imageBBox mi) x y" if "containsPoint b x y"
    using that assms(4) by (rule containsBox_point [rotated])
  show "image_at (crop b (paste sub mi)) x y = image_at sub x y"
    using image_at_in_box [OF assms(2), of x y] image_at_in_box [OF assms(1), of x y] in_mi assms(3)
    by (cases "image_at sub x y"; cases "image_at mi x y")
       (auto simp: crop_at [OF wfp cb assms(5)] paste_at)
  show "mask_at (crop b (paste sub mi)) x y = mask_at sub x y"
    using mask_at_in_box [OF assms(2), of x y] mask_at_in_box [OF assms(1), of x y] in_mi assms(3)
    by (cases "mask_at sub x y"; cases "mask_at mi x y")
       (auto simp: crop_at [OF wfp cb assms(5)] paste_at)
  show "variance_at (crop b (paste sub mi)) x y = variance_at sub x y"
    using variance_at_in_box [OF assms(2), of x y] variance_at_in_box [OF assms(1), of x y]
      in_mi assms(3)
    by (cases "variance_at sub x y"; cases "variance_at mi x y")
       (auto simp: crop_at [OF wfp cb assms(5)] paste_at)
qed simp

lemma paste_paste:
  assumes "wf_image sub" "wf_image sub'" "imageBBox sub' = imageBBox sub" "wf_image mi"
  shows "paste sub' (paste sub mi) = paste sub' mi"
proof (rule maskedImage_eqI)
  from assms(1,2) have d: "wf_dict (getMaskPlaneDict sub)" "wf_dict (getMaskPlaneDict sub')"
    by (simp_all add: wf_image_def)
  show "wf_image (paste sub' (paste sub mi))" by (intro wf_paste assms(4) d)
  show "wf_image (paste sub' mi)" by (intro wf_paste assms(4) d)
  fix x y
  have none: "image_at sub x y = None" "mask_at sub x y = None" "variance_at sub x y = None"
    if "image_at sub' x y = None"
    using that image_at_in_box [OF assms(1), of x y] image_at_in_box [OF assms(2), of x y]
      mask_at_in_box [OF assms(1), of x y] variance_at_in_box [OF assms(1), of x y] assms(3)
    by auto
  have same: "mask_at sub' x y = None \<longleftrightarrow> image_at sub' x y = None"
    "variance_at sub' x y = None \<longleftrightarrow> image_at sub' x y = None"
    using image_at_in_box [OF assms(2), of x y] mask_at_in_box [OF assms(2), of x y]
      variance_at_in_box [OF assms(2), of x y] by auto
  show "image_at (paste sub' (paste sub mi)) x y = image_at (paste sub' mi) x y"
    "mask_at (paste sub' (paste sub mi)) x y = mask_at (paste sub' mi) x y"
    "variance_at (paste sub' (paste sub mi)) x y = variance_at (paste sub' mi) x y"
    using none same
    by (auto simp: paste_at option.map_comp o_def split: option.splits intro!: map_option_cong)
qed simp_all

lemma crop_eqI:
  assumes "wf_image buf" "containsBox (imageBBox buf) w" "\<not> isEmpty w"
    and "wf_image mi" "imageBBox mi = w" "getMaskPlaneDict mi = getMaskPlaneDict buf"
    and "\<And>x y. containsPoint w x y \<Longrightarrow> image_at buf x y = image_at mi x y"
    and "\<And>x y. containsPoint w x y \<Longrightarrow> mask_at buf x y = mask_at mi x y"
    and "\<And>x y. containsPoint w x y \<Longrightarrow> variance_at buf x y = variance_at mi x y"
  shows "crop w buf = mi"
proof (rule maskedImage_eqI)
  show "wf_image (crop w buf)" by (rule wf_crop [OF assms(1-3)])
  show "wf_image mi" by fact
  from assms(5) crop_dims [OF assms(1-3)]
  show "imageWidth (crop w buf) = imageWidth mi" "imageHeight (crop w buf) = imageHeight mi"
    "getXY0 (crop w buf) = getXY0 mi"
    by (auto simp: imageBBox_def Box2I_def)
  show "getMaskPlaneDict (crop w buf) = getMaskPlaneDict mi" using assms(6) by simp
  fix x y
  have out: "image_at mi x y = None" "mask_at mi x y = None" "variance_at mi x y = None"
    if "\<not> containsPoint w x y"
    using that image_at_in_box [OF assms(4), of x y] mask_at_in_box [OF assms(4), of x y]
      variance_at_in_box [OF assms(4), of x y] assms(5) by auto
  show "image_at (crop w buf) x y = image_at mi x y"
    "mask_at (crop w buf) x y = mask_at mi x y"
    "variance_at (crop w buf) x y = variance_at mi x y"
    using assms(7-9) [of x y] out by (simp_all add: crop_at [OF assms(1-3)])
qed

lemma crop_self:
  assumes "wf_image mi" "\<not> isEmpty (imageBBox mi)"
  shows "crop (imageBBox mi) mi = mi"
  by (rule crop_eqI) (simp_all add: assms)

lemma crop_crop:
  assumes "wf_image buf" "containsBox (imageBBox buf) w" "\<not> isEmpty w"
    and "containsBox w b" "\<not> isEmpty b"
  shows "crop b (crop w buf) = crop b buf"
proof (rule crop_eqI)
  from assms(2,4) have inside: "containsBox (imageBBox buf) b" by (rule containsBox_trans)
  show "wf_image (crop w buf)" by (rule wf_crop [OF assms(1-3)])
  show "containsBox (imageBBox (crop w buf)) b" using assms(4) by (simp add: crop_dims [OF assms(1-3)])
  show "wf_image (crop b buf)" by (rule wf_crop [OF assms(1) inside assms(5)])
  show "imageBBox (crop b buf) = b" by (rule crop_dims(3) [OF assms(1) inside assms(5)])
  fix x y
  assume "containsPoint b x y"
  with assms(4) have "containsPoint w x y" by (rule containsBox_point)
  with \<open>containsPoint b x y\<close> show "image_at (crop w buf) x y = image_at (crop b buf) x y"
    "mask_at (crop w buf) x y = mask_at (crop b buf) x y"
    "variance_at (crop w buf) x y = variance_at (crop b buf) x y"
    by (simp_all add: crop_at [OF assms(1-3)] crop_at [OF assms(1) inside assms(5)])
qed (simp_all add: assms(5))

lemma crop_paste_commute:
  assumes "wf_image buf" "containsBox (imageBBox buf) w" "\<not> isEmpty w"
    and "wf_dict (getMaskPlaneDict sub)"
  shows "crop w (paste sub buf) = paste sub (crop w buf)"
proof (rule maskedImage_eqI)
  note wfp = wf_paste [OF assms(1,4)]
  from assms(2) have cb: "containsBox (imageBBox (paste sub buf)) w" by simp
  show "wf_image (crop w (paste sub buf))" by (rule wf_crop [OF wfp cb assms(3)])
  show "wf_image (paste sub (crop w buf))" by (rule wf_paste [OF wf_crop [OF assms(1-3)] assms(4)])
  fix x y
  show "image_at (crop w (paste sub buf)) x y = image_at (paste sub (crop w buf)) x y"
    "mask_at (crop w (paste sub buf)) x y = mask_at (paste sub (crop w buf)) x y"
    "variance_at (crop w (paste sub buf)) x y = variance_at (paste sub (crop w buf)) x y"
    by (simp_all add: crop_at [OF wfp cb assms(3)] crop_at [OF assms(1-3)] paste_at)
qed (simp_all add: crop_dims [OF wf_paste [OF assms(1,4)] _ assms(3)] crop_dims [OF assms(1-3)] assms(2))

lemma crop_setMaskAbove:
  assumes "wf_image buf" "containsBox (imageBBox buf) w" "\<not> isEmpty w"
  shows "crop w (setMaskAbove b t bits buf) = setMaskAbove b t bits (crop w buf)"
proof (rule crop_eqI)
  show "wf_image (setMaskAbove b t bits buf)" using assms(1) by (rule wf_setMaskAbove)
  show "containsBox (imageBBox (setMaskAbove b t bits buf)) w" using assms(2) by simp
  show "wf_image (setMaskAbove b t bits (crop w buf))"
    by (intro wf_setMaskAbove wf_crop assms)
  show "imageBBox (setMaskAbove b t bits (crop w buf)) = w" by (simp add: crop_dims [OF assms])
qed (simp_all add: assms(3) mask_at_setMaskAbove [OF assms(1)]
    mask_at_setMaskAbove [OF wf_crop [OF assms]] crop_at [OF assms])

lemma addMaskPlane_known:
  "name \<in> fst ` set (getMaskPlaneDict mi) \<Longrightarrow> addMaskPlane name mi = Inr mi"
  by (simp add: addMaskPlane_def)

lemma addMaskPlane_InrD:
  assumes "addMaskPlane name mi = Inr mi'"
  shows "mi' = mi \<and> name \<in> fst ` set (getMaskPlaneDict mi) \<or>
     (\<exists>b < 16. b \<notin> snd ` set (getMaskPlaneDict mi) \<and> name \<notin> fst ` set (getMaskPlaneDict mi) \<and>
        mi' = mi\<lparr>getMaskPlaneDict := getMaskPlaneDict mi @ [(name, b)]\<rparr>)"
  using assms
  by (auto simp: addMaskPlane_def Let_def find_Some_iff split: if_splits option.splits)

lemma addMaskPlane_frame [isr_frame]:
  assumes "addMaskPlane name mi = Inr mi'"
  shows "getImage mi' = getImage mi" "getMask mi' = getMask mi" "getVariance mi' = getVariance mi"
    "getXY0 mi' = getXY0 mi" "imageBBox mi' = imageBBox mi"
  using addMaskPlane_InrD [OF assms] by (auto simp: imageBBox_def imageWidth_def imageHeight_def)

lemma wf_addMaskPlane [isr_wf]:
  assumes "addMaskPlane name mi = Inr mi'" "wf_image mi"
  shows "wf_image mi'"
  using addMaskPlane_InrD [OF assms(1)] assms(2)
  by (auto simp: wf_image_def wf_dict_def imageWidth_def imageHeight_def)

lemma addMaskPlane_keeps:
  assumes "addMaskPlane name mi = Inr mi'" "planeBitMask (getMaskPlaneDict mi) n = Some bits"
  shows "planeBitMask (getMaskPlaneDict mi') n = Some bits"
  using addMaskPlane_InrD [OF assms(1)] assms(2)
  by (auto simp: planeBitMask_def map_add_Some_iff)

lemma addMaskPlane_defines:
  assumes "addMaskPlane name mi = Inr mi'"
  shows "planeBitMask (getMaskPlaneDict mi') name \<noteq> None"
proof -
  have "map_of (getMaskPlaneDict mi') name \<noteq> None"
    using addMaskPlane_InrD [OF assms] by (auto simp: map_of_eq_None_iff)
  then show ?thesis by (simp add: planeBitMask_def)
qed

lemma addMaskPlane_room:
  assumes "length (getMaskPlaneDict mi) < 16"
  shows "\<exists>mi'. addMaskPlane name mi = Inr mi'"
proof (cases "name \<in> fst ` set (getMaskPlaneDict mi)")
  case True
  then show ?thesis by (simp add: addMaskPlane_known)
next
  case False
  have "card (snd ` set (getMaskPlaneDict mi)) < 16"
    using assms card_image_le [of "set (getMaskPlaneDict mi)" snd]
      card_length [of "getMaskPlaneDict mi"] by simp
  then have "\<not> {0..<16} \<subseteq> snd ` set (getMaskPlaneDict mi)"
    using card_mono [of "snd ` set (getMaskPlaneDict mi)" "{0..<16}"] by auto
  then obtain b where "b < 16" "b \<notin> snd ` set (getMaskPlaneDict mi)" by fastforce
  then have "find (\<lambda>b. b \<notin> snd ` set (getMaskPlaneDict mi)) [0..<16] \<noteq> None"
    by (auto simp: find_None_iff)
  with False show ?thesis
    by (auto simp: addMaskPlane_def Let_def split: option.splits)
qed

lemma ExposureFactory_iff:
  "ExposureFactory origin e bbox = Inr e' \<longleftrightarrow>
     containsBox (imageBBox (getMaskedImage e)) (toParent origin (getXY0 (getMaskedImage e)) bbox) \<and>
     e' = e\<lparr>getMaskedImage :=
            crop (toParent origin (getXY0 (getMaskedImage e)) bbox) (getMaskedImage e)\<rparr>"
  by (auto simp: ExposureFactory_def Let_def)

lemma ExposureFactory_outside:
  "\<not> containsBox (imageBBox (getMaskedImage e)) (toParent origin (getXY0 (getMaskedImage e)) bbox) \<Longrightarrow>
   ExposureFactory origin e bbox = Inl LengthError"
  by (simp add: ExposureFactory_def Let_def)

lemma ExposureFactory_shares:
  assumes "ExposureFactory origin e bbox = Inr e'"
  shows "getDetector e' = getDetector e" "getExptime e' = getExptime e"
  using assms by (simp_all add: ExposureFactory_iff)

lemma toParent_PARENT [simp]: "toParent PARENT xy0 b = b"
  by (simp add: toParent_def)

lemma toParent_origin [simp]: "toParent origin (0, 0) b = b"
  by (cases origin) (simp_all add: toParent_def)

end
