(* ===== verification/CameraGeom.thy ===== *)
theory CameraGeom
  imports AfwImage
begin

text \<open>
  Detectors and amplifiers of the host framework's camera geometry, as the two
  tasks read them.  \<open>ProportionalLinearizeTask\<close> uses the newer interface: a
  detector is a sequence of amplifiers, each with a name, a bounding box in
  the detector's pixel frame, a linearity type and its coefficients.
  \<open>IsrTask\<close> uses the older one, in which a detector object is either an
  amplifier or a CCD made of amplifiers, each with electronic parameters and
  on-disk regions.  Both are value objects that the tasks only read.
\<close>

section \<open>The interface used by the linearity correction\<close>

record amplifier =
  getName :: string
  getBBox :: box2i
  getLinearityType :: string
  getLinearityCoeffs :: "pyfloat list"

record detector =
  getId :: int
  getAmplifiers :: "amplifier list"

definition amps_in_image :: "detector \<Rightarrow> maskedImage \<Rightarrow> bool" where
  "amps_in_image d mi \<longleftrightarrow>
     list_all (\<lambda>a. containsBox (imageBBox mi) (getBBox a)) (getAmplifiers d)"

definition amps_disjoint :: "detector \<Rightarrow> bool" where
  "amps_disjoint d \<longleftrightarrow> pairwise_disjoint (map getBBox (getAmplifiers d))"

section \<open>The interface used by the ISR task\<close>

text \<open>
  In the older interface a detector object is an \<open>Amp\<close> or a \<open>Ccd\<close>.  An
  amplifier has electronic parameters and two on-disk regions (all its pixels,
  and its overscan); a CCD is iterated amplifier by amplifier and lists its
  defects, each a box.  \<open>cast_Ccd\<close> and \<open>cast_Amp\<close> are the framework's dynamic
  casts: they give Python's \<open>None\<close> when the object is of the other class, and
  \<open>None\<close> is what an exposure without a detector returns.
\<close>

record electronicParams =
  getGain :: pyfloat
  getReadNoise :: pyfloat
  getSaturationLevel :: pyfloat

record ampData =
  getElectronicParams :: electronicParams
  getDiskAllPixels :: box2i
  getDiskBiasSec :: box2i

datatype defect = Defect box2i

primrec defect_getBBox :: "defect \<Rightarrow> box2i" where
  "defect_getBBox (Defect b) = b"

record ccdData =
  getAmps :: "ampData list"
  getDefects :: "defect list"

datatype geomDetector = Amp ampData | Ccd ccdData

type_synonym pyDetector = "geomDetector option"

definition cast_Ccd :: "pyDetector \<Rightarrow> pyDetector" where
  "cast_Ccd d = (case d of Some (Ccd c) \<Rightarrow> Some (Ccd c) | _ \<Rightarrow> None)"

definition cast_Amp :: "pyDetector \<Rightarrow> pyDetector" where
  "cast_Amp d = (case d of Some (Amp a) \<Rightarrow> Some (Amp a) | _ \<Rightarrow> None)"

definition iterate_detector :: "pyDetector \<Rightarrow> 'm error + ampData list" where
  "iterate_detector d =
     (case d of
        Some (Ccd c) \<Rightarrow> Inr (getAmps c)
      | Some (Amp a) \<Rightarrow> Inl (TypeError ''Amp'')
      | None \<Rightarrow> Inl (TypeError ''NoneType''))"

definition detector_getElectronicParams :: "pyDetector \<Rightarrow> 'm error + electronicParams" where
  "detector_getElectronicParams d =
     (case d of
        Some (Amp a) \<Rightarrow> Inr (getElectronicParams a)
      | _ \<Rightarrow> Inl (AttributeError ''getElectronicParams''))"

definition detector_getDiskBiasSec :: "pyDetector \<Rightarrow> 'm error + box2i" where
  "detector_getDiskBiasSec d =
     (case d of
        Some (Amp a) \<Rightarrow> Inr (getDiskBiasSec a)
      | _ \<Rightarrow> Inl (AttributeError ''getDiskBiasSec''))"

definition detector_getDefects :: "pyDetector \<Rightarrow> 'm error + defect list" where
  "detector_getDefects d =
     (case d of
        Some (Ccd c) \<Rightarrow> Inr (getDefects c)
      | _ \<Rightarrow> Inl (AttributeError ''getDefects''))"

section \<open>Facts\<close>

lemma cast_simps [simp]:
  "cast_Ccd None = None" "cast_Ccd (Some (Ccd c)) = Some (Ccd c)" "cast_Ccd (Some (Amp a)) = None"
  "cast_Amp None = None" "cast_Amp (Some (Amp a)) = Some (Amp a)" "cast_Amp (Some (Ccd c)) = None"
  by (simp_all add: cast_Ccd_def cast_Amp_def)

lemma cast_Amp_cast_Ccd [simp]: "cast_Amp (cast_Ccd d) = None" "cast_Ccd (cast_Amp d) = None"
  by (auto simp: cast_Ccd_def cast_Amp_def split: option.splits geomDetector.splits)

lemma cast_Ccd_eq_Some_iff: "cast_Ccd d = Some g \<longleftrightarrow> d = Some g \<and> (\<exists>c. g = Ccd c)"
  by (auto simp: cast_Ccd_def split: option.splits geomDetector.splits)

lemma cast_Amp_eq_Some_iff: "cast_Amp d = Some g \<longleftrightarrow> d = Some g \<and> (\<exists>a. g = Amp a)"
  by (auto simp: cast_Amp_def split: option.splits geomDetector.splits)

lemma cast_idem [simp]: "cast_Ccd (cast_Ccd d) = cast_Ccd d" "cast_Amp (cast_Amp d) = cast_Amp d"
  by (auto simp: cast_Ccd_def cast_Amp_def split: option.splits geomDetector.splits)

lemma iterate_detector_simps [simp]:
  "iterate_detector (Some (Ccd c)) = Inr (getAmps c)"
  "iterate_detector None = Inl (TypeError ''NoneType'')"
  by (simp_all add: iterate_detector_def)

lemma iterate_cast_Ccd:
  "iterate_detector (cast_Ccd d) =
     (case d of Some (Ccd c) \<Rightarrow> Inr (getAmps c) | _ \<Rightarrow> Inl (TypeError ''NoneType''))"
  by (simp add: cast_Ccd_def iterate_detector_def split: option.splits geomDetector.splits)

lemma detector_accessors [simp]:
  "detector_getElectronicParams (Some (Amp a)) = Inr (getElectronicParams a)"
  "detector_getDiskBiasSec (Some (Amp a)) = Inr (getDiskBiasSec a)"
  "detector_getDefects (Some (Ccd c)) = Inr (getDefects c)"
  "detector_getDefects None = Inl (AttributeError ''getDefects'')"
  by (simp_all add: detector_getElectronicParams_def detector_getDiskBiasSec_def
      detector_getDefects_def)

end
