(* ===== verification/ProportionalLinearize.thy ===== *)
theory ProportionalLinearize
  imports CameraGeom
begin

text \<open>
  \<open>ProportionalLinearizeTask\<close> of \<open>python/lsst/ip/isr/proportionalLinearize.py\<close>.

  \<^item> \<open>doCorrect\<close> is the method of that name: the decision taken from the first
    amplifier, with its two \<open>RuntimeError\<close>s and the \<open>IndexError\<close> of
    \<open>detector[0]\<close> on a detector with no amplifier.
  \<^item> \<open>linearizeAmp\<close> is the body of the loop of \<open>run\<close> for one amplifier,
    \<open>linearizeAmps\<close> the loop, \<open>ProportionalLinearizeTask_run\<close> the method.
    The exposure is updated in place by the source, so the model returns the
    exposure together with the result: when an amplifier raises, the
    amplifiers before it have already been corrected.
  \<^item> \<open>corrected\<close>, \<open>flagged\<close>, \<open>ampSpec\<close> and \<open>linearizeSpec\<close> state the documented
    model of the class (square coefficient, unused second coefficient, suspect
    threshold) pixel by pixel; the lemmas show that the loop implements it.
  \<^item> \<open>ex_exposure\<close> is the 2 by 2 image \<open>ex_image\<close> with two amplifiers, one per
    column, on which the closed instances of the theorems are evaluated.
\<close>

section \<open>Messages and log records\<close>

datatype lin_message =
    CoeffOneNotZero pyfloat int string
  | NeedThreeCoeffs nat
  | UnsupportedLinearityType string int string

datatype log_record =
    DebugNotWanted int
  | InfoApplied int

type_synonym lin_error = "lin_message error"

section \<open>The task\<close>

definition doCorrect :: "detector \<Rightarrow> lin_error + bool" where
  "doCorrect detector =
     (case getAmplifiers detector of
        [] \<Rightarrow> Inl IndexError
      | amp # _ \<Rightarrow>
          (let linearityType = getLinearityType amp in
           if linearityType = ''NONE'' then Inr False
           else if linearityType = ''PROPORTIONAL'' then
             (let numCoeffs = length (getLinearityCoeffs amp) in
              if numCoeffs < 3 then Inl (RuntimeError (NeedThreeCoeffs numCoeffs))
              else Inr True)
           else Inl (RuntimeError
                  (UnsupportedLinearityType linearityType (getId detector) (getName amp)))))"

definition FootprintSet :: "box2i \<Rightarrow> pyfloat \<Rightarrow> string \<Rightarrow> maskedImage \<Rightarrow> lin_error + maskedImage" where
  "FootprintSet ampImage threshold planeName mi =
     rbind (getPlaneBitMask (getMaskPlaneDict mi) planeName)
       (\<lambda>bits. Inr (setMaskAbove ampImage threshold bits mi))"

definition scaleImage :: "box2i \<Rightarrow> pyfloat \<Rightarrow> maskedImage \<Rightarrow> maskedImage" where
  "scaleImage ampImage squareCoeff mi =
     mi\<lparr>getImage :=
          update_box ampImage (getXY0 mi) (\<lambda>v. v * (1 + squareCoeff * v)) (getImage mi)\<rparr>"

definition linearizeAmp :: "detector \<Rightarrow> amplifier \<Rightarrow> maskedImage \<Rightarrow> lin_error + bool \<times> maskedImage" where
  "linearizeAmp detector amp mi =
     rbind (unpack3 (take 3 (getLinearityCoeffs amp))) (\<lambda>(squareCoeff, coeff1, maxUncorr).
       if py_ne coeff1 0 then
         Inl (RuntimeError (CoeffOneNotZero coeff1 (getId detector) (getName amp)))
       else if py_le maxUncorr 0 \<and> py_eq squareCoeff 0 then Inr (False, mi)
       else
         rbind (subImage mi (getBBox amp)) (\<lambda>ampImage.
         rbind (if py_gt maxUncorr 0 then FootprintSet ampImage maxUncorr ''SUSPECT'' mi
                else Inr mi) (\<lambda>mi1.
         Inr (True, if py_ne squareCoeff 0 then scaleImage ampImage squareCoeff mi1 else mi1))))"

fun linearizeAmps ::
  "detector \<Rightarrow> amplifier list \<Rightarrow> bool \<Rightarrow> maskedImage \<Rightarrow> (lin_error + bool) \<times> maskedImage" where
  "linearizeAmps detector [] didCorrect mi = (Inr didCorrect, mi)"
| "linearizeAmps detector (amp # amps) didCorrect mi =
     (case linearizeAmp detector amp mi of
        Inl e \<Rightarrow> (Inl e, mi)
      | Inr (corrected, mi') \<Rightarrow> linearizeAmps detector amps (didCorrect \<or> corrected) mi')"

definition ProportionalLinearizeTask_run ::
  "detector exposure \<Rightarrow> log_record list \<Rightarrow>
   (lin_error + unit) \<times> detector exposure \<times> log_record list" where
  "ProportionalLinearizeTask_run exposure logs =
     (let detector = getDetector exposure in
      case doCorrect detector of
        Inl e \<Rightarrow> (Inl e, exposure, logs)
      | Inr False \<Rightarrow> (Inr (), exposure, logs @ [DebugNotWanted (getId detector)])
      | Inr True \<Rightarrow>
          (case linearizeAmps detector (getAmplifiers detector) False (getMaskedImage exposure) of
             (Inl e, mi) \<Rightarrow> (Inl e, exposure\<lparr>getMaskedImage := mi\<rparr>, logs)
           | (Inr didCorrect, mi) \<Rightarrow>
               (Inr (), exposure\<lparr>getMaskedImage := mi\<rparr>,
                if didCorrect then logs @ [InfoApplied (getId detector)] else logs)))"

section \<open>The documented model\<close>

definition corrected :: "pyfloat \<Rightarrow> pyfloat \<Rightarrow> pyfloat" where
  "corrected squareCoeff uncorr = uncorr + squareCoeff * (uncorr * uncorr)"

definition flagged :: "pyfloat \<Rightarrow> pyfloat \<Rightarrow> bool" where
  "flagged maxUncorr uncorr \<longleftrightarrow> py_gt maxUncorr 0 \<and> py_gt uncorr maxUncorr"

definition coeffs_ok :: "amplifier \<Rightarrow> bool" where
  "coeffs_ok amp \<longleftrightarrow>
     3 \<le> length (getLinearityCoeffs amp) \<and> \<not> py_ne (getLinearityCoeffs amp ! 1) 0"

definition squareCoeff_of :: "amplifier \<Rightarrow> pyfloat" where
  "squareCoeff_of amp = getLinearityCoeffs amp ! 0"

definition maxUncorr_of :: "amplifier \<Rightarrow> pyfloat" where
  "maxUncorr_of amp = getLinearityCoeffs amp ! 2"

definition skipped :: "amplifier \<Rightarrow> bool" where
  "skipped amp \<longleftrightarrow> py_le (maxUncorr_of amp) 0 \<and> py_eq (squareCoeff_of amp) 0"

definition ampSpec :: "maskPixel \<Rightarrow> amplifier \<Rightarrow> maskedImage \<Rightarrow> maskedImage" where
  "ampSpec suspect amp mi =
     mi\<lparr>getImage :=
          update_box (getBBox amp) (getXY0 mi) (corrected (squareCoeff_of amp)) (getImage mi),
        getMask :=
          map_plane (getXY0 mi)
            (\<lambda>x y vm. if containsPoint (getBBox amp) x y \<and> flagged (maxUncorr_of amp) (fst vm)
                       then snd vm OR suspect else snd vm)
            (zip_plane (getImage mi) (getMask mi))\<rparr>"

definition linearizeSpec :: "maskPixel \<Rightarrow> amplifier list \<Rightarrow> maskedImage \<Rightarrow> maskedImage" where
  "linearizeSpec suspect amps mi = fold (ampSpec suspect) amps mi"

definition amp_at :: "amplifier list \<Rightarrow> int \<Rightarrow> int \<Rightarrow> amplifier option" where
  "amp_at amps x y = find (\<lambda>a. containsPoint (getBBox a) x y) amps"

section \<open>A small exposure\<close>

definition ex_amp0 :: amplifier where
  "ex_amp0 = \<lparr>getName = ''A0'', getBBox = Box2I (0, 0) (1, 2),
     getLinearityType = ''PROPORTIONAL'', getLinearityCoeffs = [Fin (1 / 10), 0, Fin 5]\<rparr>"

definition ex_amp1 :: amplifier where
  "ex_amp1 = \<lparr>getName = ''A1'', getBBox = Box2I (1, 0) (1, 2),
     getLinearityType = ''PROPORTIONAL'', getLinearityCoeffs = [Fin (1 / 2), 0, Fin 3, Fin 7]\<rparr>"

definition ex_exposure_with :: "amplifier list \<Rightarrow> detector exposure" where
  "ex_exposure_with amps =
     \<lparr>getMaskedImage = ex_image, getDetector = \<lparr>getId = 7, getAmplifiers = amps\<rparr>,
      getExptime = Fin 30\<rparr>"

definition ex_exposure :: "detector exposure" where
  "ex_exposure = ex_exposure_with [ex_amp0, ex_amp1]"

definition ex_corrected :: maskedImage where
  "ex_corrected = ex_image\<lparr>getImage := [[Fin 20, Fin 4], [Fin (28 / 5), NaN]],
     getMask := [[128, 1], [0, 0]]\<rparr>"

definition ex_half_corrected :: maskedImage where
  "ex_half_corrected = ex_image\<lparr>getImage := [[Fin 20, Fin 2], [Fin (28 / 5), NaN]],
     getMask := [[128, 1], [0, 0]]\<rparr>"

section \<open>Arithmetic of the correction\<close>

lemma scale_eq_corrected: "v * (1 + s * v) = corrected s v"
  by (cases v; cases s) (simp_all add: corrected_def one_pyfloat_def algebra_simps)

lemma scale_fun_eq: "(\<lambda>v. v * (1 + s * v)) = corrected s"
  by (rule ext) (rule scale_eq_corrected)

lemma corrected_zero [simp]: "corrected 0 v = v"
  by (cases v) (simp_all add: corrected_def zero_pyfloat_def)

lemma corrected_zero_fun [simp]: "corrected 0 = (\<lambda>v. v)"
  by (rule ext) simp

lemma corrected_NaN [simp]: "corrected NaN v = NaN" "corrected s NaN = NaN"
  by (simp_all add: corrected_def)

lemma corrected_Fin [simp]: "corrected (Fin s) (Fin v) = Fin (v + s * (v * v))"
  by (simp add: corrected_def)

lemma corrected_ge:
  assumes "py_ge s 0"
  shows "\<exists>v'. corrected s (Fin v) = Fin v' \<and> v \<le> v'"
  using assms by (cases s) simp_all

lemma corrected_gt_iff:
  assumes "py_ge s 0" "py_ge v 0" "py_ge w 0"
  shows "py_gt (corrected s w) (corrected s v) \<longleftrightarrow> py_gt w v"
  using assms by (cases s; cases v; cases w) (simp_all add: quadratic_less_iff)

lemma corrected_le:
  assumes "py_ge s 0" "py_ge v 0" "py_le v w"
  shows "py_le (corrected s v) (corrected s w)"
proof (cases s; cases v; cases w)
  fix a b c assume eq: "s = Fin a" "v = Fin b" "w = Fin c"
  with assms have "0 \<le> a" "0 \<le> b" "0 \<le> c" "b \<le> c" by simp_all
  with quadratic_less_iff [of a c b] have "\<not> c + a * (c * c) < b + a * (b * b)" by simp
  with eq show ?thesis by simp
qed (use assms in simp_all)

lemma flagged_simps [simp]:
  "\<not> py_gt t 0 \<Longrightarrow> \<not> flagged t v" "py_gt t 0 \<Longrightarrow> flagged t v \<longleftrightarrow> py_gt v t"
  "\<not> flagged NaN v" "\<not> flagged t NaN"
  by (simp_all add: flagged_def)

lemma flagged_Fin: "flagged (Fin t) (Fin v) \<longleftrightarrow> 0 < t \<and> t < v"
  by (simp add: flagged_def)

lemma flagged_corrected:
  assumes "py_ge s 0" "py_ge v 0"
  shows "flagged t v \<longleftrightarrow> py_gt t 0 \<and> py_gt (corrected s v) (corrected s t)"
proof (cases "py_gt t 0")
  case True
  then have "py_ge t 0" by (cases t) simp_all
  from corrected_gt_iff [OF assms(1) this assms(2)] True show ?thesis by simp
qed simp

lemma py_le_not_gt: "py_le t 0 \<Longrightarrow> \<not> py_gt t 0"
  by (cases t) simp_all

lemma map_plane_snd_zip:
  assumes "rect w h p" "rect w h q"
  shows "map_plane org (\<lambda>x y vm. snd vm) (zip_plane p q) = q"
proof (rule nth_equalityI)
  show "length (map_plane org (\<lambda>x y vm. snd vm) (zip_plane p q)) = length q"
    using assms by (simp add: rect_length)
next
  fix j assume "j < length (map_plane org (\<lambda>x y vm. snd vm) (zip_plane p q))"
  with assms have j: "j < h" by (simp add: rect_length)
  with assms have "length (p ! j) = length (q ! j)" by (simp add: rect_nth)
  with j assms show "map_plane org (\<lambda>x y vm. snd vm) (zip_plane p q) ! j = q ! j"
    by (simp add: rect_length imapi_const_map)
qed

section \<open>One amplifier\<close>

subsection \<open>The two updates and the model of one amplifier\<close>

lemma scaleImage_frame [simp, isr_frame]:
  "getMask (scaleImage b s mi) = getMask mi"
  "getVariance (scaleImage b s mi) = getVariance mi"
  "getXY0 (scaleImage b s mi) = getXY0 mi"
  "getMaskPlaneDict (scaleImage b s mi) = getMaskPlaneDict mi"
  by (simp_all add: scaleImage_def)

lemma scaleImage_dims [simp]:
  "imageWidth (scaleImage b s mi) = imageWidth mi"
  "imageHeight (scaleImage b s mi) = imageHeight mi"
  "imageBBox (scaleImage b s mi) = imageBBox mi"
  by (simp_all add: imageWidth_def imageHeight_def imageBBox_def scaleImage_def plane_height_def)

lemma scaleImage_zero [simp]: "scaleImage b 0 mi = mi"
  by (simp add: scaleImage_def scale_fun_eq)

lemma wf_scaleImage [isr_wf]: "wf_image mi \<Longrightarrow> wf_image (scaleImage b s mi)"
  by (simp add: wf_image_def) (simp add: scaleImage_def)

lemma mask_typed_scaleImage [simp]: "mask_typed (scaleImage b s mi) = mask_typed mi"
  by (simp add: mask_typed_def scaleImage_def)

lemma mask_at_scaleImage [simp]: "mask_at (scaleImage b s mi) = mask_at mi"
  by (simp add: mask_at_def)

lemma variance_at_scaleImage [simp]: "variance_at (scaleImage b s mi) = variance_at mi"
  by (simp add: variance_at_def)

lemma ampSpec_frame [simp, isr_frame]:
  "getVariance (ampSpec bits amp mi) = getVariance mi"
  "getXY0 (ampSpec bits amp mi) = getXY0 mi"
  "getMaskPlaneDict (ampSpec bits amp mi) = getMaskPlaneDict mi"
  by (simp_all add: ampSpec_def)

lemma ampSpec_dims [simp]:
  "imageWidth (ampSpec bits amp mi) = imageWidth mi"
  "imageHeight (ampSpec bits amp mi) = imageHeight mi"
  "imageBBox (ampSpec bits amp mi) = imageBBox mi"
  by (simp_all add: imageWidth_def imageHeight_def imageBBox_def ampSpec_def plane_height_def)

lemma wf_ampSpec [isr_wf]: "wf_image mi \<Longrightarrow> wf_image (ampSpec bits amp mi)"
  by (simp add: wf_image_def) (simp add: ampSpec_def rect_zip_plane)

lemma ampSpec_unflagged:
  assumes "wf_image mi" "\<not> py_gt (maxUncorr_of amp) 0"
  shows "ampSpec bits amp mi = scaleImage (getBBox amp) (squareCoeff_of amp) mi"
  using assms map_plane_snd_zip [OF wf_image_rects(1,2) [OF assms(1)]]
  by (simp add: ampSpec_def scaleImage_def scale_fun_eq)

lemma ampSpec_flagged:
  assumes "py_gt (maxUncorr_of amp) 0"
  shows "ampSpec bits amp mi =
     scaleImage (getBBox amp) (squareCoeff_of amp)
       (setMaskAbove (getBBox amp) (maxUncorr_of amp) bits mi)"
  using assms by (simp add: ampSpec_def scaleImage_def scale_fun_eq setMaskAbove_def)

subsection \<open>The loop body, branch by branch\<close>

lemma linearizeAmp_unfold:
  assumes "take 3 (getLinearityCoeffs amp) = [s, c1, t]"
  shows "linearizeAmp det amp mi =
     (if py_ne c1 0 then Inl (RuntimeError (CoeffOneNotZero c1 (getId det) (getName amp)))
      else if py_le t 0 \<and> py_eq s 0 then Inr (False, mi)
      else if \<not> containsBox (imageBBox mi) (getBBox amp) then Inl LengthError
      else if py_gt t 0 then
        (case planeBitMask (getMaskPlaneDict mi) ''SUSPECT'' of
           None \<Rightarrow> Inl (InvalidParameterError ''SUSPECT'')
         | Some bits \<Rightarrow>
             Inr (True, scaleImage (getBBox amp) s (setMaskAbove (getBBox amp) t bits mi)))
      else Inr (True, scaleImage (getBBox amp) s mi))"
  by (auto simp: linearizeAmp_def assms subImage_def FootprintSet_def getPlaneBitMask_def
      split: option.splits)

lemma coeffs_of_take3:
  assumes "take 3 (getLinearityCoeffs amp) = [s, c1, t]"
  shows "squareCoeff_of amp = s" "maxUncorr_of amp = t"
  using nth_take [of 0 3 "getLinearityCoeffs amp"] nth_take [of 2 3 "getLinearityCoeffs amp"]
  by (simp_all add: assms squareCoeff_of_def maxUncorr_of_def)

lemma linearizeAmp_coeffs_ok:
  assumes "coeffs_ok amp"
  shows "linearizeAmp det amp mi =
     (if skipped amp then Inr (False, mi)
      else if \<not> containsBox (imageBBox mi) (getBBox amp) then Inl LengthError
      else if py_gt (maxUncorr_of amp) 0 then
        (case planeBitMask (getMaskPlaneDict mi) ''SUSPECT'' of
           None \<Rightarrow> Inl (InvalidParameterError ''SUSPECT'')
         | Some bits \<Rightarrow>
             Inr (True, scaleImage (getBBox amp) (squareCoeff_of amp)
                          (setMaskAbove (getBBox amp) (maxUncorr_of amp) bits mi)))
      else Inr (True, scaleImage (getBBox amp) (squareCoeff_of amp) mi))"
proof -
  from assms have "take 3 (getLinearityCoeffs amp) =
      [squareCoeff_of amp, getLinearityCoeffs amp ! 1, maxUncorr_of amp]"
    by (simp add: coeffs_ok_def take3_nth squareCoeff_of_def maxUncorr_of_def)
  from linearizeAmp_unfold [OF this] assms show ?thesis
    by (simp add: coeffs_ok_def skipped_def)
qed

lemma skipped_ampSpec:
  assumes "wf_image mi" "skipped amp"
  shows "ampSpec bits amp mi = mi"
  using assms by (simp add: skipped_def ampSpec_unflagged py_le_not_gt)

lemma linearizeAmp_refines:
  assumes "coeffs_ok amp" "containsBox (imageBBox mi) (getBBox amp)" "wf_image mi"
    and "planeBitMask (getMaskPlaneDict mi) ''SUSPECT'' = Some bits"
  shows "linearizeAmp det amp mi = Inr (\<not> skipped amp, ampSpec bits amp mi)"
  using assms
  by (simp add: linearizeAmp_coeffs_ok skipped_ampSpec ampSpec_flagged ampSpec_unflagged)

lemma linearizeAmp_skipped:
  "coeffs_ok amp \<Longrightarrow> skipped amp \<Longrightarrow> linearizeAmp det amp mi = Inr (False, mi)"
  by (simp add: linearizeAmp_coeffs_ok)

lemma linearizeAmp_coeff1:
  assumes "3 \<le> length (getLinearityCoeffs amp)" "py_ne (getLinearityCoeffs amp ! 1) 0"
  shows "linearizeAmp det amp mi =
     Inl (RuntimeError (CoeffOneNotZero (getLinearityCoeffs amp ! 1) (getId det) (getName amp)))"
  using assms by (simp add: linearizeAmp_unfold [OF take3_nth])

lemma linearizeAmp_short:
  assumes "length (getLinearityCoeffs amp) < 3"
  shows "linearizeAmp det amp mi = Inl (ValueError (length (getLinearityCoeffs amp)))"
  using assms by (simp add: linearizeAmp_def unpack3_short)

lemma linearizeAmp_outside:
  assumes "coeffs_ok amp" "\<not> skipped amp" "\<not> containsBox (imageBBox mi) (getBBox amp)"
  shows "linearizeAmp det amp mi = Inl LengthError"
  using assms by (simp add: linearizeAmp_coeffs_ok)

lemma linearizeAmp_take3 [simp]:
  "linearizeAmp det (amp\<lparr>getLinearityCoeffs := take 3 (getLinearityCoeffs amp)\<rparr>) mi =
   linearizeAmp det amp mi"
  by (simp add: linearizeAmp_def split_def cong: if_cong)

lemma linearizeAmp_InrD:
  assumes "linearizeAmp det amp mi = Inr (c, mi')"
  shows "\<exists>s mi1. mi' = scaleImage (getBBox amp) s mi1 \<and>
     (mi1 = mi \<or> (\<exists>t bits. planeBitMask (getMaskPlaneDict mi) ''SUSPECT'' = Some bits \<and>
        mi1 = setMaskAbove (getBBox amp) t bits mi))"
proof -
  from assms obtain s c1 t where "take 3 (getLinearityCoeffs amp) = [s, c1, t]"
    by (auto simp: linearizeAmp_def unpack3_Inr_iff split: rbind_splits)
  from assms [unfolded linearizeAmp_unfold [OF this]] show ?thesis
    by (auto split: if_splits option.splits intro: scaleImage_zero [symmetric])
qed

subsection \<open>What one iteration keeps\<close>

lemma linearizeAmp_flag:
  assumes "linearizeAmp det amp mi = Inr (c, mi')"
  shows "c \<longleftrightarrow> \<not> skipped amp"
proof -
  from assms obtain s c1 t where c: "take 3 (getLinearityCoeffs amp) = [s, c1, t]"
    by (auto simp: linearizeAmp_def unpack3_Inr_iff split: rbind_splits)
  from assms [unfolded linearizeAmp_unfold [OF c]] show ?thesis
    by (auto simp: skipped_def coeffs_of_take3 [OF c] split: if_splits option.splits)
qed

lemma linearizeAmp_frame [isr_frame]:
  assumes "linearizeAmp det amp mi = Inr (c, mi')"
  shows "getVariance mi' = getVariance mi" "getXY0 mi' = getXY0 mi"
    "getMaskPlaneDict mi' = getMaskPlaneDict mi" "imageBBox mi' = imageBBox mi"
  using linearizeAmp_InrD [OF assms] by auto

lemma linearizeAmp_wf [isr_wf]:
  assumes "linearizeAmp det amp mi = Inr (c, mi')" "wf_image mi"
  shows "wf_image mi'"
  using linearizeAmp_InrD [OF assms(1)] assms(2) by (auto intro: wf_scaleImage wf_setMaskAbove)

lemma linearizeAmp_mask:
  assumes "linearizeAmp det amp mi = Inr (c, mi')" "wf_image mi" "mask_at mi x y = Some m"
  shows "mask_at mi' x y = Some m \<or>
     (\<exists>bits. planeBitMask (getMaskPlaneDict mi) ''SUSPECT'' = Some bits \<and>
        mask_at mi' x y = Some (m OR bits))"
proof -
  from assms(2,3) obtain v where v: "image_at mi x y = Some v"
    using image_at_in_box [of mi x y] mask_at_in_box [of mi x y] by (cases "image_at mi x y") auto
  from linearizeAmp_InrD [OF assms(1)] show ?thesis
    using assms(3) v by (auto simp: mask_at_setMaskAbove [OF assms(2)])
qed

lemma linearizeAmp_type_irrelevant [simp]:
  "linearizeAmp det (amp\<lparr>getLinearityType := ty\<rparr>) mi = linearizeAmp det amp mi"
  by (simp add: linearizeAmp_def split_def cong: if_cong)

lemma linearizeAmp_det_irrelevant:
  "getId det' = getId det \<Longrightarrow> linearizeAmp det' amp mi = linearizeAmp det amp mi"
  by (simp add: linearizeAmp_def split_def cong: if_cong)

section \<open>The loop over the amplifiers\<close>

lemma linearizeSpec_simps [simp]:
  "linearizeSpec bits [] mi = mi"
  "linearizeSpec bits (amp # amps) mi = linearizeSpec bits amps (ampSpec bits amp mi)"
  by (simp_all add: linearizeSpec_def)

lemma linearizeSpec_append:
  "linearizeSpec bits (as @ bs) mi = linearizeSpec bits bs (linearizeSpec bits as mi)"
  by (simp add: linearizeSpec_def)

lemma linearizeSpec_frame [simp, isr_frame]:
  "getVariance (linearizeSpec bits amps mi) = getVariance mi"
  "getXY0 (linearizeSpec bits amps mi) = getXY0 mi"
  "getMaskPlaneDict (linearizeSpec bits amps mi) = getMaskPlaneDict mi"
  "imageBBox (linearizeSpec bits amps mi) = imageBBox mi"
  by (induction amps arbitrary: mi; simp)+

lemma linearizeSpec_dims [simp]:
  "imageWidth (linearizeSpec bits amps mi) = imageWidth mi"
  "imageHeight (linearizeSpec bits amps mi) = imageHeight mi"
  by (induction amps arbitrary: mi; simp)+

lemma wf_linearizeSpec [isr_wf]: "wf_image mi \<Longrightarrow> wf_image (linearizeSpec bits amps mi)"
  by (induction amps arbitrary: mi) (simp_all add: wf_ampSpec)

lemma linearizeAmps_refines:
  assumes "list_all coeffs_ok amps"
    and "list_all (\<lambda>a. containsBox (imageBBox mi) (getBBox a)) amps"
    and "wf_image mi"
    and "planeBitMask (getMaskPlaneDict mi) ''SUSPECT'' = Some bits"
  shows "linearizeAmps det amps d mi =
     (Inr (d \<or> list_ex (\<lambda>a. \<not> skipped a) amps), linearizeSpec bits amps mi)"
  using assms
proof (induction amps arbitrary: d mi)
  case Nil
  then show ?case by simp
next
  case (Cons amp amps)
  from Cons.prems have step: "linearizeAmp det amp mi = Inr (\<not> skipped amp, ampSpec bits amp mi)"
    by (intro linearizeAmp_refines) simp_all
  from Cons.prems have "linearizeAmps det amps (d \<or> \<not> skipped amp) (ampSpec bits amp mi) =
     (Inr ((d \<or> \<not> skipped amp) \<or> list_ex (\<lambda>a. \<not> skipped a) amps),
      linearizeSpec bits amps (ampSpec bits amp mi))"
    by (intro Cons.IH) (simp_all add: wf_ampSpec)
  with step show ?case by auto
qed

lemma linearizeAmps_append:
  "linearizeAmps det (pre @ post) d mi =
     (case linearizeAmps det pre d mi of
        (Inl e, mi') \<Rightarrow> (Inl e, mi')
      | (Inr d', mi') \<Rightarrow> linearizeAmps det post d' mi')"
  by (induction pre arbitrary: d mi) (auto split: sum.splits)

lemma linearizeAmps_all_skipped:
  "list_all (\<lambda>a. coeffs_ok a \<and> skipped a) amps \<Longrightarrow> linearizeAmps det amps d mi = (Inr d, mi)"
  by (induction amps arbitrary: d) (simp_all add: linearizeAmp_skipped)

lemma linearizeAmps_invariant:
  assumes "P mi"
    and "\<And>amp mi c mi'. amp \<in> set amps \<Longrightarrow> P mi \<Longrightarrow>
           linearizeAmp det amp mi = Inr (c, mi') \<Longrightarrow> P mi'"
  shows "P (snd (linearizeAmps det amps d mi))"
  using assms
proof (induction amps arbitrary: d mi)
  case Nil
  then show ?case by simp
next
  case (Cons amp amps)
  show ?case
  proof (cases "linearizeAmp det amp mi")
    case (Inl e)
    with Cons.prems show ?thesis by simp
  next
    case (Inr r)
    then obtain c mi' where r: "linearizeAmp det amp mi = Inr (c, mi')" by (cases r) simp
    with Cons.prems have "P mi'" by (auto intro: Cons.prems(2))
    then have "P (snd (linearizeAmps det amps (d \<or> c) mi'))"
      by (rule Cons.IH) (auto intro: Cons.prems(2))
    with r show ?thesis by simp
  qed
qed

lemma linearizeAmps_flag:
  "fst (linearizeAmps det amps d mi) = Inr d' \<Longrightarrow> d' \<longleftrightarrow> d \<or> \<not> list_all skipped amps"
proof (induction amps arbitrary: d mi)
  case Nil
  then show ?case by simp
next
  case (Cons amp amps)
  from Cons.prems obtain c mi' where step: "linearizeAmp det amp mi = Inr (c, mi')"
    by (cases "linearizeAmp det amp mi") auto
  with Cons.prems have "fst (linearizeAmps det amps (d \<or> c) mi') = Inr d'" by simp
  from Cons.IH [OF this] linearizeAmp_flag [OF step] show ?case by auto
qed

lemma linearizeAmps_type_irrelevant:
  "linearizeAmps det (map (\<lambda>a. a\<lparr>getLinearityType := ty a\<rparr>) amps) d mi =
   linearizeAmps det amps d mi"
  by (induction amps arbitrary: d mi) (simp_all split: sum.splits prod.splits)

lemma linearizeAmps_det_irrelevant:
  "getId det' = getId det \<Longrightarrow> linearizeAmps det' amps d mi = linearizeAmps det amps d mi"
  by (induction amps arbitrary: d mi)
    (simp_all add: linearizeAmp_det_irrelevant [of det' det] split: sum.splits prod.splits)

lemma linearizeAmps_take3:
  "linearizeAmps det (map (\<lambda>a. a\<lparr>getLinearityCoeffs := take 3 (getLinearityCoeffs a)\<rparr>) amps) d mi =
   linearizeAmps det amps d mi"
  by (induction amps arbitrary: d mi) (simp_all split: sum.splits prod.splits)

section \<open>The model, pixel by pixel\<close>

lemma image_at_scaleImage:
  "image_at (scaleImage b s mi) x y =
     map_option (\<lambda>v. if containsPoint b x y then corrected s v else v) (image_at mi x y)"
  by (simp add: image_at_def scaleImage_def scale_eq_corrected)

lemma crop_scaleImage:
  assumes "wf_image buf" "containsBox (imageBBox buf) w" "\<not> isEmpty w"
  shows "crop w (scaleImage b c buf) = scaleImage b c (crop w buf)"
proof (rule crop_eqI)
  show "wf_image (scaleImage b c buf)" using assms(1) by (rule wf_scaleImage)
  show "containsBox (imageBBox (scaleImage b c buf)) w" using assms(2) by simp
  show "wf_image (scaleImage b c (crop w buf))"
    by (intro wf_scaleImage wf_crop assms)
  show "imageBBox (scaleImage b c (crop w buf)) = w" by (simp add: crop_dims [OF assms])
qed (simp_all add: assms(3) image_at_scaleImage crop_at [OF assms])

lemma linearizeAmp_image_at:
  assumes "linearizeAmp det amp mi = Inr (c, mi')"
  shows "image_at mi' x y =
     map_option (\<lambda>v. if containsPoint (getBBox amp) x y then corrected (squareCoeff_of amp) v else v)
       (image_at mi x y)"
proof -
  from assms obtain s c1 t where c: "take 3 (getLinearityCoeffs amp) = [s, c1, t]"
    by (auto simp: linearizeAmp_def unpack3_Inr_iff split: rbind_splits)
  from assms [unfolded linearizeAmp_unfold [OF c]] show ?thesis
    by (cases "image_at mi x y")
      (auto simp: coeffs_of_take3 [OF c] image_at_scaleImage split: if_splits option.splits)
qed

lemma image_at_ampSpec:
  "image_at (ampSpec bits amp mi) x y =
     map_option (\<lambda>v. if containsPoint (getBBox amp) x y then corrected (squareCoeff_of amp) v else v)
       (image_at mi x y)"
  by (simp add: image_at_def ampSpec_def)

lemma variance_at_ampSpec [simp]: "variance_at (ampSpec bits amp mi) = variance_at mi"
  by (simp add: variance_at_def)

lemma mask_at_ampSpec:
  assumes "wf_image mi"
  shows "mask_at (ampSpec bits amp mi) x y =
     (case (image_at mi x y, mask_at mi x y) of
        (Some v, Some m) \<Rightarrow>
          Some (if containsPoint (getBBox amp) x y \<and> flagged (maxUncorr_of amp) v
                then m OR bits else m)
      | _ \<Rightarrow> None)"
  using pixel_zip_plane [OF wf_image_rects(1,2) [OF assms], of "getXY0 mi" x y]
  by (auto simp: mask_at_def image_at_def ampSpec_def split: option.splits)

lemma image_mask_defined:
  "wf_image mi \<Longrightarrow> image_at mi x y = None \<longleftrightarrow> mask_at mi x y = None"
  using image_at_in_box [of mi x y] mask_at_in_box [of mi x y] by metis

lemma ampSpec_outside:
  assumes "wf_image mi" "\<not> containsPoint (getBBox amp) x y"
  shows "image_at (ampSpec bits amp mi) x y = image_at mi x y"
    and "mask_at (ampSpec bits amp mi) x y = mask_at mi x y"
  using assms image_mask_defined [OF assms(1), of x y]
  by (auto simp: image_at_ampSpec option.map_ident mask_at_ampSpec split: option.splits)

lemma amp_at_simps [simp]:
  "amp_at [] x y = None"
  "amp_at (a # amps) x y = (if containsPoint (getBBox a) x y then Some a else amp_at amps x y)"
  by (simp_all add: amp_at_def)

lemma amp_at_None_iff:
  "amp_at amps x y = None \<longleftrightarrow> (\<forall>a \<in> set amps. \<not> containsPoint (getBBox a) x y)"
  by (auto simp: amp_at_def find_None_iff)

lemma amp_at_SomeD:
  "amp_at amps x y = Some a \<Longrightarrow> a \<in> set amps \<and> containsPoint (getBBox a) x y"
  by (auto simp: amp_at_def find_Some_iff)

lemma amp_at_member:
  assumes "pairwise_disjoint (map getBBox amps)" "a \<in> set amps" "containsPoint (getBBox a) x y"
  shows "amp_at amps x y = Some a"
  using assms
proof (induction amps)
  case Nil
  then show ?case by simp
next
  case (Cons b amps)
  show ?case
  proof (cases "a = b")
    case True
    with Cons.prems show ?thesis by simp
  next
    case False
    with Cons.prems have "a \<in> set amps" by simp
    with Cons.prems have "\<not> containsPoint (getBBox b) x y"
      by (auto simp: list_all_iff dest: not_overlaps_disjoint)
    moreover from Cons.prems \<open>a \<in> set amps\<close> have "amp_at amps x y = Some a"
      by (intro Cons.IH) simp_all
    ultimately show ?thesis by simp
  qed
qed

lemma disjoint_amp_at_tl:
  "pairwise_disjoint (map getBBox (a # amps)) \<Longrightarrow> containsPoint (getBBox a) x y \<Longrightarrow>
   amp_at amps x y = None"
  by (auto simp: amp_at_None_iff list_all_iff dest: not_overlaps_disjoint)

lemma linearizeSpec_untouched:
  assumes "wf_image mi" "amp_at amps x y = None"
  shows "image_at (linearizeSpec bits amps mi) x y = image_at mi x y"
    and "mask_at (linearizeSpec bits amps mi) x y = mask_at mi x y"
  using assms
  by (induction amps arbitrary: mi; simp add: wf_ampSpec ampSpec_outside split: if_splits)+

lemma linearizeSpec_image_at:
  assumes "pairwise_disjoint (map getBBox amps)" "wf_image mi"
  shows "image_at (linearizeSpec bits amps mi) x y =
     map_option (\<lambda>v. case amp_at amps x y of None \<Rightarrow> v
                     | Some a \<Rightarrow> corrected (squareCoeff_of a) v) (image_at mi x y)"
  using assms
proof (induction amps arbitrary: mi)
  case Nil
  then show ?case by (simp add: option.map_ident)
next
  case (Cons a amps)
  show ?case
  proof (cases "containsPoint (getBBox a) x y")
    case True
    with Cons.prems have "amp_at amps x y = None" by (blast intro: disjoint_amp_at_tl)
    with True Cons.prems show ?thesis
      by (simp add: linearizeSpec_untouched wf_ampSpec image_at_ampSpec)
  next
    case False
    with Cons show ?thesis by (simp add: wf_ampSpec ampSpec_outside)
  qed
qed

lemma linearizeSpec_mask_at:
  assumes "pairwise_disjoint (map getBBox amps)" "wf_image mi"
  shows "mask_at (linearizeSpec bits amps mi) x y =
     (case (image_at mi x y, mask_at mi x y) of
        (Some v, Some m) \<Rightarrow>
          Some (case amp_at amps x y of None \<Rightarrow> m
                | Some a \<Rightarrow> if flagged (maxUncorr_of a) v then m OR bits else m)
      | _ \<Rightarrow> None)"
  using assms
proof (induction amps arbitrary: mi)
  case Nil
  with image_mask_defined [of mi x y] show ?case by (auto split: option.splits)
next
  case (Cons a amps)
  show ?case
  proof (cases "containsPoint (getBBox a) x y")
    case True
    with Cons.prems have "amp_at amps x y = None" by (blast intro: disjoint_amp_at_tl)
    with True Cons.prems show ?thesis
      by (simp add: linearizeSpec_untouched wf_ampSpec mask_at_ampSpec split: option.splits)
  next
    case False
    with Cons show ?thesis by (simp add: wf_ampSpec ampSpec_outside split: option.splits)
  qed
qed

lemma amp_at_permute:
  assumes "pairwise_disjoint (map getBBox amps)" "pairwise_disjoint (map getBBox amps')"
    and "set amps' = set amps"
  shows "amp_at amps' x y = amp_at amps x y"
proof (cases "amp_at amps x y")
  case None
  then have "amp_at amps' x y = None" using assms(3) by (simp add: amp_at_None_iff)
  with None show ?thesis by simp
next
  case (Some a)
  then have "a \<in> set amps'" "containsPoint (getBBox a) x y"
    using assms(3) by (auto dest: amp_at_SomeD)
  with assms(2) Some show ?thesis by (simp add: amp_at_member)
qed

lemma linearizeSpec_permute:
  assumes "wf_image mi"
    and "pairwise_disjoint (map getBBox amps)" "pairwise_disjoint (map getBBox amps')"
    and "set amps' = set amps"
  shows "linearizeSpec bits amps' mi = linearizeSpec bits amps mi"
proof (rule maskedImage_eqI)
  show "wf_image (linearizeSpec bits amps' mi)" "wf_image (linearizeSpec bits amps mi)"
    using assms(1) by (simp_all add: wf_linearizeSpec)
  fix x y
  note same = amp_at_permute [OF assms(2-4), of x y]
  show "image_at (linearizeSpec bits amps' mi) x y = image_at (linearizeSpec bits amps mi) x y"
    unfolding linearizeSpec_image_at [OF assms(2,1)] linearizeSpec_image_at [OF assms(3,1)] same ..
  show "mask_at (linearizeSpec bits amps' mi) x y = mask_at (linearizeSpec bits amps mi) x y"
    unfolding linearizeSpec_mask_at [OF assms(2,1)] linearizeSpec_mask_at [OF assms(3,1)] same ..
  show "variance_at (linearizeSpec bits amps' mi) x y =
      variance_at (linearizeSpec bits amps mi) x y"
    by (simp add: variance_at_def)
qed simp_all

section \<open>The decision and the method\<close>

lemma doCorrect_Nil [simp]: "getAmplifiers d = [] \<Longrightarrow> doCorrect d = Inl IndexError"
  by (simp add: doCorrect_def)

lemma doCorrect_Cons:
  "getAmplifiers d = amp # amps \<Longrightarrow>
   doCorrect d =
     (if getLinearityType amp = ''NONE'' then Inr False
      else if getLinearityType amp = ''PROPORTIONAL'' then
        (if length (getLinearityCoeffs amp) < 3
         then Inl (RuntimeError (NeedThreeCoeffs (length (getLinearityCoeffs amp))))
         else Inr True)
      else Inl (RuntimeError (UnsupportedLinearityType (getLinearityType amp) (getId d) (getName amp))))"
  by (simp add: doCorrect_def Let_def)

lemma run_unfold:
  "doCorrect (getDetector exposure) = Inr True \<Longrightarrow>
   ProportionalLinearizeTask_run exposure logs =
     (case linearizeAmps (getDetector exposure) (getAmplifiers (getDetector exposure)) False
             (getMaskedImage exposure) of
        (Inl e, mi) \<Rightarrow> (Inl e, exposure\<lparr>getMaskedImage := mi\<rparr>, logs)
      | (Inr didCorrect, mi) \<Rightarrow>
          (Inr (), exposure\<lparr>getMaskedImage := mi\<rparr>,
           if didCorrect then logs @ [InfoApplied (getId (getDetector exposure))] else logs))"
  by (simp add: ProportionalLinearizeTask_run_def Let_def)

lemma run_stops_at:
  assumes "doCorrect (getDetector exposure) = Inr True"
    and "getAmplifiers (getDetector exposure) = pre @ amp # post"
    and "list_all coeffs_ok pre"
    and "list_all (\<lambda>a. containsBox (imageBBox (getMaskedImage exposure)) (getBBox a)) pre"
    and "wf_image (getMaskedImage exposure)"
    and "planeBitMask (getMaskPlaneDict (getMaskedImage exposure)) ''SUSPECT'' = Some suspect"
    and "linearizeAmp (getDetector exposure) amp (linearizeSpec suspect pre (getMaskedImage exposure)) = Inl e"
  shows "ProportionalLinearizeTask_run exposure logs =
     (Inl e, exposure\<lparr>getMaskedImage := linearizeSpec suspect pre (getMaskedImage exposure)\<rparr>, logs)"
  using assms
  by (simp add: run_unfold linearizeAmps_append linearizeAmps_refines [where bits = suspect])

lemma run_result_image:
  assumes "ProportionalLinearizeTask_run exposure logs = (r, exposure', logs')"
  shows "getMaskedImage exposure' = getMaskedImage exposure \<or>
     getMaskedImage exposure' =
       snd (linearizeAmps (getDetector exposure) (getAmplifiers (getDetector exposure)) False
              (getMaskedImage exposure))"
    and "getDetector exposure' = getDetector exposure"
    and "getExptime exposure' = getExptime exposure"
  using assms
  by (auto simp: ProportionalLinearizeTask_run_def Let_def split: sum.splits bool.splits prod.splits)

lemma run_invariant:
  assumes "ProportionalLinearizeTask_run exposure logs = (r, exposure', logs')"
    and "P (getMaskedImage exposure)"
    and "\<And>amp mi c mi'. amp \<in> set (getAmplifiers (getDetector exposure)) \<Longrightarrow> P mi \<Longrightarrow>
           linearizeAmp (getDetector exposure) amp mi = Inr (c, mi') \<Longrightarrow> P mi'"
  shows "P (getMaskedImage exposure')"
  using run_result_image(1) [OF assms(1)] assms(2)
    linearizeAmps_invariant [of P, OF assms(2,3)]
  by auto

lemma run_mask_at_cases:
  assumes "ProportionalLinearizeTask_run exposure logs = (r, exposure', logs')"
    and "wf_image (getMaskedImage exposure)"
    and "mask_at (getMaskedImage exposure) x y = Some m"
  shows "mask_at (getMaskedImage exposure') x y = Some m \<or>
     (\<exists>suspect. planeBitMask (getMaskPlaneDict (getMaskedImage exposure)) ''SUSPECT'' = Some suspect \<and>
        mask_at (getMaskedImage exposure') x y = Some (m OR suspect))"
proof -
  let ?d = "getMaskPlaneDict (getMaskedImage exposure)"
  let ?P = "\<lambda>mi. wf_image mi \<and> getMaskPlaneDict mi = ?d \<and>
     (mask_at mi x y = Some m \<or>
      (\<exists>suspect. planeBitMask ?d ''SUSPECT'' = Some suspect \<and> mask_at mi x y = Some (m OR suspect)))"
  have "?P (getMaskedImage exposure')"
  proof (rule run_invariant [OF assms(1)])
    show "?P (getMaskedImage exposure)" using assms(2,3) by simp
  next
    fix amp mi c mi'
    assume P: "?P mi" and step: "linearizeAmp (getDetector exposure) amp mi = Inr (c, mi')"
    from P step have "wf_image mi'" "getMaskPlaneDict mi' = ?d"
      by (simp_all add: linearizeAmp_wf linearizeAmp_frame)
    moreover from P obtain m0 where m0: "mask_at mi x y = Some m0"
      and "m0 = m \<or> (\<exists>suspect. planeBitMask ?d ''SUSPECT'' = Some suspect \<and> m0 = m OR suspect)"
      by auto
    moreover from linearizeAmp_mask [OF step _ m0] P
    have "mask_at mi' x y = Some m0 \<or>
      (\<exists>bits. planeBitMask ?d ''SUSPECT'' = Some bits \<and> mask_at mi' x y = Some (m0 OR bits))"
      by simp
    ultimately show "?P mi'" by (auto simp: or.assoc)
  qed
  then show ?thesis by simp
qed

lemma run_cong:
  assumes "doCorrect (getDetector e2) = doCorrect (getDetector e1)"
    and "linearizeAmps (getDetector e2) (getAmplifiers (getDetector e2)) False (getMaskedImage e2) =
         linearizeAmps (getDetector e1) (getAmplifiers (getDetector e1)) False (getMaskedImage e1)"
    and "getId (getDetector e2) = getId (getDetector e1)"
    and "e2 = e1\<lparr>getDetector := getDetector e2\<rparr>"
  shows "ProportionalLinearizeTask_run e2 logs =
     (case ProportionalLinearizeTask_run e1 logs of
        (r, e, l) \<Rightarrow> (r, e\<lparr>getDetector := getDetector e2\<rparr>, l))"
proof (cases "doCorrect (getDetector e1)")
  case (Inl err)
  with assms(1,4) show ?thesis
    by (simp add: ProportionalLinearizeTask_run_def)
next
  case (Inr wanted)
  obtain res mi where loop: "linearizeAmps (getDetector e1) (getAmplifiers (getDetector e1)) False
      (getMaskedImage e1) = (res, mi)"
    by (cases "linearizeAmps (getDetector e1) (getAmplifiers (getDetector e1)) False
      (getMaskedImage e1)")
  have upd: "e2\<lparr>getMaskedImage := mi\<rparr> = e1\<lparr>getMaskedImage := mi, getDetector := getDetector e2\<rparr>"
    by (subst assms(4)) simp
  show ?thesis
  proof (cases wanted)
    case True
    with Inr assms(1-3) loop upd show ?thesis
      by (cases res) (simp_all add: run_unfold)
  next
    case False
    with Inr assms(1,3,4) show ?thesis
      by (simp add: ProportionalLinearizeTask_run_def)
  qed
qed

section \<open>Evaluating closed instances\<close>

lemmas ex_defs [isr_defs] =
  ex_amp0_def ex_amp1_def ex_image_def ex_exposure_with_def ex_exposure_def
  ex_corrected_def ex_half_corrected_def

lemmas image_eval [isr_defs] =
  getPlaneBitMask_def planeBitMask_def defaultMaskPlaneDict_def
  setMaskAbove_def update_box_def map_plane_def zip_plane_def
  containsBox_def containsPoint_def isEmpty_def overlaps_def Box2I_def
  imageBBox_def imageWidth_def imageHeight_def plane_width_def plane_height_def
  wf_image_def wf_dict_def rect_def image_at_def mask_at_def variance_at_def pixel_def
  amps_in_image_def amps_disjoint_def one_pyfloat_def zero_pyfloat_def

lemmas lin_eval [isr_defs] =
  ProportionalLinearizeTask_run_def doCorrect_def linearizeAmp_def FootprintSet_def
  scaleImage_def subImage_def coeffs_ok_def skipped_def squareCoeff_of_def maxUncorr_of_def
  ampSpec_def linearizeSpec_def corrected_def flagged_def amp_at_def Let_def

lemma ex_wanted: "doCorrect (getDetector ex_exposure) = Inr True"
  by (simp add: isr_defs)

lemma ex_coeffs_ok: "list_all coeffs_ok (getAmplifiers (getDetector ex_exposure))"
  by (simp add: isr_defs)

lemma ex_in_image: "amps_in_image (getDetector ex_exposure) (getMaskedImage ex_exposure)"
  by (simp add: isr_defs)

lemma ex_disjoint: "amps_disjoint (getDetector ex_exposure)"
  by (simp add: isr_defs)

lemma ex_wf: "wf_image (getMaskedImage ex_exposure)"
  by (simp add: isr_defs)

lemma ex_suspect:
  "planeBitMask (getMaskPlaneDict (getMaskedImage ex_exposure)) ''SUSPECT'' = Some 128"
  by (simp add: isr_defs)

lemma ex_run:
  "ProportionalLinearizeTask_run ex_exposure [] =
     (Inr (), ex_exposure\<lparr>getMaskedImage := ex_corrected\<rparr>, [InfoApplied 7])"
  by (simp add: isr_defs)

lemma ex_typed: "mask_typed (getMaskedImage ex_exposure)"
  by (simp add: mask_typed_def plane_all_def plane_bits_def isr_defs)

section \<open>Properties of the task\<close>

text \<open>
  Property C1 (refinement).  On an exposure whose first amplifier asks for the
  proportional correction, whose amplifiers all carry at least three
  coefficients with a zero second coefficient and a box inside the image,
  and whose mask knows the \<open>SUSPECT\<close> plane, \<open>run\<close> returns normally, the
  masked image it leaves is the documented model applied amplifier by
  amplifier, and it logs at level INFO exactly when some amplifier was not
  skipped.
\<close>

theorem run_implements_model:
  assumes "doCorrect (getDetector exposure) = Inr True"
    and "list_all coeffs_ok (getAmplifiers (getDetector exposure))"
    and "amps_in_image (getDetector exposure) (getMaskedImage exposure)"
    and "wf_image (getMaskedImage exposure)"
    and "planeBitMask (getMaskPlaneDict (getMaskedImage exposure)) ''SUSPECT'' = Some suspect"
  shows "ProportionalLinearizeTask_run exposure logs =
     (Inr (),
      exposure\<lparr>getMaskedImage :=
        linearizeSpec suspect (getAmplifiers (getDetector exposure)) (getMaskedImage exposure)\<rparr>,
      if list_ex (\<lambda>a. \<not> skipped a) (getAmplifiers (getDetector exposure))
      then logs @ [InfoApplied (getId (getDetector exposure))] else logs)"
  using assms
  by (simp add: run_unfold amps_in_image_def linearizeAmps_refines [where bits = suspect])

theorem run_implements_model_witness:
  "doCorrect (getDetector ex_exposure) = Inr True \<and>
   list_all coeffs_ok (getAmplifiers (getDetector ex_exposure)) \<and>
   amps_in_image (getDetector ex_exposure) (getMaskedImage ex_exposure) \<and>
   wf_image (getMaskedImage ex_exposure) \<and>
   ProportionalLinearizeTask_run ex_exposure [] =
     (Inr (), ex_exposure\<lparr>getMaskedImage := ex_corrected\<rparr>, [InfoApplied 7])"
  using run_implements_model [OF ex_wanted ex_coeffs_ok ex_in_image ex_wf ex_suspect, of "[]"]
    ex_wanted ex_coeffs_ok ex_in_image ex_wf
  by (simp add: isr_defs)

text \<open>
  Property C3 (functional).  Under the same conditions and with amplifier boxes
  that do not overlap, every pixel of the image plane inside an amplifier
  becomes \<open>uncorr + squareCoeff * uncorr^2\<close> for that amplifier's coefficient,
  its mask pixel gains the \<open>SUSPECT\<close> bit exactly when the amplifier's
  threshold is positive and the uncorrected value exceeds it, pixels outside
  every amplifier keep image and mask, and the variance plane is unchanged.
\<close>

theorem run_pixels:
  assumes "doCorrect (getDetector exposure) = Inr True"
    and "list_all coeffs_ok (getAmplifiers (getDetector exposure))"
    and "amps_in_image (getDetector exposure) (getMaskedImage exposure)"
    and "amps_disjoint (getDetector exposure)"
    and "wf_image (getMaskedImage exposure)"
    and "planeBitMask (getMaskPlaneDict (getMaskedImage exposure)) ''SUSPECT'' = Some suspect"
    and "ProportionalLinearizeTask_run exposure logs = (r, exposure', logs')"
  shows "r = Inr () \<and>
     image_at (getMaskedImage exposure') x y =
       map_option (\<lambda>v. case amp_at (getAmplifiers (getDetector exposure)) x y of
                          None \<Rightarrow> v | Some a \<Rightarrow> corrected (squareCoeff_of a) v)
         (image_at (getMaskedImage exposure) x y) \<and>
     mask_at (getMaskedImage exposure') x y =
       (case (image_at (getMaskedImage exposure) x y, mask_at (getMaskedImage exposure) x y) of
          (Some v, Some m) \<Rightarrow>
            Some (case amp_at (getAmplifiers (getDetector exposure)) x y of
                    None \<Rightarrow> m
                  | Some a \<Rightarrow> if flagged (maxUncorr_of a) v then m OR suspect else m)
        | _ \<Rightarrow> None) \<and>
     variance_at (getMaskedImage exposure') x y = variance_at (getMaskedImage exposure) x y"
proof -
  let ?amps = "getAmplifiers (getDetector exposure)" and ?mi = "getMaskedImage exposure"
  from assms(1,2,3,5,6,7)
  have r: "r = Inr ()" and e: "getMaskedImage exposure' = linearizeSpec suspect ?amps ?mi"
    by (auto simp: run_unfold amps_in_image_def linearizeAmps_refines [where bits = suspect])
  from assms(4) have dj: "pairwise_disjoint (map getBBox ?amps)"
    by (simp add: amps_disjoint_def)
  show ?thesis
    unfolding e using r
    by (simp add: linearizeSpec_image_at [OF dj assms(5)] linearizeSpec_mask_at [OF dj assms(5)]
        variance_at_def)
qed

theorem run_pixels_witness:
  "amps_disjoint (getDetector ex_exposure) \<and>
   image_at ex_corrected 0 0 = Some (Fin 20) \<and> mask_at ex_corrected 0 0 = Some 128 \<and>
   variance_at ex_corrected 0 0 = Some (Fin 1)"
  using run_pixels [OF ex_wanted ex_coeffs_ok ex_in_image ex_disjoint ex_wf ex_suspect ex_run,
      of 0 0] ex_disjoint
  by (simp add: isr_defs)

text \<open>
  Property C5 (functional).  \<open>doCorrect\<close> answers from the first amplifier only:
  false for linearity type NONE, true for PROPORTIONAL with at least three
  coefficients, a \<open>RuntimeError\<close> that reports the count for PROPORTIONAL with
  fewer, a \<open>RuntimeError\<close> that reports type, detector and amplifier for any
  other type, and an \<open>IndexError\<close> when the detector has no amplifier.
\<close>

theorem doCorrect_cases:
  "(doCorrect d = Inr False \<longleftrightarrow>
      (\<exists>amp amps. getAmplifiers d = amp # amps \<and> getLinearityType amp = ''NONE'')) \<and>
   (doCorrect d = Inr True \<longleftrightarrow>
      (\<exists>amp amps. getAmplifiers d = amp # amps \<and> getLinearityType amp = ''PROPORTIONAL'' \<and>
         3 \<le> length (getLinearityCoeffs amp))) \<and>
   (doCorrect d = Inl IndexError \<longleftrightarrow> getAmplifiers d = []) \<and>
   (\<forall>n. doCorrect d = Inl (RuntimeError (NeedThreeCoeffs n)) \<longleftrightarrow>
      (\<exists>amp amps. getAmplifiers d = amp # amps \<and> getLinearityType amp = ''PROPORTIONAL'' \<and>
         n = length (getLinearityCoeffs amp) \<and> n < 3)) \<and>
   (\<forall>t i nm. doCorrect d = Inl (RuntimeError (UnsupportedLinearityType t i nm)) \<longleftrightarrow>
      (\<exists>amp amps. getAmplifiers d = amp # amps \<and> getLinearityType amp = t \<and>
         t \<noteq> ''NONE'' \<and> t \<noteq> ''PROPORTIONAL'' \<and> i = getId d \<and> nm = getName amp))"
  by (cases "getAmplifiers d") (auto simp: doCorrect_Cons)

theorem doCorrect_cases_witness:
  "doCorrect \<lparr>getId = 7, getAmplifiers = [ex_amp0\<lparr>getLinearityCoeffs := [0, 0]\<rparr>]\<rparr> =
     Inl (RuntimeError (NeedThreeCoeffs 2)) \<and>
   doCorrect \<lparr>getId = 7, getAmplifiers = [ex_amp0\<lparr>getLinearityType := ''POLYNOMIAL''\<rparr>]\<rparr> =
     Inl (RuntimeError (UnsupportedLinearityType ''POLYNOMIAL'' 7 ''A0'')) \<and>
   doCorrect \<lparr>getId = 7, getAmplifiers = []\<rparr> = Inl IndexError"
  using doCorrect_cases [of "\<lparr>getId = 7, getAmplifiers = [ex_amp0\<lparr>getLinearityCoeffs := [0, 0]\<rparr>]\<rparr>"]
    doCorrect_cases [of "\<lparr>getId = 7, getAmplifiers = [ex_amp0\<lparr>getLinearityType := ''POLYNOMIAL''\<rparr>]\<rparr>"]
    doCorrect_cases [of "\<lparr>getId = 7, getAmplifiers = []\<rparr>"]
  by (simp add: ex_amp0_def)

text \<open>
  Property C7 (error).  When the amplifiers before some amplifier are
  processed normally and that amplifier has a second coefficient different
  from zero (NaN included), \<open>run\<close> raises the \<open>RuntimeError\<close> that reports the
  coefficient, the detector and the amplifier, writes no log record, and
  leaves the exposure with exactly the earlier amplifiers corrected.
\<close>

theorem run_coeff1_error:
  assumes "doCorrect (getDetector exposure) = Inr True"
    and "getAmplifiers (getDetector exposure) = pre @ amp # post"
    and "list_all coeffs_ok pre"
    and "list_all (\<lambda>a. containsBox (imageBBox (getMaskedImage exposure)) (getBBox a)) pre"
    and "wf_image (getMaskedImage exposure)"
    and "planeBitMask (getMaskPlaneDict (getMaskedImage exposure)) ''SUSPECT'' = Some suspect"
    and "3 \<le> length (getLinearityCoeffs amp)" "py_ne (getLinearityCoeffs amp ! 1) 0"
  shows "ProportionalLinearizeTask_run exposure logs =
     (Inl (RuntimeError (CoeffOneNotZero (getLinearityCoeffs amp ! 1)
             (getId (getDetector exposure)) (getName amp))),
      exposure\<lparr>getMaskedImage := linearizeSpec suspect pre (getMaskedImage exposure)\<rparr>, logs)"
  by (rule run_stops_at [OF assms(1-6)]) (rule linearizeAmp_coeff1 [OF assms(7,8)])

theorem run_coeff1_error_witness:
  "ProportionalLinearizeTask_run
     (ex_exposure_with [ex_amp0, ex_amp1\<lparr>getLinearityCoeffs := [Fin (1 / 2), 1, Fin 3]\<rparr>]) [] =
   (Inl (RuntimeError (CoeffOneNotZero 1 7 ''A1'')),
    ex_exposure_with [ex_amp0, ex_amp1\<lparr>getLinearityCoeffs := [Fin (1 / 2), 1, Fin 3]\<rparr>]
      \<lparr>getMaskedImage := ex_half_corrected\<rparr>, [])"
  using run_coeff1_error [where exposure =
      "ex_exposure_with [ex_amp0, ex_amp1\<lparr>getLinearityCoeffs := [Fin (1 / 2), 1, Fin 3]\<rparr>]"
      and pre = "[ex_amp0]" and amp = "ex_amp1\<lparr>getLinearityCoeffs := [Fin (1 / 2), 1, Fin 3]\<rparr>"
      and post = "[]" and suspect = 128 and logs = "[]"]
  by (simp add: isr_defs)



text \<open>
  Property C21 (safety).  \<open>run\<close> writes the image and the mask plane only: the
  variance plane, the origin, the mask plane dictionary, the bounding box,
  the detector and the exposure time are the same after every call, whatever
  it returns.
\<close>

theorem run_frame:
  assumes "ProportionalLinearizeTask_run exposure logs = (r, exposure', logs')"
  shows "getVariance (getMaskedImage exposure') = getVariance (getMaskedImage exposure) \<and>
     getXY0 (getMaskedImage exposure') = getXY0 (getMaskedImage exposure) \<and>
     getMaskPlaneDict (getMaskedImage exposure') = getMaskPlaneDict (getMaskedImage exposure) \<and>
     imageBBox (getMaskedImage exposure') = imageBBox (getMaskedImage exposure) \<and>
     getDetector exposure' = getDetector exposure \<and> getExptime exposure' = getExptime exposure"
proof -
  let ?P = "\<lambda>mi. getVariance mi = getVariance (getMaskedImage exposure) \<and>
     getXY0 mi = getXY0 (getMaskedImage exposure) \<and>
     getMaskPlaneDict mi = getMaskPlaneDict (getMaskedImage exposure) \<and>
     imageBBox mi = imageBBox (getMaskedImage exposure)"
  have "?P (getMaskedImage exposure')"
    by (rule run_invariant [OF assms]) (simp_all add: linearizeAmp_frame)
  with run_result_image(2,3) [OF assms] show ?thesis by simp
qed

theorem run_frame_witness:
  "getVariance ex_corrected = [[Fin 1, Fin 1], [Fin 1, Fin 1]] \<and>
   imageBBox ex_corrected = Box2I (0, 0) (2, 2)"
  using run_frame [OF ex_run] by (simp add: isr_defs)

text \<open>
  Property C11 (safety).  The only change \<open>run\<close> ever makes to a mask pixel is
  to set the bit of the \<open>SUSPECT\<close> plane: no bit of a mask pixel is cleared,
  and a bit that is set afterwards and was not before is the bit the mask
  plane dictionary gives to \<open>SUSPECT\<close>, whatever the coefficients are and
  whether or not the call raises.
\<close>

theorem run_mask_bits:
  assumes "ProportionalLinearizeTask_run exposure logs = (r, exposure', logs')"
    and "wf_image (getMaskedImage exposure)"
    and "mask_at (getMaskedImage exposure) x y = Some m"
  shows "\<exists>m'. mask_at (getMaskedImage exposure') x y = Some m' \<and>
     (\<forall>n. bit m n \<longrightarrow> bit m' n) \<and>
     (\<forall>n. bit m' n \<and> \<not> bit m n \<longrightarrow>
        map_of (getMaskPlaneDict (getMaskedImage exposure)) ''SUSPECT'' = Some n)"
proof -
  from assms(2) have wfd: "wf_dict (getMaskPlaneDict (getMaskedImage exposure))"
    by (simp add: wf_image_def)
  from run_mask_at_cases [OF assms] show ?thesis
  proof
    assume "mask_at (getMaskedImage exposure') x y = Some m"
    then show ?thesis by simp
  next
    assume "\<exists>suspect. planeBitMask (getMaskPlaneDict (getMaskedImage exposure)) ''SUSPECT'' =
        Some suspect \<and> mask_at (getMaskedImage exposure') x y = Some (m OR suspect)"
    then obtain suspect where
      s: "planeBitMask (getMaskPlaneDict (getMaskedImage exposure)) ''SUSPECT'' = Some suspect"
      and m': "mask_at (getMaskedImage exposure') x y = Some (m OR suspect)" by blast
    from planeBitMask_bit [OF wfd s] m' show ?thesis by (auto simp: bit_simps)
  qed
qed

theorem run_mask_bits_witness:
  "mask_at (getMaskedImage ex_exposure) 0 0 = Some 0 \<and> mask_at ex_corrected 0 0 = Some 128 \<and>
   bit (128 :: maskPixel) 7 \<and> map_of defaultMaskPlaneDict ''SUSPECT'' = Some 7"
  using run_mask_bits [OF ex_run ex_wf, of 0 0 0] by (simp add: isr_defs)

text \<open>
  Property C36 (functional).  When the first amplifier has linearity type
  \<open>NONE\<close>, \<open>run\<close> returns at once: image, mask and variance are untouched
  whatever the other amplifiers say, and the only effect is one DEBUG
  record naming the detector.
\<close>

theorem run_not_wanted:
  assumes "getAmplifiers (getDetector exposure) = amp # amps"
    and "getLinearityType amp = ''NONE''"
  shows "ProportionalLinearizeTask_run exposure logs =
     (Inr (), exposure, logs @ [DebugNotWanted (getId (getDetector exposure))])"
  using assms by (simp add: ProportionalLinearizeTask_run_def doCorrect_Cons)

theorem run_not_wanted_witness:
  "ProportionalLinearizeTask_run
     (ex_exposure_with [ex_amp0\<lparr>getLinearityType := ''NONE''\<rparr>, ex_amp1]) [] =
   (Inr (), ex_exposure_with [ex_amp0\<lparr>getLinearityType := ''NONE''\<rparr>, ex_amp1],
    [DebugNotWanted 7])"
  using run_not_wanted [of "ex_exposure_with [ex_amp0\<lparr>getLinearityType := ''NONE''\<rparr>, ex_amp1]"
      "ex_amp0\<lparr>getLinearityType := ''NONE''\<rparr>" "[ex_amp1]" "[]"]
  by (simp add: ex_exposure_with_def)

text \<open>
  Property C37 (functional).  When every amplifier has a zero square
  coefficient and a threshold that is not positive, \<open>run\<close> is a no-op: the
  exposure is returned as it was and nothing is logged, not even the INFO
  record.  This is the case the spec lists as idempotence; it holds for a
  first call as for a second one.
\<close>

theorem run_all_skipped:
  assumes "doCorrect (getDetector exposure) = Inr True"
    and "list_all (\<lambda>a. coeffs_ok a \<and> skipped a) (getAmplifiers (getDetector exposure))"
  shows "ProportionalLinearizeTask_run exposure logs = (Inr (), exposure, logs)"
  using assms by (simp add: run_unfold linearizeAmps_all_skipped)

theorem run_all_skipped_witness:
  "ProportionalLinearizeTask_run
     (ex_exposure_with [ex_amp0\<lparr>getLinearityCoeffs := [0, 0, 0]\<rparr>,
                        ex_amp1\<lparr>getLinearityCoeffs := [0, 0, Fin (- 1)]\<rparr>]) [] =
   (Inr (), ex_exposure_with [ex_amp0\<lparr>getLinearityCoeffs := [0, 0, 0]\<rparr>,
                              ex_amp1\<lparr>getLinearityCoeffs := [0, 0, Fin (- 1)]\<rparr>], [])"
  using run_all_skipped [of "ex_exposure_with [ex_amp0\<lparr>getLinearityCoeffs := [0, 0, 0]\<rparr>,
                        ex_amp1\<lparr>getLinearityCoeffs := [0, 0, Fin (- 1)]\<rparr>]" "[]"]
  by (simp add: isr_defs)

text \<open>
  \<open>doCorrect\<close> counts the coefficients of the first
  amplifier only.  A later amplifier with fewer than three coefficients makes
  the unpacking of the slice fail: \<open>run\<close> raises \<open>ValueError\<close> (not the
  \<open>RuntimeError\<close> its documentation announces), after the earlier amplifiers
  have been corrected.
\<close>

lemma run_short_coeffs_error:
  assumes "doCorrect (getDetector exposure) = Inr True"
    and "getAmplifiers (getDetector exposure) = pre @ amp # post"
    and "list_all coeffs_ok pre"
    and "list_all (\<lambda>a. containsBox (imageBBox (getMaskedImage exposure)) (getBBox a)) pre"
    and "wf_image (getMaskedImage exposure)"
    and "planeBitMask (getMaskPlaneDict (getMaskedImage exposure)) ''SUSPECT'' = Some suspect"
    and "length (getLinearityCoeffs amp) < 3"
  shows "ProportionalLinearizeTask_run exposure logs =
     (Inl (ValueError (length (getLinearityCoeffs amp))),
      exposure\<lparr>getMaskedImage := linearizeSpec suspect pre (getMaskedImage exposure)\<rparr>, logs)"
  by (rule run_stops_at [OF assms(1-6)]) (rule linearizeAmp_short [OF assms(7)])

text \<open>
  An amplifier that is not skipped and whose box is not
  inside the image makes the construction of the sub-image fail: \<open>run\<close>
  raises the framework's \<open>LengthError\<close>, again with the earlier amplifiers
  already corrected.
\<close>

lemma run_bbox_outside_error:
  assumes "doCorrect (getDetector exposure) = Inr True"
    and "getAmplifiers (getDetector exposure) = pre @ amp # post"
    and "list_all coeffs_ok pre"
    and "list_all (\<lambda>a. containsBox (imageBBox (getMaskedImage exposure)) (getBBox a)) pre"
    and "wf_image (getMaskedImage exposure)"
    and "planeBitMask (getMaskPlaneDict (getMaskedImage exposure)) ''SUSPECT'' = Some suspect"
    and "coeffs_ok amp" "\<not> skipped amp"
    and "\<not> containsBox (imageBBox (getMaskedImage exposure)) (getBBox amp)"
  shows "ProportionalLinearizeTask_run exposure logs =
     (Inl LengthError,
      exposure\<lparr>getMaskedImage := linearizeSpec suspect pre (getMaskedImage exposure)\<rparr>, logs)"
  by (rule run_stops_at [OF assms(1-6)]) (simp add: linearizeAmp_outside assms(7-9))

text \<open>
  Property C38 (equivalence).  The linearity type is read from the first
  amplifier only: changing the type of any later amplifier, to a type the
  task does not support included, changes nothing of what \<open>run\<close> returns,
  writes or logs.
\<close>

theorem run_reads_first_type_only:
  assumes "getAmplifiers (getDetector exposure) = amp # amps"
  shows "ProportionalLinearizeTask_run
     (exposure\<lparr>getDetector := (getDetector exposure)
        \<lparr>getAmplifiers := amp # map (\<lambda>a. a\<lparr>getLinearityType := ty a\<rparr>) amps\<rparr>\<rparr>) logs =
     (case ProportionalLinearizeTask_run exposure logs of
        (r, e, l) \<Rightarrow>
          (r, e\<lparr>getDetector := (getDetector exposure)
                \<lparr>getAmplifiers := amp # map (\<lambda>a. a\<lparr>getLinearityType := ty a\<rparr>) amps\<rparr>\<rparr>, l))"
proof -
  let ?d2 = "(getDetector exposure)
     \<lparr>getAmplifiers := amp # map (\<lambda>a. a\<lparr>getLinearityType := ty a\<rparr>) amps\<rparr>"
  let ?e2 = "exposure\<lparr>getDetector := ?d2\<rparr>"
  have 1: "doCorrect (getDetector ?e2) = doCorrect (getDetector exposure)"
    using assms by (simp add: doCorrect_Cons)
  have "linearizeAmps ?d2 (amp # map (\<lambda>a. a\<lparr>getLinearityType := ty a\<rparr>) amps) False
          (getMaskedImage exposure) =
        linearizeAmps (getDetector exposure) (amp # amps) False (getMaskedImage exposure)"
    by (simp add: linearizeAmps_det_irrelevant [of ?d2 "getDetector exposure"]
        linearizeAmp_det_irrelevant [of ?d2 "getDetector exposure"]
        linearizeAmps_type_irrelevant split: sum.splits prod.splits)
  then have 2: "linearizeAmps (getDetector ?e2) (getAmplifiers (getDetector ?e2)) False
      (getMaskedImage ?e2) =
     linearizeAmps (getDetector exposure) (getAmplifiers (getDetector exposure)) False
      (getMaskedImage exposure)"
    using assms by simp
  have "ProportionalLinearizeTask_run ?e2 logs =
     (case ProportionalLinearizeTask_run exposure logs of
        (r, e, l) \<Rightarrow> (r, e\<lparr>getDetector := getDetector ?e2\<rparr>, l))"
    by (rule run_cong [OF 1 2]) simp_all
  then show ?thesis by simp
qed

theorem run_reads_first_type_only_witness:
  "ProportionalLinearizeTask_run
     (ex_exposure_with [ex_amp0, ex_amp1\<lparr>getLinearityType := ''POLYNOMIAL''\<rparr>]) [] =
   (Inr (), ex_exposure_with [ex_amp0, ex_amp1\<lparr>getLinearityType := ''POLYNOMIAL''\<rparr>]
              \<lparr>getMaskedImage := ex_corrected\<rparr>, [InfoApplied 7])"
  using run_reads_first_type_only [of ex_exposure ex_amp0 "[ex_amp1]" "\<lambda>_. ''POLYNOMIAL''" "[]"]
  by (simp add: ex_run) (simp add: ex_exposure_def ex_exposure_with_def)

text \<open>
  Property C35 (functional).  The test for coefficients that are not finite
  sits after a \<open>raise\<close> and never runs.  A square coefficient that is NaN
  therefore passes every guard (\<open>NaN == 0.0\<close> is false, so the amplifier is
  not skipped, and \<open>NaN != 0\<close> is true, so the image is scaled): \<open>run\<close>
  returns normally and every pixel of that amplifier has become NaN.
\<close>

theorem run_nan_coefficient:
  assumes "doCorrect (getDetector exposure) = Inr True"
    and "list_all coeffs_ok (getAmplifiers (getDetector exposure))"
    and "amps_in_image (getDetector exposure) (getMaskedImage exposure)"
    and "amps_disjoint (getDetector exposure)"
    and "wf_image (getMaskedImage exposure)"
    and "planeBitMask (getMaskPlaneDict (getMaskedImage exposure)) ''SUSPECT'' = Some suspect"
    and "amp \<in> set (getAmplifiers (getDetector exposure))"
    and "squareCoeff_of amp = NaN"
    and "containsPoint (getBBox amp) x y"
  shows "fst (ProportionalLinearizeTask_run exposure logs) = Inr () \<and>
     image_at (getMaskedImage (fst (snd (ProportionalLinearizeTask_run exposure logs)))) x y =
       Some NaN"
proof -
  let ?amps = "getAmplifiers (getDetector exposure)" and ?mi = "getMaskedImage exposure"
  from assms(4) have dj: "pairwise_disjoint (map getBBox ?amps)"
    by (simp add: amps_disjoint_def)
  from assms(3,7,9) have "containsPoint (imageBBox ?mi) x y"
    by (auto simp: amps_in_image_def list_all_iff intro: containsBox_point)
  with assms(5) obtain v where "image_at ?mi x y = Some v"
    using image_at_in_box [of ?mi x y] by (cases "image_at ?mi x y") auto
  with assms(1,2,3,5,6,8) amp_at_member [OF dj assms(7,9)] show ?thesis
    by (simp add: run_unfold amps_in_image_def linearizeAmps_refines [where bits = suspect]
        linearizeSpec_image_at [OF dj assms(5)])
qed

theorem run_nan_coefficient_witness:
  "image_at (getMaskedImage (fst (snd (ProportionalLinearizeTask_run
      (ex_exposure_with [ex_amp0\<lparr>getLinearityCoeffs := [NaN, 0, Fin 5]\<rparr>, ex_amp1]) []))))
     0 0 = Some NaN"
  using run_nan_coefficient [where exposure =
      "ex_exposure_with [ex_amp0\<lparr>getLinearityCoeffs := [NaN, 0, Fin 5]\<rparr>, ex_amp1]"
      and amp = "ex_amp0\<lparr>getLinearityCoeffs := [NaN, 0, Fin 5]\<rparr>" and suspect = 128
      and x = 0 and y = 0 and logs = "[]"]
  by (simp add: isr_defs)

text \<open>
  Coefficients after the third are ignored:
  cutting every amplifier's coefficient list down to its first three entries
  changes nothing of what \<open>run\<close> returns, writes or logs.
\<close>

lemma run_ignores_extra_coeffs:
  assumes "getAmplifiers (getDetector exposure) = amp # amps"
    and "3 \<le> length (getLinearityCoeffs amp)"
  shows "ProportionalLinearizeTask_run
     (exposure\<lparr>getDetector := (getDetector exposure)
        \<lparr>getAmplifiers :=
           map (\<lambda>a. a\<lparr>getLinearityCoeffs := take 3 (getLinearityCoeffs a)\<rparr>) (amp # amps)\<rparr>\<rparr>) logs =
     (case ProportionalLinearizeTask_run exposure logs of
        (r, e, l) \<Rightarrow>
          (r, e\<lparr>getDetector := (getDetector exposure)
                \<lparr>getAmplifiers :=
                   map (\<lambda>a. a\<lparr>getLinearityCoeffs := take 3 (getLinearityCoeffs a)\<rparr>) (amp # amps)\<rparr>\<rparr>,
           l))"
proof -
  let ?d2 = "(getDetector exposure)\<lparr>getAmplifiers :=
     map (\<lambda>a. a\<lparr>getLinearityCoeffs := take 3 (getLinearityCoeffs a)\<rparr>) (amp # amps)\<rparr>"
  let ?e2 = "exposure\<lparr>getDetector := ?d2\<rparr>"
  have 1: "doCorrect (getDetector ?e2) = doCorrect (getDetector exposure)"
    using assms by (simp add: doCorrect_Cons)
  have 2: "linearizeAmps (getDetector ?e2) (getAmplifiers (getDetector ?e2)) False
      (getMaskedImage ?e2) =
     linearizeAmps (getDetector exposure) (getAmplifiers (getDetector exposure)) False
      (getMaskedImage exposure)"
    using linearizeAmps_take3 [of "getDetector exposure" "amp # amps"] assms(1)
    by (simp add: linearizeAmps_det_irrelevant [of ?d2 "getDetector exposure"] del: list.map)
  have "ProportionalLinearizeTask_run ?e2 logs =
     (case ProportionalLinearizeTask_run exposure logs of
        (r, e, l) \<Rightarrow> (r, e\<lparr>getDetector := getDetector ?e2\<rparr>, l))"
    by (rule run_cong [OF 1 2]) simp_all
  then show ?thesis by simp
qed

text \<open>
  Property C22 (equivalence).  With amplifier boxes that do not overlap, the
  order in which the detector lists its amplifiers does not matter: two
  exposures that differ only in that order are both corrected, to the same
  masked image.
\<close>

theorem run_order_irrelevant:
  assumes "doCorrect (getDetector e1) = Inr True" "doCorrect (getDetector e2) = Inr True"
    and "list_all coeffs_ok (getAmplifiers (getDetector e1))"
    and "amps_in_image (getDetector e1) (getMaskedImage e1)"
    and "amps_disjoint (getDetector e1)" "amps_disjoint (getDetector e2)"
    and "wf_image (getMaskedImage e1)"
    and "planeBitMask (getMaskPlaneDict (getMaskedImage e1)) ''SUSPECT'' = Some suspect"
    and "set (getAmplifiers (getDetector e2)) = set (getAmplifiers (getDetector e1))"
    and "getMaskedImage e2 = getMaskedImage e1"
  shows "fst (ProportionalLinearizeTask_run e2 logs) = Inr () \<and>
     fst (ProportionalLinearizeTask_run e1 logs) = Inr () \<and>
     getMaskedImage (fst (snd (ProportionalLinearizeTask_run e2 logs))) =
     getMaskedImage (fst (snd (ProportionalLinearizeTask_run e1 logs)))"
proof -
  from assms(3,4,9) have ok2: "list_all coeffs_ok (getAmplifiers (getDetector e2))"
    and in2: "amps_in_image (getDetector e2) (getMaskedImage e1)"
    by (simp_all add: list_all_iff amps_in_image_def)
  from assms(5,6) have dj: "pairwise_disjoint (map getBBox (getAmplifiers (getDetector e1)))"
    "pairwise_disjoint (map getBBox (getAmplifiers (getDetector e2)))"
    by (simp_all add: amps_disjoint_def)
  from assms(1,2,3,4,7,8,10) ok2 in2 show ?thesis
    by (simp add: run_unfold amps_in_image_def linearizeAmps_refines [where bits = suspect]
        linearizeSpec_permute [OF assms(7) dj assms(9)])
qed

theorem run_order_irrelevant_witness:
  "getMaskedImage (fst (snd (ProportionalLinearizeTask_run
      (ex_exposure_with [ex_amp1, ex_amp0]) []))) = ex_corrected"
  using run_order_irrelevant [of ex_exposure "ex_exposure_with [ex_amp1, ex_amp0]" 128 "[]"]
  by (simp add: ex_run) (simp add: isr_defs)

text \<open>
  Property C26 (bounds).  A square coefficient that is not negative never
  lowers a pixel: when every amplifier has one, each finite pixel of the
  image is finite afterwards and at least what it was, also where amplifier
  boxes overlap and when \<open>run\<close> raises half way through the loop.
\<close>

theorem run_never_lowers:
  assumes "ProportionalLinearizeTask_run exposure logs = (r, exposure', logs')"
    and "list_all (\<lambda>a. py_ge (squareCoeff_of a) 0) (getAmplifiers (getDetector exposure))"
    and "image_at (getMaskedImage exposure) x y = Some (Fin v)"
  shows "\<exists>v'. image_at (getMaskedImage exposure') x y = Some (Fin v') \<and> v \<le> v'"
proof (rule run_invariant [OF assms(1)])
  from assms(3) show "\<exists>v'. image_at (getMaskedImage exposure) x y = Some (Fin v') \<and> v \<le> v'"
    by simp
next
  fix amp mi c mi'
  assume mem: "amp \<in> set (getAmplifiers (getDetector exposure))"
    and P: "\<exists>v'. image_at mi x y = Some (Fin v') \<and> v \<le> v'"
    and step: "linearizeAmp (getDetector exposure) amp mi = Inr (c, mi')"
  from mem assms(2) have "py_ge (squareCoeff_of amp) 0" by (simp add: list_all_iff)
  from P obtain w where w: "image_at mi x y = Some (Fin w)" "v \<le> w" by blast
  from corrected_ge [OF \<open>py_ge (squareCoeff_of amp) 0\<close>, of w] w
  show "\<exists>v'. image_at mi' x y = Some (Fin v') \<and> v \<le> v'"
    by (auto simp: linearizeAmp_image_at [OF step])
qed

theorem run_never_lowers_witness:
  "image_at (getMaskedImage ex_exposure) 0 0 = Some (Fin 10) \<and>
   image_at ex_corrected 0 0 = Some (Fin 20) \<and> (10 :: real) \<le> 20"
  using run_never_lowers [OF ex_run, of 0 0 10] by (simp add: isr_defs)

text \<open>
  Property C24 (functional).  What \<open>run\<close> logs, on every input: the DEBUG record
  when \<open>doCorrect\<close> says no; the INFO record when it returns normally and some
  amplifier was not skipped; nothing otherwise, in particular nothing when
  it raises.
\<close>

theorem run_log_cases:
  assumes "ProportionalLinearizeTask_run exposure logs = (r, exposure', logs')"
  shows "logs' =
     (if doCorrect (getDetector exposure) = Inr False
      then logs @ [DebugNotWanted (getId (getDetector exposure))]
      else if r = Inr () \<and> \<not> list_all skipped (getAmplifiers (getDetector exposure))
      then logs @ [InfoApplied (getId (getDetector exposure))]
      else logs)"
proof (cases "doCorrect (getDetector exposure) = Inr True")
  case True
  let ?loop = "linearizeAmps (getDetector exposure) (getAmplifiers (getDetector exposure)) False
     (getMaskedImage exposure)"
  show ?thesis
  proof (cases "fst ?loop")
    case (Inl e)
    with assms True show ?thesis by (auto simp: run_unfold split: prod.splits)
  next
    case (Inr d')
    from linearizeAmps_flag [OF this] Inr assms True show ?thesis
      by (auto simp: run_unfold split: prod.splits)
  qed
next
  case False
  with assms show ?thesis
    by (auto simp: ProportionalLinearizeTask_run_def Let_def split: sum.splits bool.splits)
qed

theorem run_log_cases_witness:
  "[InfoApplied 7] = [] @ [InfoApplied (getId (getDetector ex_exposure))] \<and>
   \<not> list_all skipped (getAmplifiers (getDetector ex_exposure))"
  using run_log_cases [OF ex_run] by (simp add: isr_defs)

text \<open>
  Property C30 (type).  Mask pixels stay typed by the mask plane dictionary:
  when every bit set in the mask of the exposure is the bit of a plane the
  dictionary defines, the same holds after \<open>run\<close>, whatever it returns.
\<close>

theorem run_keeps_mask_typed:
  assumes "ProportionalLinearizeTask_run exposure logs = (r, exposure', logs')"
    and "mask_typed (getMaskedImage exposure)"
  shows "mask_typed (getMaskedImage exposure')"
proof (rule run_invariant [where P = mask_typed, OF assms])
  fix amp mi c mi'
  assume "mask_typed mi" "linearizeAmp (getDetector exposure) amp mi = Inr (c, mi')"
  with linearizeAmp_InrD [of "getDetector exposure" amp mi c mi'] show "mask_typed mi'"
    by (auto simp: mask_typed_setMaskAbove)
qed

theorem run_keeps_mask_typed_witness:
  "mask_typed (getMaskedImage ex_exposure) \<and> mask_typed ex_corrected"
  using run_keeps_mask_typed [OF ex_run] ex_typed by simp

end
