(* ===== verification/LinearizeTest.thy ===== *)
theory LinearizeTest
  imports ProportionalLinearize
begin

text \<open>
  The unit test of \<open>ProportionalLinearizeTask\<close>,
  \<open>tests/testProportionalLinearityTask.py\<close>.

  \<^item> \<open>makeSimpleDetector\<close>, \<open>setUp\<close>, \<open>testBasicCorrection\<close> and
    \<open>testNoCorrection\<close> are the functions of those names; a test case is a
    boolean that is true when its assertion holds.  \<open>setLinearity\<close> is the
    loop of a test case that sets type and coefficients of every amplifier.
    \<open>DetectorWrapper\<close>, \<open>ExposureF\<close> and \<open>linspace\<close> are the helpers of the
    framework and of numpy the test calls.
  \<^item> \<open>uniformSpec\<close> is what the test expects of an exposure whose amplifiers
    all carry the same coefficients: the whole-array expressions
    \<open>imArr*(1 + squareCoeff*imArr)\<close> and \<open>where(imArr > suspectValue, ...)\<close>.
    \<open>covers\<close> says that the amplifier boxes leave no pixel of a box out.
  \<^item> Arithmetic is exact in the model, so the comparison of the test
    (\<open>assertMaskedImagesNearlyEqual\<close>) is modelled as equality, which implies
    it.  The images are 1000 by 600 pixels; the test cases are proved from
    the lemmas about \<open>run\<close>, not by evaluating the images.
\<close>

section \<open>What the test expects\<close>

definition uniformSpec :: "maskPixel \<Rightarrow> pyfloat \<Rightarrow> pyfloat \<Rightarrow> maskedImage \<Rightarrow> maskedImage" where
  "uniformSpec suspect s t mi =
     mi\<lparr>getImage := map (map (\<lambda>v. v * (1 + s * v))) (getImage mi),
        getMask := map2 (map2 (\<lambda>v m. if flagged t v then m OR suspect else m))
                     (getImage mi) (getMask mi)\<rparr>"

definition covers :: "amplifier list \<Rightarrow> box2i \<Rightarrow> bool" where
  "covers amps b \<longleftrightarrow>
     list_all (\<lambda>y. list_all (\<lambda>x. amp_at amps x y \<noteq> None)
                      [getMinX b..getMinX b + int (getWidth b) - 1])
       [getMinY b..getMinY b + int (getHeight b) - 1]"

section \<open>The test\<close>

fun digits :: "nat \<Rightarrow> string" where
  "digits n = (if n < 10 then [char_of (48 + n)] else digits (n div 10) @ [char_of (48 + n mod 10)])"

definition DetectorWrapper :: "box2i \<Rightarrow> nat \<Rightarrow> detector" where
  "DetectorWrapper bbox numAmps =
     \<lparr>getId = 1,
      getAmplifiers =
        map (\<lambda>i. \<lparr>getName = ''amp '' @ digits (i + 1), getBBox = Box2I (- 1, 1) (5, 6),
                   getLinearityType = [], getLinearityCoeffs = []\<rparr>) [0..<numAmps]\<rparr>"

definition ExposureF :: "box2i \<Rightarrow> maskedImage" where
  "ExposureF bbox =
     \<lparr>getImage = replicate (getHeight bbox) (replicate (getWidth bbox) 0),
      getMask = replicate (getHeight bbox) (replicate (getWidth bbox) 0),
      getVariance = replicate (getHeight bbox) (replicate (getWidth bbox) 0),
      getXY0 = (getMinX bbox, getMinY bbox),
      getMaskPlaneDict = defaultMaskPlaneDict\<rparr>"

definition linspace :: "real \<Rightarrow> real \<Rightarrow> nat \<Rightarrow> nat \<Rightarrow> pyfloat" where
  "linspace start stop num k = Fin (start + real k * ((stop - start) / real (num - 1)))"

definition fill_flat :: "(nat \<Rightarrow> pyfloat) \<Rightarrow> pyfloat plane \<Rightarrow> pyfloat plane" where
  "fill_flat f p =
     map (\<lambda>j. map (\<lambda>i. f (j * plane_width p + i)) [0..<plane_width p]) [0..<plane_height p]"

definition ampDim :: extent2i where
  "ampDim = (500, 300)"

definition expBBox :: box2i where
  "expBBox = Box2I (0, 0) (fst ampDim * 2, snd ampDim * 2)"

definition makeSimpleDetector :: detector where
  "makeSimpleDetector =
     (let detector = DetectorWrapper expBBox 4 in
      detector\<lparr>getAmplifiers :=
        map (\<lambda>(i, amp).
               amp\<lparr>getBBox :=
                 Box2I (if i \<in> {1, 3} then int (fst ampDim) else 0,
                        if i \<in> {2, 3} then int (snd ampDim) else 0) ampDim\<rparr>)
          (enumerate 0 (getAmplifiers detector))\<rparr>)"

definition setUp :: "detector exposure" where
  "setUp = \<lparr>getMaskedImage = ExposureF expBBox, getDetector = makeSimpleDetector,
            getExptime = 0\<rparr>"

definition setLinearity :: "string \<Rightarrow> pyfloat list option \<Rightarrow> detector \<Rightarrow> detector" where
  "setLinearity ty coeffs d =
     d\<lparr>getAmplifiers :=
         map (\<lambda>amp. (case coeffs of
                        None \<Rightarrow> amp\<lparr>getLinearityType := ty\<rparr>
                      | Some cs \<Rightarrow> amp\<lparr>getLinearityType := ty, getLinearityCoeffs := cs\<rparr>))
           (getAmplifiers d)\<rparr>"

definition testBasicCorrection :: bool where
  "testBasicCorrection =
     (let suspectValue = 50000;
          squareCoeff = Fin (1 / 100000);
          exposure = setUp;
          mi = getMaskedImage exposure;
          imArr = fill_flat (linspace 0 (suspectValue + 1000)
                    (plane_width (getImage mi) * plane_height (getImage mi))) (getImage mi);
          begImArr = imArr;
          maskArr = map (map (\<lambda>m. 0)) (getMask mi);
          varArr = imArr;
          mi = mi\<lparr>getImage := imArr, getMask := maskArr, getVariance := varArr\<rparr>;
          desImArr = map (map (\<lambda>v. v * (1 + squareCoeff * v))) imArr;
          desMaskArr = map (map (\<lambda>v. if py_gt v (Fin suspectValue)
                                       then the (planeBitMask (getMaskPlaneDict mi) ''SUSPECT'')
                                       else 0)) imArr;
          detector = setLinearity ''PROPORTIONAL'' (Some [squareCoeff, 0, Fin suspectValue])
                       (getDetector exposure);
          exposure = exposure\<lparr>getMaskedImage := mi, getDetector := detector\<rparr>
      in case ProportionalLinearizeTask_run exposure [] of
           (Inr u, exposure', logs) \<Rightarrow>
             getImage (getMaskedImage exposure') = desImArr \<and>
             getMask (getMaskedImage exposure') = desMaskArr \<and>
             getVariance (getMaskedImage exposure') = begImArr
         | (Inl e, exposure', logs) \<Rightarrow> False)"

definition testNoCorrection :: bool where
  "testNoCorrection =
     (let exposure = setUp;
          begMi = getMaskedImage exposure;
          detector = setLinearity ''NONE'' None (getDetector exposure);
          exposure = exposure\<lparr>getDetector := detector\<rparr>
      in case ProportionalLinearizeTask_run exposure [] of
           (Inr u, exposure', logs) \<Rightarrow> getMaskedImage exposure' = begMi
         | (Inl e, exposure', logs) \<Rightarrow> False)"

section \<open>Planes computed by whole-array expressions\<close>

lemma covers_points:
  "covers amps b \<longleftrightarrow> (\<forall>x y. containsPoint b x y \<longrightarrow> amp_at amps x y \<noteq> None)"
  unfolding covers_def list_all_iff containsPoint_def by auto

lemma map_map_plane: "map (map f) p = map_plane org (\<lambda>x y. f) p"
  by (simp add: map_plane_def imapi_const_map)

lemma map2_map2_plane:
  "map2 (map2 g) p q = map_plane org (\<lambda>x y vm. g (fst vm) (snd vm)) (zip_plane p q)"
  by (simp add: map_map_plane [where org = org, symmetric] zip_plane_def split_def comp_def)

lemma uniformSpec_frame [simp]:
  "getVariance (uniformSpec suspect s t mi) = getVariance mi"
  "getXY0 (uniformSpec suspect s t mi) = getXY0 mi"
  "getMaskPlaneDict (uniformSpec suspect s t mi) = getMaskPlaneDict mi"
  by (simp_all add: uniformSpec_def)

lemma uniformSpec_dims [simp]:
  "imageWidth (uniformSpec suspect s t mi) = imageWidth mi"
  "imageHeight (uniformSpec suspect s t mi) = imageHeight mi"
  by (simp_all add: uniformSpec_def imageWidth_def imageHeight_def plane_height_def
      map_map_plane [where org = "getXY0 mi"])

lemma wf_uniformSpec: "wf_image mi \<Longrightarrow> wf_image (uniformSpec suspect s t mi)"
  by (simp add: wf_image_def)
     (simp add: uniformSpec_def map_map_plane [where org = "getXY0 mi"]
        map2_map2_plane [where org = "getXY0 mi"] rect_zip_plane)

lemma uniformSpec_at:
  assumes "wf_image mi"
  shows "image_at (uniformSpec suspect s t mi) x y = map_option (corrected s) (image_at mi x y)"
    and "mask_at (uniformSpec suspect s t mi) x y =
       (case (image_at mi x y, mask_at mi x y) of
          (Some v, Some m) \<Rightarrow> Some (if flagged t v then m OR suspect else m)
        | _ \<Rightarrow> None)"
    and "variance_at (uniformSpec suspect s t mi) x y = variance_at mi x y"
  using pixel_zip_plane [OF wf_image_rects(1,2) [OF assms], of "getXY0 mi" x y]
  by (auto simp: image_at_def mask_at_def variance_at_def uniformSpec_def scale_fun_eq
      map_map_plane [where org = "getXY0 mi"] map2_map2_plane [where org = "getXY0 mi"]
      split: option.splits)

lemma linearizeSpec_uniform:
  assumes "wf_image mi"
    and "pairwise_disjoint (map getBBox amps)"
    and "covers amps (imageBBox mi)"
    and "\<forall>a \<in> set amps. squareCoeff_of a = s \<and> maxUncorr_of a = t"
  shows "linearizeSpec suspect amps mi = uniformSpec suspect s t mi"
proof (rule maskedImage_eqI)
  show "wf_image (linearizeSpec suspect amps mi)" "wf_image (uniformSpec suspect s t mi)"
    using assms(1) by (simp_all add: wf_linearizeSpec wf_uniformSpec)
  fix x y
  have amp: "\<exists>a \<in> set amps. amp_at amps x y = Some a" if "image_at mi x y \<noteq> None"
    using that assms(3) image_at_in_box [OF assms(1), of x y]
    by (fastforce simp: covers_points dest: amp_at_SomeD)
  show "image_at (linearizeSpec suspect amps mi) x y = image_at (uniformSpec suspect s t mi) x y"
    using amp assms(4)
    by (cases "image_at mi x y")
       (auto simp: linearizeSpec_image_at [OF assms(2,1)] uniformSpec_at [OF assms(1)])
  show "mask_at (linearizeSpec suspect amps mi) x y = mask_at (uniformSpec suspect s t mi) x y"
    using amp assms(4)
    by (cases "image_at mi x y"; cases "mask_at mi x y")
       (auto simp: linearizeSpec_mask_at [OF assms(2,1)] uniformSpec_at [OF assms(1)])
  show "variance_at (linearizeSpec suspect amps mi) x y =
      variance_at (uniformSpec suspect s t mi) x y"
    by (simp add: uniformSpec_at [OF assms(1)] variance_at_def)
qed simp_all

section \<open>Detectors with one coefficient set for every amplifier\<close>

lemma covers_iff:
  "covers amps b \<longleftrightarrow>
     (\<forall>x y. containsPoint b x y \<longrightarrow> (\<exists>c \<in> set (map getBBox amps). containsPoint c x y))"
  by (auto simp: covers_points amp_at_None_iff)

lemma setLinearity_sel [simp]:
  "getId (setLinearity ty cs d) = getId d"
  "map getBBox (getAmplifiers (setLinearity ty cs d)) = map getBBox (getAmplifiers d)"
  "map getName (getAmplifiers (setLinearity ty cs d)) = map getName (getAmplifiers d)"
  "map getLinearityType (getAmplifiers (setLinearity ty cs d)) = map (\<lambda>_. ty) (getAmplifiers d)"
  "getAmplifiers (setLinearity ty cs d) = [] \<longleftrightarrow> getAmplifiers d = []"
  by (auto simp: setLinearity_def split: option.splits)

lemma setLinearity_coeffs [simp]:
  "map getLinearityCoeffs (getAmplifiers (setLinearity ty (Some cs) d)) =
     map (\<lambda>_. cs) (getAmplifiers d)"
  "map getLinearityCoeffs (getAmplifiers (setLinearity ty None d)) =
     map getLinearityCoeffs (getAmplifiers d)"
  by (simp_all add: setLinearity_def)

lemma covers_setLinearity [simp]:
  "covers (getAmplifiers (setLinearity ty cs d)) b = covers (getAmplifiers d) b"
  by (simp add: covers_iff)

lemma doCorrect_setLinearity:
  assumes "getAmplifiers d \<noteq> []"
  shows "doCorrect (setLinearity ''NONE'' cs d) = Inr False"
    and "3 \<le> length coeffs \<Longrightarrow> doCorrect (setLinearity ''PROPORTIONAL'' (Some coeffs) d) = Inr True"
  using assms
  by (cases "getAmplifiers d"; simp add: doCorrect_def setLinearity_def Let_def split: option.splits)+

lemma setLinearity_all:
  "list_all P (getAmplifiers (setLinearity ty (Some cs) d)) \<longleftrightarrow>
   list_all (\<lambda>a. P (a\<lparr>getLinearityType := ty, getLinearityCoeffs := cs\<rparr>)) (getAmplifiers d)"
  by (simp add: setLinearity_def list_all_iff)

lemma run_uniform:
  assumes "getAmplifiers d \<noteq> []" "wf_image mi"
    and "pairwise_disjoint (map getBBox (getAmplifiers d))"
    and "covers (getAmplifiers d) (imageBBox mi)"
    and "list_all (\<lambda>a. containsBox (imageBBox mi) (getBBox a)) (getAmplifiers d)"
    and "planeBitMask (getMaskPlaneDict mi) ''SUSPECT'' = Some suspect"
  shows "ProportionalLinearizeTask_run
       \<lparr>getMaskedImage = mi, getDetector = setLinearity ''PROPORTIONAL'' (Some [s, 0, t]) d,
        getExptime = T\<rparr> logs =
     (Inr (),
      \<lparr>getMaskedImage = uniformSpec suspect s t mi,
       getDetector = setLinearity ''PROPORTIONAL'' (Some [s, 0, t]) d, getExptime = T\<rparr>,
      if py_le t 0 \<and> py_eq s 0 then logs else logs @ [InfoApplied (getId d)])"
proof -
  let ?d = "setLinearity ''PROPORTIONAL'' (Some [s, 0, t]) d"
  let ?e = "\<lparr>getMaskedImage = mi, getDetector = ?d, getExptime = T\<rparr>"
  have ok: "list_all coeffs_ok (getAmplifiers ?d)"
    by (simp add: setLinearity_def coeffs_ok_def list_all_iff)
  have inside: "list_all (\<lambda>a. containsBox (imageBBox mi) (getBBox a)) (getAmplifiers ?d)"
    using assms(5) by (simp add: setLinearity_def list_all_iff)
  have coeffs: "\<forall>a \<in> set (getAmplifiers ?d). squareCoeff_of a = s \<and> maxUncorr_of a = t"
    by (simp add: setLinearity_def squareCoeff_of_def maxUncorr_of_def)
  have skip: "list_ex (\<lambda>a. \<not> skipped a) (getAmplifiers ?d) \<longleftrightarrow> \<not> (py_le t 0 \<and> py_eq s 0)"
  proof -
    from assms(1) obtain a where "a \<in> set (getAmplifiers ?d)"
      by (cases "getAmplifiers ?d") auto
    with coeffs show ?thesis by (auto simp: list_ex_iff skipped_def)
  qed
  have spec: "linearizeSpec suspect (getAmplifiers ?d) mi = uniformSpec suspect s t mi"
    using assms(2,3,4) coeffs by (intro linearizeSpec_uniform) simp_all
  show ?thesis
    using assms(1,2,6) ok inside skip spec
    by (simp add: run_unfold doCorrect_setLinearity
        linearizeAmps_refines [where bits = suspect])
qed

section \<open>The fixtures\<close>

lemma makeSimpleDetector_amps:
  "map getBBox (getAmplifiers makeSimpleDetector) =
     [Box2I (0, 0) (500, 300), Box2I (500, 0) (500, 300),
      Box2I (0, 300) (500, 300), Box2I (500, 300) (500, 300)]"
  by (simp add: makeSimpleDetector_def DetectorWrapper_def ampDim_def upt_rec enumerate_eq_zip
      Let_def)

lemma expBBox_eq: "expBBox = Box2I (0, 0) (1000, 600)"
  by (simp add: expBBox_def ampDim_def)

lemma rect_replicate [simp]: "rect w h (replicate h (replicate w c))"
  by (simp add: rect_def list_all_iff)

lemma plane_dims_replicate [simp]:
  "plane_height (replicate h r) = h"
  "0 < h \<Longrightarrow> plane_width (replicate h (replicate w c)) = w"
  by (cases h; simp add: plane_height_def plane_width_def)+

lemma rect_fill_flat [simp]: "rect (plane_width p) (plane_height p) (fill_flat f p)"
  by (simp add: fill_flat_def rect_def list_all_iff)

lemma fill_flat_dims [simp]:
  "plane_height (fill_flat f p) = plane_height p"
  "0 < plane_height p \<Longrightarrow> plane_width (fill_flat f p) = plane_width p"
  using plane_width_rect [OF rect_fill_flat [of p f]]
  by (simp_all add: fill_flat_def plane_height_def)

lemma map2_map2_const:
  assumes "rect w h p"
  shows "map2 (map2 g) p (replicate h (replicate w c)) = map (map (\<lambda>v. g v c)) p"
proof -
  have row: "map2 g r (replicate w c) = map (\<lambda>v. g v c) r" if "length r = w" for r
    using that by (intro nth_equalityI) simp_all
  from assms show ?thesis
    by (intro nth_equalityI) (simp_all add: rect_iff row)
qed

lemma ExposureF_sel [simp]:
  "getXY0 (ExposureF b) = (getMinX b, getMinY b)"
  "getMaskPlaneDict (ExposureF b) = defaultMaskPlaneDict"
  "getImage (ExposureF b) = replicate (getHeight b) (replicate (getWidth b) 0)"
  "getMask (ExposureF b) = replicate (getHeight b) (replicate (getWidth b) 0)"
  "getVariance (ExposureF b) = replicate (getHeight b) (replicate (getWidth b) 0)"
  by (simp_all add: ExposureF_def)

lemma wf_ExposureF [simp]: "wf_image (ExposureF b)"
  by (cases "getHeight b = 0")
    (simp_all add: wf_image_def imageWidth_def imageHeight_def rect_def plane_height_def
      list_all_iff)

lemma imageBBox_ExposureF: "\<not> isEmpty b \<Longrightarrow> imageBBox (ExposureF b) = b"
  by (simp add: imageBBox_def imageWidth_def imageHeight_def isEmpty_def)

lemma simple_amps_nonempty: "getAmplifiers makeSimpleDetector \<noteq> []"
  using makeSimpleDetector_amps by auto

lemma simple_amps_disjoint: "pairwise_disjoint (map getBBox (getAmplifiers makeSimpleDetector))"
  by (simp add: makeSimpleDetector_amps overlaps_def)

lemma simple_amps_inside:
  "list_all (\<lambda>a. containsBox expBBox (getBBox a)) (getAmplifiers makeSimpleDetector)"
proof -
  have "list_all (containsBox expBBox) (map getBBox (getAmplifiers makeSimpleDetector))"
    unfolding makeSimpleDetector_amps by (simp add: expBBox_eq containsBox_def)
  then show ?thesis by (simp add: list_all_iff)
qed

lemma simple_amps_cover: "covers (getAmplifiers makeSimpleDetector) expBBox"
  unfolding covers_iff makeSimpleDetector_amps expBBox_eq
proof (intro allI impI)
  fix x y
  assume "containsPoint (Box2I (0, 0) (1000, 600)) x y"
  then have "0 \<le> x" "x < 1000" "0 \<le> y" "y < 600"
    by (simp_all add: containsPoint_def)
  then show "\<exists>c \<in> set [Box2I (0, 0) (500, 300), Box2I (500, 0) (500, 300),
      Box2I (0, 300) (500, 300), Box2I (500, 300) (500, 300)]. containsPoint c x y"
    by (cases "x < 500"; cases "y < 300") (simp_all add: containsPoint_def)
qed

lemma not_empty_expBBox: "\<not> isEmpty expBBox"
  by (simp add: expBBox_eq isEmpty_def)

lemma length_fill_flat [simp]: "length (fill_flat f p) = length p"
  by (simp add: fill_flat_def plane_height_def)

lemma fill_flat_replicate [simp]:
  assumes "0 < h"
  shows "rect w h (fill_flat f (replicate h (replicate w c)))"
    and "plane_width (fill_flat f (replicate h (replicate w c))) = w"
  using assms rect_fill_flat [of "replicate h (replicate w c)" f]
    fill_flat_dims(2) [of "replicate h (replicate w c)" f]
  by simp_all

lemma zero_mask [simp]: "map (map (\<lambda>m. 0)) (replicate h (replicate w c)) = replicate h (replicate w 0)"
  by simp

section \<open>What the test case does not decide\<close>

text \<open>
  No pixel of the ramp of \<open>testBasicCorrection\<close> equals the threshold 50000:
  the mask the test expects is the same whether a pixel at the threshold
  counts as above it or not.
\<close>

lemma linspace_misses_threshold: "linspace 0 51000 (1000 * 600) k \<noteq> Fin 50000"
proof
  assume "linspace 0 51000 (1000 * 600) k = Fin 50000"
  then have "real k * 51000 = 50000 * 599999" by (simp add: linspace_def field_simps)
  then have "real (k * 51) = real 29999950" by simp
  then have "k * 51 = 29999950" by (rule of_nat_eq_iff [THEN iffD1])
  then have "51 dvd (29999950 :: nat)" by (metis dvd_triv_right)
  then show False by simp
qed

lemma fill_flat_elems: "row \<in> set (fill_flat f p) \<Longrightarrow> v \<in> set row \<Longrightarrow> v \<in> range f"
  by (auto simp: fill_flat_def)

lemma test_threshold_not_decided:
  fixes b :: maskPixel
  defines "ramp \<equiv> fill_flat (linspace 0 51000 (1000 * 600)) (replicate 600 (replicate 1000 0))"
  shows "map (map (\<lambda>v. if py_ge v (Fin 50000) then b else 0)) ramp =
     map (map (\<lambda>v. if py_gt v (Fin 50000) then b else 0)) ramp"
proof -
  have "py_ge v (Fin 50000) \<longleftrightarrow> py_gt v (Fin 50000)" if "row \<in> set ramp" "v \<in> set row" for row v
  proof -
    from fill_flat_elems [OF that [unfolded ramp_def]] obtain k
      where v: "v = linspace 0 51000 (1000 * 600) k" by auto
    obtain r where r: "linspace 0 51000 (1000 * 600) k = Fin r" unfolding linspace_def by blast
    with linspace_misses_threshold [of k] have "r \<noteq> 50000" by simp
    then show ?thesis unfolding v r by auto
  qed
  then show ?thesis by (auto intro!: map_cong)
qed

section \<open>The small exposure, covered\<close>

lemma ex_cover: "covers [ex_amp0, ex_amp1] (imageBBox ex_image)"
  unfolding covers_iff
proof (intro allI impI)
  fix x y
  assume "containsPoint (imageBBox ex_image) x y"
  then have "0 \<le> x" "x < 2" "0 \<le> y" "y < 2"
    by (simp_all add: isr_defs)
  then show "\<exists>c \<in> set (map getBBox [ex_amp0, ex_amp1]). containsPoint c x y"
    by (cases "x < 1") (simp_all add: isr_defs)
qed

section \<open>The property the test samples\<close>

text \<open>
  Property C14 (functional).  On a detector whose amplifier boxes tile the
  image without overlap and all carry the coefficients \<open>(s, 0, t)\<close> with
  type PROPORTIONAL, \<open>run\<close> returns normally, every pixel \<open>v\<close> becomes
  \<open>v*(1 + s*v)\<close>, its mask pixel gains the SUSPECT bit exactly when \<open>t > 0\<close>
  and \<open>v > t\<close>, and the variance plane is kept.
\<close>

theorem run_uniform_pixels:
  assumes "getAmplifiers d \<noteq> []" "wf_image mi"
    and "pairwise_disjoint (map getBBox (getAmplifiers d))"
    and "covers (getAmplifiers d) (imageBBox mi)"
    and "list_all (\<lambda>a. containsBox (imageBBox mi) (getBBox a)) (getAmplifiers d)"
    and "planeBitMask (getMaskPlaneDict mi) ''SUSPECT'' = Some suspect"
    and "image_at mi x y = Some v" "mask_at mi x y = Some m"
    and "exposure = \<lparr>getMaskedImage = mi,
       getDetector = setLinearity ''PROPORTIONAL'' (Some [s, 0, t]) d, getExptime = T\<rparr>"
  shows "fst (ProportionalLinearizeTask_run exposure logs) = Inr () \<and>
     image_at (getMaskedImage (fst (snd (ProportionalLinearizeTask_run exposure logs)))) x y =
       Some (v * (1 + s * v)) \<and>
     mask_at (getMaskedImage (fst (snd (ProportionalLinearizeTask_run exposure logs)))) x y =
       Some (if py_gt t 0 \<and> py_gt v t then m OR suspect else m) \<and>
     getVariance (getMaskedImage (fst (snd (ProportionalLinearizeTask_run exposure logs)))) =
       getVariance mi"
  using assms(7,8) unfolding assms(9) run_uniform [OF assms(1-6)]
  by (auto simp: uniformSpec_at [OF assms(2)] scale_eq_corrected flagged_def)

theorem run_uniform_pixels_witness:
  "image_at (getMaskedImage (fst (snd (ProportionalLinearizeTask_run
      \<lparr>getMaskedImage = ex_image,
       getDetector = setLinearity ''PROPORTIONAL'' (Some [Fin (1 / 10), 0, Fin 5])
         \<lparr>getId = 7, getAmplifiers = [ex_amp0, ex_amp1]\<rparr>,
       getExptime = Fin 30\<rparr> [])))) 0 1 = Some (Fin (28 / 5)) \<and>
   mask_at (getMaskedImage (fst (snd (ProportionalLinearizeTask_run
      \<lparr>getMaskedImage = ex_image,
       getDetector = setLinearity ''PROPORTIONAL'' (Some [Fin (1 / 10), 0, Fin 5])
         \<lparr>getId = 7, getAmplifiers = [ex_amp0, ex_amp1]\<rparr>,
       getExptime = Fin 30\<rparr> [])))) 0 0 = Some 128"
  using run_uniform_pixels [where d = "\<lparr>getId = 7, getAmplifiers = [ex_amp0, ex_amp1]\<rparr>"
      and mi = ex_image and suspect = 128 and s = "Fin (1 / 10)" and t = "Fin 5" and T = "Fin 30"
      and logs = "[]" and x = 0 and y = 1 and v = "Fin 4" and m = 0, OF _ _ _ _ _ _ _ _ refl]
    run_uniform_pixels [where d = "\<lparr>getId = 7, getAmplifiers = [ex_amp0, ex_amp1]\<rparr>"
      and mi = ex_image and suspect = 128 and s = "Fin (1 / 10)" and t = "Fin 5" and T = "Fin 30"
      and logs = "[]" and x = 0 and y = 0 and v = "Fin 10" and m = 0, OF _ _ _ _ _ _ _ _ refl]
    ex_cover
  by (simp add: isr_defs)

end
