(* ===== verification/ImageStore.thy ===== *)
theory ImageStore
  imports ProportionalLinearize
begin

text \<open>
  The objects of \<open>ProportionalLinearizeTask.run\<close> with their sharing made
  explicit.  In the source a masked image is an object that refers to pixel
  buffers; a sub-image made from it is another object on the same buffers,
  a deep copy is an object on buffers of its own, and the array operations
  of \<open>run\<close> write the buffers in place.

  \<^item> \<open>store\<close> is the list of the pixel buffers that exist, \<open>imageRef\<close> an
    object: the address of a buffer and the window of it that the object
    shows, in the coordinates of the buffer.  \<open>deref\<close> is the masked image an
    object holds; \<open>valid_ref\<close> is the invariant of the store that the window
    of an object lies in its buffer.
  \<^item> \<open>method_st\<close> is a method that updates the masked image of its exposure
    in place, given as the function of theory on values it computes;
    \<open>ExposureFactory_st\<close> makes a sub-exposure that is a view.
  \<^item> \<open>view_ref\<close> makes the sub-image of \<open>run\<close>, \<open>deepCopy\<close> the copy of the unit
    test, \<open>write_ref\<close> is an assignment to the arrays of an object; \<open>FootprintSet_st\<close> and \<open>scaleImage_st\<close> are the two writes of the
    loop body, \<open>linearizeAmp_st\<close>, \<open>linearizeAmps_st\<close> and \<open>run_st\<close> the loop
    body, the loop and the method, with the store passed along.
  \<^item> The lemmas show that this model and the one of theory
    \<open>ProportionalLinearize\<close>, where a masked image is a value, agree through
    \<open>deref\<close>, and what the writes of \<open>run\<close> mean for other objects.
\<close>

section \<open>Buffers and references\<close>

type_synonym addr = nat
type_synonym store = "maskedImage list"

record imageRef =
  buffer :: addr
  window :: box2i

definition valid_ref :: "store \<Rightarrow> imageRef \<Rightarrow> bool" where
  "valid_ref s r \<longleftrightarrow>
     buffer r < length s \<and> wf_image (s ! buffer r) \<and>
     containsBox (imageBBox (s ! buffer r)) (window r) \<and> \<not> isEmpty (window r)"

definition deref :: "store \<Rightarrow> imageRef \<Rightarrow> maskedImage" where
  "deref s r = crop (window r) (s ! buffer r)"

definition alloc :: "maskedImage \<Rightarrow> store \<Rightarrow> imageRef \<times> store" where
  "alloc mi s = (\<lparr>buffer = length s, window = imageBBox mi\<rparr>, s @ [mi])"

definition deepCopy :: "imageRef \<Rightarrow> store \<Rightarrow> imageRef \<times> store" where
  "deepCopy r s = alloc (deref s r) s"

definition view_ref :: "imageRef \<Rightarrow> box2i \<Rightarrow> 'm error + imageRef" where
  "view_ref r bbox =
     (if containsBox (window r) bbox then Inr (r\<lparr>window := bbox\<rparr>) else Inl LengthError)"

definition update_buffer :: "imageRef \<Rightarrow> (box2i \<Rightarrow> maskedImage \<Rightarrow> maskedImage) \<Rightarrow> store \<Rightarrow> store" where
  "update_buffer r f s = s[buffer r := f (window r) (s ! buffer r)]"

definition write_ref :: "imageRef \<Rightarrow> (maskedImage \<Rightarrow> maskedImage) \<Rightarrow> store \<Rightarrow> store" where
  "write_ref r f s = s[buffer r := paste (f (deref s r)) (s ! buffer r)]"

section \<open>The task on references\<close>

record 'd exposureRef =
  imageOf :: imageRef
  detectorOf :: 'd
  exptimeOf :: pyfloat

definition abs_exposure :: "store \<Rightarrow> 'd exposureRef \<Rightarrow> 'd exposure" where
  "abs_exposure s e =
     \<lparr>getMaskedImage = deref s (imageOf e), getDetector = detectorOf e, getExptime = exptimeOf e\<rparr>"

definition method_st ::
  "('d exposure \<Rightarrow> 'm error + 'd exposure) \<Rightarrow> 'd exposureRef \<Rightarrow> store \<Rightarrow> 'm error + store" where
  "method_st m e s =
     rbind (m (abs_exposure s e)) (\<lambda>e'. Inr (write_ref (imageOf e) (\<lambda>_. getMaskedImage e') s))"

definition ExposureFactory_st ::
  "imageOrigin \<Rightarrow> 'd exposureRef \<Rightarrow> box2i \<Rightarrow> store \<Rightarrow> 'm error + 'd exposureRef" where
  "ExposureFactory_st origin e bbox s =
     rbind (view_ref (imageOf e) (toParent origin (getXY0 (deref s (imageOf e))) bbox))
       (\<lambda>v. Inr (e\<lparr>imageOf := v\<rparr>))"

definition FootprintSet_st :: "imageRef \<Rightarrow> pyfloat \<Rightarrow> string \<Rightarrow> store \<Rightarrow> lin_error + store" where
  "FootprintSet_st ampImage threshold planeName s =
     rbind (getPlaneBitMask (getMaskPlaneDict (s ! buffer ampImage)) planeName)
       (\<lambda>bits. Inr (update_buffer ampImage (\<lambda>b. setMaskAbove b threshold bits) s))"

definition scaleImage_st :: "imageRef \<Rightarrow> pyfloat \<Rightarrow> store \<Rightarrow> store" where
  "scaleImage_st ampImage squareCoeff s =
     update_buffer ampImage (\<lambda>b. scaleImage b squareCoeff) s"

definition linearizeAmp_st ::
  "detector \<Rightarrow> amplifier \<Rightarrow> imageRef \<Rightarrow> store \<Rightarrow> lin_error + bool \<times> store" where
  "linearizeAmp_st detector amp r s =
     rbind (unpack3 (take 3 (getLinearityCoeffs amp))) (\<lambda>(squareCoeff, coeff1, maxUncorr).
       if py_ne coeff1 0 then
         Inl (RuntimeError (CoeffOneNotZero coeff1 (getId detector) (getName amp)))
       else if py_le maxUncorr 0 \<and> py_eq squareCoeff 0 then Inr (False, s)
       else
         rbind (view_ref r (getBBox amp)) (\<lambda>ampImage.
         rbind (if py_gt maxUncorr 0 then FootprintSet_st ampImage maxUncorr ''SUSPECT'' s
                else Inr s) (\<lambda>s1.
         Inr (True, if py_ne squareCoeff 0 then scaleImage_st ampImage squareCoeff s1 else s1))))"

fun linearizeAmps_st ::
  "detector \<Rightarrow> amplifier list \<Rightarrow> bool \<Rightarrow> imageRef \<Rightarrow> store \<Rightarrow> (lin_error + bool) \<times> store" where
  "linearizeAmps_st detector [] didCorrect r s = (Inr didCorrect, s)"
| "linearizeAmps_st detector (amp # amps) didCorrect r s =
     (case linearizeAmp_st detector amp r s of
        Inl e \<Rightarrow> (Inl e, s)
      | Inr (wasCorrected, s') \<Rightarrow>
          linearizeAmps_st detector amps (didCorrect \<or> wasCorrected) r s')"

definition run_st ::
  "detector exposureRef \<Rightarrow> log_record list \<Rightarrow> store \<Rightarrow> (lin_error + unit) \<times> store \<times> log_record list" where
  "run_st exposure logs s =
     (let detector = detectorOf exposure in
      case doCorrect detector of
        Inl e \<Rightarrow> (Inl e, s, logs)
      | Inr False \<Rightarrow> (Inr (), s, logs @ [DebugNotWanted (getId detector)])
      | Inr True \<Rightarrow>
          (case linearizeAmps_st detector (getAmplifiers detector) False (imageOf exposure) s of
             (Inl e, s') \<Rightarrow> (Inl e, s', logs)
           | (Inr didCorrect, s') \<Rightarrow>
               (Inr (), s', if didCorrect then logs @ [InfoApplied (getId detector)] else logs)))"

definition same_elsewhere :: "addr \<Rightarrow> store \<Rightarrow> store \<Rightarrow> bool" where
  "same_elsewhere a s s' \<longleftrightarrow>
     length s' = length s \<and> list_all (\<lambda>i. i = a \<or> s' ! i = s ! i) [0..<length s]"

section \<open>A small store\<close>

definition ex_ref :: imageRef where
  "ex_ref = \<lparr>buffer = 0, window = Box2I (0, 0) (2, 2)\<rparr>"

definition ex_exposureRef :: "detector exposureRef" where
  "ex_exposureRef =
     \<lparr>imageOf = ex_ref, detectorOf = getDetector ex_exposure, exptimeOf = getExptime ex_exposure\<rparr>"

section \<open>References\<close>

lemma valid_refD:
  assumes "valid_ref s r"
  shows "buffer r < length s" "wf_image (s ! buffer r)"
    "containsBox (imageBBox (s ! buffer r)) (window r)" "\<not> isEmpty (window r)"
  using assms by (simp_all add: valid_ref_def)

lemma deref_frame:
  assumes "valid_ref s r"
  shows "wf_image (deref s r)" "imageBBox (deref s r) = window r"
    "getMaskPlaneDict (deref s r) = getMaskPlaneDict (s ! buffer r)"
  using valid_refD [OF assms] by (simp_all add: deref_def wf_crop crop_dims)

lemma same_elsewhere_iff:
  "same_elsewhere a s s' \<longleftrightarrow> length s' = length s \<and> (\<forall>i < length s. i \<noteq> a \<longrightarrow> s' ! i = s ! i)"
  by (auto simp: same_elsewhere_def list_all_iff)

lemma same_elsewhere_refl [simp]: "same_elsewhere a s s"
  by (simp add: same_elsewhere_iff)

lemma same_elsewhere_trans:
  "same_elsewhere a s s' \<Longrightarrow> same_elsewhere a s' s'' \<Longrightarrow> same_elsewhere a s s''"
  by (simp add: same_elsewhere_iff)

lemma same_elsewhere_update [simp]: "same_elsewhere a s (s[a := mi])"
  by (simp add: same_elsewhere_iff)

lemma deref_elsewhere:
  "same_elsewhere a s s' \<Longrightarrow> buffer r < length s \<Longrightarrow> buffer r \<noteq> a \<Longrightarrow> deref s' r = deref s r"
  by (simp add: same_elsewhere_iff deref_def)

lemma valid_ref_update:
  assumes "valid_ref s r" "wf_image mi" "imageBBox mi = imageBBox (s ! buffer r)"
  shows "valid_ref (s[buffer r := mi]) r"
  using assms by (simp add: valid_ref_def)

lemma deref_update:
  "buffer r < length s \<Longrightarrow> deref (s[buffer r := mi]) r = crop (window r) mi"
  by (simp add: deref_def)

lemma write_ref_frame:
  assumes "valid_ref s r" "wf_image (f (deref s r))" "imageBBox (f (deref s r)) = window r"
  shows "valid_ref (write_ref r f s) r" "deref (write_ref r f s) r = f (deref s r)"
    "same_elsewhere (buffer r) s (write_ref r f s)"
proof -
  note v = valid_refD [OF assms(1)]
  let ?p = "paste (f (deref s r)) (s ! buffer r)"
  from assms(2) have "wf_dict (getMaskPlaneDict (f (deref s r)))" by (simp add: wf_image_def)
  with v(2) have wf: "wf_image ?p" by (rule wf_paste)
  then show "valid_ref (write_ref r f s) r"
    unfolding write_ref_def using assms(1) by (intro valid_ref_update) simp_all
  from v(1) crop_paste [OF v(2) assms(2,3) v(3,4)] show "deref (write_ref r f s) r = f (deref s r)"
    by (simp add: write_ref_def deref_update)
  show "same_elsewhere (buffer r) s (write_ref r f s)" by (simp add: write_ref_def)
qed

text \<open>
  A write through a view is a paste into the parent: this is how the
  theories on values model the sub-images that the sources hand to routines
  which update them in place.
\<close>

lemma deref_write_view:
  assumes "valid_ref s r" "containsBox (window r) b" "\<not> isEmpty b"
    and "wf_dict (getMaskPlaneDict (f (crop b (deref s r))))"
  shows "deref (write_ref (r\<lparr>window := b\<rparr>) f s) r = paste (f (crop b (deref s r))) (deref s r)"
proof -
  note v = valid_refD [OF assms(1)]
  have view: "deref s (r\<lparr>window := b\<rparr>) = crop b (deref s r)"
    by (simp add: deref_def crop_crop [OF v(2-4) assms(2,3)])
  from v(1) assms(4) show ?thesis
    by (simp add: write_ref_def view deref_update) (simp add: deref_def crop_paste_commute [OF v(2-4)])
qed

section \<open>The loop body on references\<close>

lemma linearizeAmp_st_unfold:
  assumes "take 3 (getLinearityCoeffs amp) = [sq, c1, t]" "buffer r < length s"
  shows "linearizeAmp_st det amp r s =
     (if py_ne c1 0 then Inl (RuntimeError (CoeffOneNotZero c1 (getId det) (getName amp)))
      else if py_le t 0 \<and> py_eq sq 0 then Inr (False, s)
      else if \<not> containsBox (window r) (getBBox amp) then Inl LengthError
      else if py_gt t 0 then
        (case planeBitMask (getMaskPlaneDict (s ! buffer r)) ''SUSPECT'' of
           None \<Rightarrow> Inl (InvalidParameterError ''SUSPECT'')
         | Some bits \<Rightarrow>
             Inr (True, s[buffer r := scaleImage (getBBox amp) sq
                                       (setMaskAbove (getBBox amp) t bits (s ! buffer r))]))
      else Inr (True, s[buffer r := scaleImage (getBBox amp) sq (s ! buffer r)]))"
  using assms(2)
  by (auto simp: linearizeAmp_st_def assms(1) view_ref_def FootprintSet_st_def scaleImage_st_def
      update_buffer_def getPlaneBitMask_def split: option.splits)

lemma linearizeAmp_st_short:
  assumes "unpack3 (take 3 (getLinearityCoeffs amp)) = (Inl e :: lin_error + _)"
  shows "linearizeAmp_st det amp r s = Inl e" "linearizeAmp det amp mi = Inl e"
  by (simp_all add: linearizeAmp_st_def linearizeAmp_def assms)

lemma linearizeAmp_st_refines:
  assumes "valid_ref s r"
  shows "map_sum id (apsnd (\<lambda>s'. deref s' r)) (linearizeAmp_st det amp r s) =
     linearizeAmp det amp (deref s r)"
proof (cases "unpack3 (take 3 (getLinearityCoeffs amp)) :: lin_error + _")
  case (Inl e)
  then show ?thesis by (simp add: linearizeAmp_st_short)
next
  case (Inr c)
  then obtain sq c1 t where c: "take 3 (getLinearityCoeffs amp) = [sq, c1, t]"
    by (cases c) (auto simp: unpack3_Inr_iff)
  note v = valid_refD [OF assms]
  have wf': "wf_image (setMaskAbove b t bits (s ! buffer r))"
    "containsBox (imageBBox (setMaskAbove b t bits (s ! buffer r))) (window r)" for b bits
    using v by (simp_all add: wf_setMaskAbove)
  show ?thesis
    unfolding linearizeAmp_st_unfold [OF c v(1)] linearizeAmp_unfold [OF c]
    by (simp add: deref_frame [OF assms] deref_update [OF v(1)] split: option.splits)
      (simp add: deref_def crop_scaleImage [OF wf' v(4)] crop_scaleImage [OF v(2-4)]
        crop_setMaskAbove [OF v(2-4)])
qed

lemma linearizeAmp_st_frame:
  assumes "valid_ref s r" "linearizeAmp_st det amp r s = Inr (c, s')"
  shows "valid_ref s' r" "same_elsewhere (buffer r) s s'"
proof -
  from assms(2) obtain sq c1 t where c: "take 3 (getLinearityCoeffs amp) = [sq, c1, t]"
    by (auto simp: linearizeAmp_st_def unpack3_Inr_iff split: rbind_splits)
  note v = valid_refD [OF assms(1)]
  from assms(2) [unfolded linearizeAmp_st_unfold [OF c v(1)]] assms(1)
  show "valid_ref s' r" "same_elsewhere (buffer r) s s'"
    by (auto split: if_splits option.splits intro!: valid_ref_update wf_scaleImage wf_setMaskAbove v(2))
qed

section \<open>The loop and the method on references\<close>

lemma linearizeAmps_st_refines:
  assumes "valid_ref s r"
  shows "apsnd (\<lambda>s'. deref s' r) (linearizeAmps_st det amps d r s) =
       linearizeAmps det amps d (deref s r) \<and>
     valid_ref (snd (linearizeAmps_st det amps d r s)) r \<and>
     same_elsewhere (buffer r) s (snd (linearizeAmps_st det amps d r s))"
  using assms
proof (induction amps arbitrary: d s)
  case Nil
  then show ?case by simp
next
  case (Cons amp amps)
  note body = linearizeAmp_st_refines [OF Cons.prems, of det amp]
  show ?case
  proof (cases "linearizeAmp_st det amp r s")
    case (Inl e)
    with body [symmetric] Cons.prems show ?thesis by simp
  next
    case (Inr cs)
    then obtain c s' where step: "linearizeAmp_st det amp r s = Inr (c, s')" by (cases cs) simp
    note fr = linearizeAmp_st_frame [OF Cons.prems step]
    from Cons.IH [OF fr(1), of "d \<or> c"] body [symmetric] step fr(2) show ?thesis
      by (auto intro: same_elsewhere_trans)
  qed
qed

lemma run_st_frame:
  assumes "valid_ref s (imageOf e)" "run_st e logs s = (res, s', logs')"
  shows "valid_ref s' (imageOf e)" "same_elsewhere (buffer (imageOf e)) s s'"
  using assms linearizeAmps_st_refines [OF assms(1), of "detectorOf e"
      "getAmplifiers (detectorOf e)" False]
  by (auto simp: run_st_def Let_def split: sum.splits bool.splits prod.splits)

lemma run_st_abs:
  assumes "valid_ref s (imageOf e)" "run_st e logs s = (res, s', logs')"
  shows "ProportionalLinearizeTask_run (abs_exposure s e) logs = (res, abs_exposure s' e, logs')"
  using assms linearizeAmps_st_refines [OF assms(1), of "detectorOf e"
      "getAmplifiers (detectorOf e)" False, THEN conjunct1, symmetric]
  by (auto simp: run_st_def ProportionalLinearizeTask_run_def abs_exposure_def Let_def
      split: sum.splits bool.splits prod.splits)

lemma deepCopy_fresh:
  assumes "valid_ref s r" "deepCopy r s = (c, s1)"
  shows "valid_ref s1 c" "valid_ref s1 r" "buffer c = length s"
    "deref s1 c = deref s r" "deref s1 r = deref s r" "length s1 = Suc (length s)"
proof -
  note v = valid_refD [OF assms(1)]
  note d = deref_frame [OF assms(1)]
  from assms(2) have c: "c = \<lparr>buffer = length s, window = window r\<rparr>" and s1: "s1 = s @ [deref s r]"
    by (simp_all add: deepCopy_def alloc_def d(2) prod_eq_iff)
  from d v(4) show "valid_ref s1 c" by (simp add: c s1 valid_ref_def)
  from v show "valid_ref s1 r" by (simp add: s1 valid_ref_def nth_append)
  show "buffer c = length s" by (simp add: c)
  from d v(4) show "deref s1 c = deref s r"
    using crop_self [of "deref s r"] by (simp add: c s1 deref_def [of "s @ _"])
  from v(1) show "deref s1 r = deref s r" by (simp add: s1 deref_def nth_append)
  show "length s1 = Suc (length s)" by (simp add: s1)
qed

lemma run_st_after_copy:
  assumes "valid_ref s r" "deepCopy r s = (c, s1)" "imageOf e = r" "run_st e logs s1 = (res, s', logs')"
  shows "deref s' c = deref s r"
    "ProportionalLinearizeTask_run (abs_exposure s e) logs = (res, abs_exposure s' e, logs')"
proof -
  note c = deepCopy_fresh [OF assms(1,2)]
  from c(2) have v: "valid_ref s1 (imageOf e)" by (simp add: assms(3))
  note fr = run_st_frame [OF v assms(4)]
  from valid_refD(1) [OF assms(1)] c(3,6) have "buffer c < length s1" "buffer c \<noteq> buffer (imageOf e)"
    by (simp_all add: assms(3))
  from deref_elsewhere [OF fr(2) this] c(4) show "deref s' c = deref s r" by simp
  from run_st_abs [OF v assms(4)] c(5) show
    "ProportionalLinearizeTask_run (abs_exposure s e) logs = (res, abs_exposure s' e, logs')"
    by (simp add: abs_exposure_def assms(3))
qed

lemma abs_exposure_sel [simp]:
  "getMaskedImage (abs_exposure s e) = deref s (imageOf e)"
  "getDetector (abs_exposure s e) = detectorOf e"
  "getExptime (abs_exposure s e) = exptimeOf e"
  by (simp_all add: abs_exposure_def)

lemma abs_exposure_detector:
  "abs_exposure s (e\<lparr>detectorOf := d\<rparr>) = (abs_exposure s e)\<lparr>getDetector := d\<rparr>"
  by (simp add: abs_exposure_def)

lemma write_ref_abs:
  assumes "valid_ref s (imageOf e)" "abs_exposure s e = x\<lparr>getMaskedImage := m\<rparr>"
    and "wf_image (f m)" "imageBBox (f m) = window (imageOf e)"
  shows "valid_ref (write_ref (imageOf e) f s) (imageOf e)"
    "abs_exposure (write_ref (imageOf e) f s) e = x\<lparr>getMaskedImage := f m\<rparr>"
proof -
  from arg_cong [OF assms(2), of getMaskedImage] have d: "deref s (imageOf e) = m" by simp
  note w = write_ref_frame [OF assms(1), of f, unfolded d, OF assms(3,4)]
  from w(1) show "valid_ref (write_ref (imageOf e) f s) (imageOf e)" .
  from w(2) have "abs_exposure (write_ref (imageOf e) f s) e =
      (abs_exposure s e)\<lparr>getMaskedImage := f m\<rparr>"
    by (simp add: abs_exposure_def)
  then show "abs_exposure (write_ref (imageOf e) f s) e = x\<lparr>getMaskedImage := f m\<rparr>"
    by (simp add: assms(2))
qed

section \<open>Methods that update a view in place\<close>

lemma valid_view:
  assumes "valid_ref s r" "containsBox (window r) b" "\<not> isEmpty b"
  shows "valid_ref s (r\<lparr>window := b\<rparr>)" "deref s (r\<lparr>window := b\<rparr>) = crop b (deref s r)"
proof -
  note v = valid_refD [OF assms(1)]
  from v assms(2,3) show "valid_ref s (r\<lparr>window := b\<rparr>)"
    by (auto simp: valid_ref_def intro: containsBox_trans)
  show "deref s (r\<lparr>window := b\<rparr>) = crop b (deref s r)"
    by (simp add: deref_def crop_crop [OF v(2-4) assms(2,3)])
qed

lemma write_view:
  assumes "valid_ref s r" "containsBox (window r) b" "\<not> isEmpty b"
    and "wf_image mi" "imageBBox mi = b"
  shows "valid_ref (write_ref (r\<lparr>window := b\<rparr>) (\<lambda>_. mi) s) r"
    and "deref (write_ref (r\<lparr>window := b\<rparr>) (\<lambda>_. mi) s) r = paste mi (deref s r)"
    and "deref (write_ref (r\<lparr>window := b\<rparr>) (\<lambda>_. mi) s) (r\<lparr>window := b\<rparr>) = mi"
    and "same_elsewhere (buffer r) s (write_ref (r\<lparr>window := b\<rparr>) (\<lambda>_. mi) s)"
proof -
  note v = valid_refD [OF assms(1)]
  from assms(4) have d: "wf_dict (getMaskPlaneDict mi)" by (simp add: wf_image_def)
  note view = valid_view [OF assms(1-3)]
  from v d show "valid_ref (write_ref (r\<lparr>window := b\<rparr>) (\<lambda>_. mi) s) r"
    by (simp add: write_ref_def valid_ref_def wf_paste)
  from deref_write_view [OF assms(1-3), of "\<lambda>_. mi"] d
  show "deref (write_ref (r\<lparr>window := b\<rparr>) (\<lambda>_. mi) s) r = paste mi (deref s r)" by simp
  from write_ref_frame(2) [OF view(1), of "\<lambda>_. mi"] assms(4,5)
  show "deref (write_ref (r\<lparr>window := b\<rparr>) (\<lambda>_. mi) s) (r\<lparr>window := b\<rparr>) = mi" by simp
  show "same_elsewhere (buffer r) s (write_ref (r\<lparr>window := b\<rparr>) (\<lambda>_. mi) s)"
    by (simp add: write_ref_def)
qed

lemma method_st_Inl: "m (abs_exposure s e) = Inl err \<Longrightarrow> method_st m e s = Inl err"
  by (simp add: method_st_def)

lemma method_st_view:
  fixes m :: "'d exposure \<Rightarrow> 'm error + 'd exposure"
  assumes "valid_ref s r" "containsBox (window r) b" "\<not> isEmpty b" "imageOf e = r"
    and law: "\<And>x x'. wf_image (getMaskedImage x) \<Longrightarrow> m x = Inr x' \<Longrightarrow>
       keeps_shape (getMaskedImage x) (getMaskedImage x') \<and> x' = x\<lparr>getMaskedImage := getMaskedImage x'\<rparr>"
    and run: "m (abs_exposure s (e\<lparr>imageOf := r\<lparr>window := b\<rparr>\<rparr>)) = Inr e'"
  shows "\<exists>s'. method_st m (e\<lparr>imageOf := r\<lparr>window := b\<rparr>\<rparr>) s = Inr s' \<and>
     valid_ref s' r \<and> same_elsewhere (buffer r) s s' \<and>
     deref s' r = paste (getMaskedImage e') (deref s r) \<and>
     abs_exposure s' (e\<lparr>imageOf := r\<lparr>window := b\<rparr>\<rparr>) = e' \<and>
     wf_image (getMaskedImage e') \<and> imageBBox (getMaskedImage e') = b"
proof -
  let ?te = "e\<lparr>imageOf := r\<lparr>window := b\<rparr>\<rparr>"
  let ?s' = "write_ref (r\<lparr>window := b\<rparr>) (\<lambda>_. getMaskedImage e') s"
  note d = deref_frame [OF assms(1)]
  have crop0: "getMaskedImage (abs_exposure s ?te) = crop b (deref s r)"
    by (simp add: valid_view(2) [OF assms(1-3)])
  from wf_crop [OF d(1)] crop_dims(3) [OF d(1)] d(2) assms(2,3)
  have wf0: "wf_image (crop b (deref s r))" "imageBBox (crop b (deref s r)) = b" by simp_all
  from law [OF _ run] wf0 crop0
  have sh: "wf_image (getMaskedImage e')" "imageBBox (getMaskedImage e') = b"
    and e': "e' = (abs_exposure s ?te)\<lparr>getMaskedImage := getMaskedImage e'\<rparr>"
    by (simp_all add: keeps_shape_def)
  note w = write_view [OF assms(1-3) sh]
  from run have "method_st m ?te s = Inr ?s'" by (simp add: method_st_def)
  moreover have "abs_exposure ?s' ?te = e'"
    by (subst (2) e') (simp add: abs_exposure_def w(3))
  ultimately show ?thesis using w sh by blast
qed

lemma ExposureFactory_st_refines:
  assumes "valid_ref s (imageOf e)"
    and "\<not> isEmpty (toParent org (getXY0 (deref s (imageOf e))) bbox)"
  shows "map_sum id (abs_exposure s) (ExposureFactory_st org e bbox s) =
     ExposureFactory org (abs_exposure s e) bbox"
proof -
  let ?b = "toParent org (getXY0 (deref s (imageOf e))) bbox"
  note d = deref_frame [OF assms(1)]
  show ?thesis
  proof (cases "containsBox (window (imageOf e)) ?b")
    case True
    from valid_view(2) [OF assms(1) True assms(2)] True show ?thesis
      by (simp add: ExposureFactory_st_def view_ref_def ExposureFactory_def Let_def d(2)
          abs_exposure_def)
  next
    case False
    then show ?thesis
      by (simp add: ExposureFactory_st_def view_ref_def ExposureFactory_def Let_def d(2))
  qed
qed

lemma methods_on_view:
  fixes m1 m2 :: "'d exposure \<Rightarrow> 'm error + 'd exposure"
  assumes "valid_ref s r" "containsBox (window r) b" "\<not> isEmpty b" "imageOf e = r"
    and law1: "\<And>x x'. wf_image (getMaskedImage x) \<Longrightarrow> m1 x = Inr x' \<Longrightarrow>
       keeps_shape (getMaskedImage x) (getMaskedImage x') \<and> x' = x\<lparr>getMaskedImage := getMaskedImage x'\<rparr>"
    and law2: "\<And>x x'. wf_image (getMaskedImage x) \<Longrightarrow> m2 x = Inr x' \<Longrightarrow>
       keeps_shape (getMaskedImage x) (getMaskedImage x') \<and> x' = x\<lparr>getMaskedImage := getMaskedImage x'\<rparr>"
  defines "te \<equiv> e\<lparr>imageOf := r\<lparr>window := b\<rparr>\<rparr>"
  shows "map_sum id (\<lambda>s'. abs_exposure s' e) (rbind (method_st m1 te s) (method_st m2 te)) =
       rbind (m1 (abs_exposure s te)) (\<lambda>e1. rbind (m2 e1) (\<lambda>e2.
         Inr ((abs_exposure s e)\<lparr>getMaskedImage := paste (getMaskedImage e2) (deref s r)\<rparr>))) \<and>
     (\<forall>s'. rbind (method_st m1 te s) (method_st m2 te) = Inr s' \<longrightarrow>
        valid_ref s' r \<and> same_elsewhere (buffer r) s s' \<and>
        getXY0 (deref s' r) = getXY0 (deref s r))"
proof (cases "m1 (abs_exposure s te)")
  case (Inl err)
  with method_st_Inl [of m1 s te err] show ?thesis by simp
next
  case (Inr e1)
  note d = deref_frame [OF assms(1)]
  from method_st_view [where m = m1, OF assms(1-4) law1 Inr [unfolded te_def]]
  obtain s1 where s1: "method_st m1 te s = Inr s1" "valid_ref s1 r" "same_elsewhere (buffer r) s s1"
      "deref s1 r = paste (getMaskedImage e1) (deref s r)" "abs_exposure s1 te = e1"
      "wf_image (getMaskedImage e1)" "imageBBox (getMaskedImage e1) = b"
    unfolding te_def by blast
  show ?thesis
  proof (cases "m2 e1")
    case (Inl err)
    with method_st_Inl [of m2 s1 te err] show ?thesis by (simp add: Inr s1(1,5))
  next
    case e2: (Inr e2)
    from method_st_view [where m = m2 and e' = e2, OF s1(2) assms(2-4) law2] e2 s1(5)
    obtain s2 where s2: "method_st m2 te s1 = Inr s2" "valid_ref s2 r"
        "same_elsewhere (buffer r) s1 s2" "deref s2 r = paste (getMaskedImage e2) (deref s1 r)"
        "wf_image (getMaskedImage e2)" "imageBBox (getMaskedImage e2) = b"
      unfolding te_def by auto
    from s1(6,7) s2(5,6) d(1) s2(4) s1(4)
    have d2: "deref s2 r = paste (getMaskedImage e2) (deref s r)" by (simp add: paste_paste)
    then have "abs_exposure s2 e =
        (abs_exposure s e)\<lparr>getMaskedImage := paste (getMaskedImage e2) (deref s r)\<rparr>"
      by (simp add: abs_exposure_def assms(4))
    with s2(2) same_elsewhere_trans [OF s1(3) s2(3)] show ?thesis
      by (simp add: Inr e2 s1(1) s2(1) d2)
  qed
qed

section \<open>The small store, evaluated\<close>

lemma ex_image_wf: "wf_image ex_image"
  using ex_wf by (simp add: ex_exposure_def ex_exposure_with_def)

lemma ex_image_bbox: "imageBBox ex_image = Box2I (0, 0) (2, 2)"
  by (simp add: isr_defs)

lemma ex_crop_self [simp]: "crop (Box2I (0, 0) (2, 2)) ex_image = ex_image"
  using crop_self [OF ex_image_wf] by (simp add: ex_image_bbox) (simp add: isEmpty_def)

lemma ex_ref_valid: "valid_ref [ex_image] ex_ref"
  by (simp add: ex_ref_def valid_ref_def ex_image_wf ex_image_bbox) (simp add: isEmpty_def)

lemma ex_abs: "abs_exposure [ex_image] ex_exposureRef = ex_exposure"
  by (simp add: abs_exposure_def ex_exposureRef_def ex_ref_def deref_def ex_exposure_def
      ex_exposure_with_def)

lemma ex_copy:
  "deepCopy ex_ref [ex_image] = (\<lparr>buffer = 1, window = Box2I (0, 0) (2, 2)\<rparr>, [ex_image, ex_image])"
  by (simp add: deepCopy_def alloc_def deref_def ex_ref_def ex_image_bbox)

lemma ex_exposureRef_image: "imageOf ex_exposureRef = ex_ref"
  by (simp add: ex_exposureRef_def)

lemma ex_copy_valid: "valid_ref [ex_image, ex_image] (imageOf ex_exposureRef)"
  using deepCopy_fresh(2) [OF ex_ref_valid ex_copy] by (simp add: ex_exposureRef_image)

lemma ex_run_copy:
  "run_st ex_exposureRef [] [ex_image, ex_image] =
     (Inr (), [ex_corrected, ex_image], [InfoApplied 7])"
  by (simp add: run_st_def ex_exposureRef_def ex_ref_def linearizeAmp_st_def view_ref_def
      FootprintSet_st_def scaleImage_st_def update_buffer_def isr_defs)

section \<open>Properties of the task on references\<close>

text \<open>
  Property C16 (refinement).  The method on references implements the method
  on values: run on an exposure whose masked image is a valid reference
  into the store gives the result and the log of
  \<open>ProportionalLinearizeTask_run\<close> on what the reference held, and afterwards
  the reference holds the masked image that \<open>ProportionalLinearizeTask_run\<close>
  returns, also when the image of the exposure is a window on a larger
  buffer.
\<close>

theorem run_st_refines:
  assumes "valid_ref s (imageOf e)"
  shows "(case run_st e logs s of (res, s', logs') \<Rightarrow> (res, abs_exposure s' e, logs')) =
     ProportionalLinearizeTask_run (abs_exposure s e) logs"
  using run_st_abs [OF assms] by (cases "run_st e logs s") simp

theorem run_st_refines_witness:
  "(case run_st ex_exposureRef [] [ex_image] of
      (res, s', logs') \<Rightarrow> (res, abs_exposure s' ex_exposureRef, logs')) =
     (Inr (), ex_exposure\<lparr>getMaskedImage := ex_corrected\<rparr>, [InfoApplied 7])"
  using run_st_refines [OF ex_ref_valid [folded ex_exposureRef_image], of "[]"]
  by (simp add: ex_abs ex_run)

text \<open>
  Property C17 (safety).  What the in-place update does to other objects:
  \<open>run\<close> writes the buffer of the exposure's image and no other; a deep copy
  taken before the call still holds the pixels it was taken from, and a
  view on the exposure's image taken before the call shows the corrected
  pixels.
\<close>

theorem run_st_aliasing:
  assumes "valid_ref s (imageOf e)" "run_st e logs s = (res, s', logs')"
  shows "length s' = length s \<and>
     (buffer r < length s \<and> buffer r \<noteq> buffer (imageOf e) \<longrightarrow> deref s' r = deref s r) \<and>
     (buffer r = buffer (imageOf e) \<and> containsBox (window (imageOf e)) (window r) \<and>
      \<not> isEmpty (window r) \<longrightarrow> deref s' r = crop (window r) (deref s' (imageOf e)))"
proof -
  note fr = run_st_frame [OF assms]
  note v = valid_refD [OF fr(1)]
  from fr(2) have "length s' = length s" by (simp add: same_elsewhere_iff)
  moreover have "deref s' r = deref s r" if "buffer r < length s" "buffer r \<noteq> buffer (imageOf e)"
    using fr(2) that by (rule deref_elsewhere)
  moreover have "deref s' r = crop (window r) (deref s' (imageOf e))"
    if "buffer r = buffer (imageOf e)" "containsBox (window (imageOf e)) (window r)"
      "\<not> isEmpty (window r)"
    using that by (simp add: deref_def crop_crop [OF v(2-4)])
  ultimately show ?thesis by blast
qed

theorem run_st_aliasing_witness:
  "run_st ex_exposureRef [] [ex_image, ex_image] = (Inr (), [ex_corrected, ex_image], [InfoApplied 7]) \<and>
   deref [ex_corrected, ex_image] \<lparr>buffer = 1, window = Box2I (0, 0) (2, 2)\<rparr> = ex_image"
  using run_st_aliasing [OF ex_copy_valid ex_run_copy, of "\<lparr>buffer = 1, window = Box2I (0, 0) (2, 2)\<rparr>"]
  by (simp add: ex_run_copy ex_exposureRef_image ex_ref_def deref_def)

end
