(* ===== verification/StoreTest.thy ===== *)
theory StoreTest
  imports LinearizeTest ImageStore
begin

text \<open>
  The unit test of \<open>ProportionalLinearizeTask\<close> on the store of theory
  \<open>ImageStore\<close>.  The test cases work on objects: \<open>setUp\<close> makes the exposure
  with a new image, \<open>testBasicCorrection\<close> fills its arrays in place before
  the call and reads the image of the exposure after it, \<open>testNoCorrection\<close>
  compares the image after the call with a deep copy taken before it.
  \<open>setUp_st\<close>, \<open>testBasicCorrection_st\<close> and \<open>testNoCorrection_st\<close> are these
  methods with the store passed along; the lemmas show that they hold
  exactly when the test cases of theory \<open>LinearizeTest\<close> hold, where the
  masked image is a value.
\<close>

section \<open>The test cases on objects\<close>

definition setUp_st :: "detector exposureRef \<times> store" where
  "setUp_st =
     (let detector = makeSimpleDetector;
          (mi, s) = alloc (ExposureF expBBox) []
      in (\<lparr>imageOf = mi, detectorOf = detector, exptimeOf = 0\<rparr>, s))"

definition testBasicCorrection_st :: bool where
  "testBasicCorrection_st =
     (let suspectValue = 50000;
          squareCoeff = Fin (1 / 100000);
          (exposure, s) = setUp_st;
          mi = imageOf exposure;
          s = write_ref mi (\<lambda>m. m\<lparr>getImage :=
                fill_flat (linspace 0 (suspectValue + 1000)
                  (plane_width (getImage m) * plane_height (getImage m))) (getImage m)\<rparr>) s;
          begImArr = getImage (deref s mi);
          s = write_ref mi (\<lambda>m. m\<lparr>getMask := map (map (\<lambda>m. 0)) (getMask m)\<rparr>) s;
          s = write_ref mi (\<lambda>m. m\<lparr>getVariance := getImage m\<rparr>) s;
          desImArr = map (map (\<lambda>v. v * (1 + squareCoeff * v))) (getImage (deref s mi));
          desMaskArr = map (map (\<lambda>v. if py_gt v (Fin suspectValue)
                                       then the (planeBitMask (getMaskPlaneDict (deref s mi)) ''SUSPECT'')
                                       else 0)) (getImage (deref s mi));
          exposure = exposure\<lparr>detectorOf :=
              setLinearity ''PROPORTIONAL'' (Some [squareCoeff, 0, Fin suspectValue])
                (detectorOf exposure)\<rparr>
      in case run_st exposure [] s of
           (Inr u, s', logs) \<Rightarrow>
             getImage (deref s' (imageOf exposure)) = desImArr \<and>
             getMask (deref s' (imageOf exposure)) = desMaskArr \<and>
             getVariance (deref s' (imageOf exposure)) = begImArr
         | (Inl e, s', logs) \<Rightarrow> False)"

definition testNoCorrection_st :: bool where
  "testNoCorrection_st =
     (let (exposure, s) = setUp_st;
          (begMi, s) = deepCopy (imageOf exposure) s;
          exposure = exposure\<lparr>detectorOf := setLinearity ''NONE'' None (detectorOf exposure)\<rparr>
      in case run_st exposure [] s of
           (Inr u, s', logs) \<Rightarrow> deref s' begMi = deref s' (imageOf exposure)
         | (Inl e, s', logs) \<Rightarrow> False)"

section \<open>The exposure of the test\<close>

lemma setUp_st_eq:
  "setUp_st = (\<lparr>imageOf = \<lparr>buffer = 0, window = expBBox\<rparr>, detectorOf = makeSimpleDetector,
      exptimeOf = 0\<rparr>, [ExposureF expBBox])"
  by (simp add: setUp_st_def alloc_def imageBBox_ExposureF [OF not_empty_expBBox])

lemma setUp_st_valid: "valid_ref (snd setUp_st) (imageOf (fst setUp_st))"
  by (simp add: setUp_st_eq valid_ref_def imageBBox_ExposureF not_empty_expBBox)

lemma setUp_st_abs: "abs_exposure (snd setUp_st) (fst setUp_st) = setUp"
  using crop_self [OF wf_ExposureF, of expBBox]
  by (simp add: setUp_st_eq abs_exposure_def deref_def setUp_def imageBBox_ExposureF not_empty_expBBox)

section \<open>Agreement with the test cases on values\<close>

lemma testNoCorrection_st_eq: "testNoCorrection_st = testNoCorrection"
proof -
  obtain e s where su: "setUp_st = (e, s)" by (cases setUp_st)
  have v: "valid_ref s (imageOf e)" and a: "abs_exposure s e = setUp"
    using setUp_st_valid setUp_st_abs unfolding su by simp_all
  obtain c s1 where cp: "deepCopy (imageOf e) s = (c, s1)" by (cases "deepCopy (imageOf e) s")
  let ?e = "e\<lparr>detectorOf := setLinearity ''NONE'' None (detectorOf e)\<rparr>"
  obtain res s' logs where run: "run_st ?e [] s1 = (res, s', logs)" by (cases "run_st ?e [] s1")
  note after = run_st_after_copy [OF v cp _ run, simplified, unfolded abs_exposure_detector a]
  have "getDetector setUp = detectorOf e" "getMaskedImage setUp = deref s (imageOf e)"
    by (simp_all add: a [symmetric])
  with after show ?thesis
    by (auto simp: testNoCorrection_st_def testNoCorrection_def su cp run Let_def
        split: sum.splits)
qed

lemma testBasicCorrection_st_eq: "testBasicCorrection_st = testBasicCorrection"
proof -
  let ?f1 = "\<lambda>m. m\<lparr>getImage := fill_flat (linspace 0 51000
      (plane_width (getImage m) * plane_height (getImage m))) (getImage m)\<rparr>"
  let ?f2 = "\<lambda>m. m\<lparr>getMask := map (map (\<lambda>m. 0)) (getMask m)\<rparr>"
  let ?f3 = "\<lambda>m. m\<lparr>getVariance := getImage m\<rparr>"
  let ?m0 = "ExposureF expBBox"
  let ?d = "setLinearity ''PROPORTIONAL'' (Some [Fin (1 / 100000), 0, Fin 50000]) makeSimpleDetector"
  obtain e s where su: "setUp_st = (e, s)" by (cases setUp_st)
  have v: "valid_ref s (imageOf e)" and a: "abs_exposure s e = setUp\<lparr>getMaskedImage := ?m0\<rparr>"
    using setUp_st_valid setUp_st_abs unfolding su by (simp_all add: setUp_def)
  have win: "window (imageOf e) = expBBox" "detectorOf e = makeSimpleDetector"
    using su by (auto simp: setUp_st_eq)
  have pos: "0 < getWidth expBBox" "0 < getHeight expBBox" by (simp_all add: expBBox_eq)
  note dims = wf_image_def imageBBox_def imageWidth_def imageHeight_def plane_height_def win
  define s1 where "s1 = write_ref (imageOf e) ?f1 s"
  define s2 where "s2 = write_ref (imageOf e) ?f2 s1"
  define s3 where "s3 = write_ref (imageOf e) ?f3 s2"
  have 1: "valid_ref s1 (imageOf e)" "abs_exposure s1 e = setUp\<lparr>getMaskedImage := ?f1 ?m0\<rparr>"
    unfolding s1_def by (rule write_ref_abs [OF v a]; simp add: dims pos)+
  have 2: "valid_ref s2 (imageOf e)" "abs_exposure s2 e = setUp\<lparr>getMaskedImage := ?f2 (?f1 ?m0)\<rparr>"
    unfolding s2_def by (rule write_ref_abs [OF 1]; simp add: dims pos)+
  have 3: "valid_ref s3 (imageOf e)"
    "abs_exposure s3 e = setUp\<lparr>getMaskedImage := ?f3 (?f2 (?f1 ?m0))\<rparr>"
    unfolding s3_def by (rule write_ref_abs [OF 2]; simp add: dims pos)+
  let ?e = "e\<lparr>detectorOf := ?d\<rparr>"
  obtain res s' logs where run: "run_st ?e [] s3 = (res, s', logs)" by (cases "run_st ?e [] s3")
  from 3(1) have "valid_ref s3 (imageOf ?e)" by simp
  note abs = run_st_abs [OF this run, unfolded abs_exposure_detector 3(2)]
  have d: "deref s1 (imageOf e) = getMaskedImage (abs_exposure s1 e)"
    "deref s3 (imageOf e) = getMaskedImage (abs_exposure s3 e)"
    "deref s' (imageOf e) = getMaskedImage (abs_exposure s' ?e)"
    by simp_all
  from abs show ?thesis
    unfolding testBasicCorrection_st_def testBasicCorrection_def
    by (simp add: su Let_def s1_def [symmetric] s2_def [symmetric] s3_def [symmetric] win run d
        1 2 3 abs_exposure_detector setUp_def del: abs_exposure_sel split: sum.splits cong: if_cong)
qed

end
