(* ===== verification/LinearizeSteps.thy ===== *)
theory LinearizeSteps
  imports ProportionalLinearize
begin

text \<open>
  \<open>ProportionalLinearizeTask.run\<close> as a machine that takes one step at a time,
  so that the states between two amplifiers can be talked about: the
  exposure is updated in place, and what it holds when the loop is half way
  is what a caller sees when an exception ends the call.

  \<^item> \<open>runState\<close> is the control point of \<open>run\<close> with the exposure and the log:
    before the decision of \<open>doCorrect\<close>, in the loop with the amplifiers still
    to come and the flag \<open>didCorrect\<close>, returned, or raised.
  \<^item> \<open>run_step\<close> is the step relation, one rule per branch of the method;
    \<open>run_next\<close> is the same step as a function and \<open>run_steps\<close> iterates it.
    One step of the loop is the whole body for one amplifier: the body
    raises, if at all, before it writes a pixel.
  \<^item> \<open>outcome\<close> reads the result of a state in which \<open>run\<close> has ended;
    \<open>fuel\<close> bounds the steps a state still has; \<open>loop_inv\<close> says what a
    state reached from a given start holds.
  \<^item> The lemmas relate the machine to the recursive definitions of
    \<open>ProportionalLinearize\<close>: the same result, reached in a bounded number of
    steps, with the documented model applied to the amplifiers processed
    so far at every point of the loop.
\<close>

section \<open>Configurations\<close>

datatype runState =
    Start "detector exposure" "log_record list"
  | Loop "amplifier list" bool "detector exposure" "log_record list"
  | Returned "detector exposure" "log_record list"
  | Raised lin_error "detector exposure" "log_record list"

section \<open>Steps\<close>

inductive run_step :: "runState \<Rightarrow> runState \<Rightarrow> bool" where
  refuse: "doCorrect (getDetector e) = Inl err \<Longrightarrow> run_step (Start e logs) (Raised err e logs)"
| not_wanted: "doCorrect (getDetector e) = Inr False \<Longrightarrow>
     run_step (Start e logs) (Returned e (logs @ [DebugNotWanted (getId (getDetector e))]))"
| enter: "doCorrect (getDetector e) = Inr True \<Longrightarrow>
     run_step (Start e logs) (Loop (getAmplifiers (getDetector e)) False e logs)"
| amp_raises: "linearizeAmp (getDetector e) amp (getMaskedImage e) = Inl err \<Longrightarrow>
     run_step (Loop (amp # amps) c e logs) (Raised err e logs)"
| amp_done: "linearizeAmp (getDetector e) amp (getMaskedImage e) = Inr (c', mi') \<Longrightarrow>
     run_step (Loop (amp # amps) c e logs)
       (Loop amps (c \<or> c') (e\<lparr>getMaskedImage := mi'\<rparr>) logs)"
| leave: "run_step (Loop [] c e logs)
     (Returned e (if c then logs @ [InfoApplied (getId (getDetector e))] else logs))"

fun run_next :: "runState \<Rightarrow> runState option" where
  "run_next (Start e logs) =
     (case doCorrect (getDetector e) of
        Inl err \<Rightarrow> Some (Raised err e logs)
      | Inr False \<Rightarrow> Some (Returned e (logs @ [DebugNotWanted (getId (getDetector e))]))
      | Inr True \<Rightarrow> Some (Loop (getAmplifiers (getDetector e)) False e logs))"
| "run_next (Loop [] c e logs) =
     Some (Returned e (if c then logs @ [InfoApplied (getId (getDetector e))] else logs))"
| "run_next (Loop (amp # amps) c e logs) =
     (case linearizeAmp (getDetector e) amp (getMaskedImage e) of
        Inl err \<Rightarrow> Some (Raised err e logs)
      | Inr (c', mi') \<Rightarrow> Some (Loop amps (c \<or> c') (e\<lparr>getMaskedImage := mi'\<rparr>) logs))"
| "run_next (Returned e logs) = None"
| "run_next (Raised err e logs) = None"

fun run_steps :: "nat \<Rightarrow> runState \<Rightarrow> runState" where
  "run_steps 0 s = s"
| "run_steps (Suc n) s = (case run_next s of None \<Rightarrow> s | Some t \<Rightarrow> run_steps n t)"

fun outcome ::
  "runState \<Rightarrow> ((lin_error + unit) \<times> detector exposure \<times> log_record list) option" where
  "outcome (Returned e logs) = Some (Inr (), e, logs)"
| "outcome (Raised err e logs) = Some (Inl err, e, logs)"
| "outcome _ = None"

fun fuel :: "runState \<Rightarrow> nat" where
  "fuel (Start e logs) = length (getAmplifiers (getDetector e)) + 2"
| "fuel (Loop amps c e logs) = length amps + 1"
| "fuel _ = 0"

definition result_state ::
  "(lin_error + unit) \<times> detector exposure \<times> log_record list \<Rightarrow> runState" where
  "result_state r = (case r of (Inl err, e, logs) \<Rightarrow> Raised err e logs
                             | (Inr u, e, logs) \<Rightarrow> Returned e logs)"

definition loop_inv :: "detector exposure \<Rightarrow> log_record list \<Rightarrow> runState \<Rightarrow> bool" where
  "loop_inv e logs s =
     (case s of
        Start e' logs' \<Rightarrow> e' = e \<and> logs' = logs
      | Loop rest c e' logs' \<Rightarrow>
          (let amps = getAmplifiers (getDetector e);
               pre = take (length amps - length rest) amps;
               r = linearizeAmps (getDetector e) pre False (getMaskedImage e)
           in logs' = logs \<and> doCorrect (getDetector e) = Inr True \<and> amps = pre @ rest \<and>
              fst r = Inr c \<and> e' = e\<lparr>getMaskedImage := snd r\<rparr>)
      | Returned e' logs' \<Rightarrow> ProportionalLinearizeTask_run e logs = (Inr (), e', logs')
      | Raised err e' logs' \<Rightarrow> ProportionalLinearizeTask_run e logs = (Inl err, e', logs'))"

section \<open>One step\<close>

inductive_cases StartE: "run_step (Start e logs) t"
inductive_cases LoopNilE: "run_step (Loop [] c e logs) t"
inductive_cases LoopConsE: "run_step (Loop (amp # amps) c e logs) t"

inductive_simps run_step_final [simp]:
  "run_step (Returned e logs) t" "run_step (Raised err e logs) t"


lemmas run_stepE = StartE LoopNilE LoopConsE

text \<open>
  The relation can be run as it stands: \<open>run_succ\<close> enumerates the successors
  of a state.
\<close>

code_pred (modes: i \<Rightarrow> o \<Rightarrow> bool as run_succ) run_step .

lemma run_step_iff: "run_step s t \<longleftrightarrow> run_next s = Some t"
proof
  assume "run_step s t"
  then show "run_next s = Some t" by (induction rule: run_step.induct) simp_all
next
  assume "run_next s = Some t"
  then show "run_step s t"
    by (induction s rule: run_next.induct)
      (auto split: sum.splits bool.splits prod.splits intro: run_step.intros)
qed

lemma run_step_deterministic: "run_step s t \<Longrightarrow> run_step s t' \<Longrightarrow> t = t'"
  by (induction rule: run_step.induct) (auto elim: run_stepE)

lemma outcome_iff_stuck: "outcome s \<noteq> None \<longleftrightarrow> run_next s = None"
  by (induction s rule: run_next.induct) (auto split: sum.splits bool.splits prod.splits)

lemma fuel_decreases: "run_next s = Some t \<Longrightarrow> fuel t < fuel s"
  by (induction s rule: run_next.induct) (auto split: sum.splits bool.splits prod.splits)

lemma fuel_zero_iff: "fuel s = 0 \<longleftrightarrow> run_next s = None"
  by (induction s rule: run_next.induct) (auto split: sum.splits bool.splits prod.splits)

section \<open>Runs\<close>

lemma run_steps_stuck [simp]: "run_next s = None \<Longrightarrow> run_steps n s = s"
  by (cases n) simp_all

lemma run_steps_star: "run_step\<^sup>*\<^sup>* s (run_steps n s)"
proof (induction n arbitrary: s)
  case 0
  show ?case by simp
next
  case (Suc n)
  show ?case
  proof (cases "run_next s")
    case None
    then show ?thesis by simp
  next
    case (Some t)
    then have "run_step s t" by (simp add: run_step_iff)
    with Suc [of t] Some show ?thesis by (simp add: converse_rtranclp_into_rtranclp)
  qed
qed


lemma run_steps_final: "fuel s \<le> n \<Longrightarrow> run_next (run_steps n s) = None"
proof (induction n arbitrary: s)
  case 0
  then show ?case by (simp add: fuel_zero_iff)
next
  case (Suc n)
  show ?case
  proof (cases "run_next s")
    case None
    then show ?thesis by simp
  next
    case (Some t)
    from fuel_decreases [OF Some] Suc.prems have "fuel t \<le> n" by simp
    with Suc.IH Some show ?thesis by simp
  qed
qed

lemma run_steps_add: "run_steps (m + n) s = run_steps n (run_steps m s)"
  by (induction m arbitrary: s) (auto split: option.splits)

lemma run_steps_enough: "fuel s \<le> n \<Longrightarrow> run_steps n s = run_steps (fuel s) s"
  using run_steps_add [of "fuel s" "n - fuel s" s] run_steps_final [of s "fuel s"] by simp

lemma star_final:
  assumes "run_step\<^sup>*\<^sup>* s t" "run_next t = None"
  shows "run_steps (fuel s) s = t"
  using assms
proof (induction rule: converse_rtranclp_induct)
  case base
  then show ?case by simp
next
  case (step s u)
  from step.hyps(1) have next_s: "run_next s = Some u" by (simp add: run_step_iff)
  from fuel_decreases [OF this] obtain k where k: "fuel s = Suc k" "fuel u \<le> k"
    by (cases "fuel s") auto
  from step.IH [OF step.prems] run_steps_enough [OF k(2)] next_s k(1) show ?case by simp
qed

section \<open>The loop and the whole run\<close>



lemma outcome_result_state [simp]: "outcome (result_state r) = Some r"
  by (auto simp: result_state_def split: prod.splits sum.splits)

section \<open>What every reachable state holds\<close>

lemma loop_inv_simps [simp]:
  "loop_inv e logs (Start e' logs') \<longleftrightarrow> e' = e \<and> logs' = logs"
  "loop_inv e logs (Returned e' logs') \<longleftrightarrow>
     ProportionalLinearizeTask_run e logs = (Inr (), e', logs')"
  "loop_inv e logs (Raised err e' logs') \<longleftrightarrow>
     ProportionalLinearizeTask_run e logs = (Inl err, e', logs')"
  by (simp_all add: loop_inv_def)

lemma loop_inv_Loop:
  "loop_inv e logs (Loop rest c e' logs') \<longleftrightarrow>
     logs' = logs \<and> doCorrect (getDetector e) = Inr True \<and>
     (\<exists>pre mi. getAmplifiers (getDetector e) = pre @ rest \<and>
        linearizeAmps (getDetector e) pre False (getMaskedImage e) = (Inr c, mi) \<and>
        e' = e\<lparr>getMaskedImage := mi\<rparr>)"
  (is "?l \<longleftrightarrow> ?r")
proof
  assume ?l
  then show ?r unfolding loop_inv_def Let_def by (auto simp: prod_eq_iff)
next
  assume ?r
  then obtain pre mi where pre: "getAmplifiers (getDetector e) = pre @ rest"
    "linearizeAmps (getDetector e) pre False (getMaskedImage e) = (Inr c, mi)"
    "e' = e\<lparr>getMaskedImage := mi\<rparr>" and rest: "logs' = logs" "doCorrect (getDetector e) = Inr True"
    by blast
  from pre(1) have "take (length (getAmplifiers (getDetector e)) - length rest)
      (getAmplifiers (getDetector e)) = pre" by simp
  with pre rest show ?l by (simp add: loop_inv_def)
qed

lemma loop_inv_step:
  assumes "run_step s t" "loop_inv e logs s"
  shows "loop_inv e logs t"
  using assms
proof (induction rule: run_step.induct)
  case (amp_raises e' amp err amps c logs')
  then show ?case by (auto simp: loop_inv_Loop run_unfold linearizeAmps_append)
next
  case (amp_done e' amp c' mi' amps c logs')
  from amp_done.prems obtain pre mi where pre: "getAmplifiers (getDetector e) = pre @ amp # amps"
    "linearizeAmps (getDetector e) pre False (getMaskedImage e) = (Inr c, mi)"
    and e': "e' = e\<lparr>getMaskedImage := mi\<rparr>" "logs' = logs" "doCorrect (getDetector e) = Inr True"
    by (auto simp: loop_inv_Loop)
  from pre(2) amp_done.hyps e'(1)
  have "linearizeAmps (getDetector e) (pre @ [amp]) False (getMaskedImage e) = (Inr (c \<or> c'), mi')"
    by (simp add: linearizeAmps_append)
  with pre(1) e' show ?case by (auto simp: loop_inv_Loop intro!: exI [of _ "pre @ [amp]"])
next
  case (leave c e' logs')
  then show ?case by (auto simp: loop_inv_Loop run_unfold)
qed (auto simp: loop_inv_Loop ProportionalLinearizeTask_run_def intro!: exI [of _ "[]"])

lemma reachable_loop_inv:
  "run_step\<^sup>*\<^sup>* (Start e logs) s \<Longrightarrow> loop_inv e logs s"
  by (induction rule: rtranclp_induct) (auto intro: loop_inv_step)

section \<open>A run on the small exposure\<close>

lemma ex_two_steps:
  "run_steps 2 (Start ex_exposure []) =
     Loop [ex_amp1] True (ex_exposure\<lparr>getMaskedImage := ex_half_corrected\<rparr>) []"
  by (simp add: eval_nat_numeral isr_defs)


section \<open>Properties of the machine\<close>





text \<open>
  Property C19 (invariant).  What the exposure holds between two amplifiers:
  on a detector whose amplifiers pass the checks of \<open>run\<close>, in every state of
  the loop that can be reached the exposure is the original one with the
  documented model applied to exactly the amplifiers already processed, the
  log is untouched, and the flag says whether one of them was not skipped.
\<close>

theorem loop_holds_prefix:
  assumes "run_step\<^sup>*\<^sup>* (Start e logs) (Loop rest c e' logs')"
    and "list_all coeffs_ok (getAmplifiers (getDetector e))"
    and "amps_in_image (getDetector e) (getMaskedImage e)"
    and "wf_image (getMaskedImage e)"
    and "planeBitMask (getMaskPlaneDict (getMaskedImage e)) ''SUSPECT'' = Some suspect"
  shows "\<exists>pre. getAmplifiers (getDetector e) = pre @ rest \<and>
     e' = e\<lparr>getMaskedImage := linearizeSpec suspect pre (getMaskedImage e)\<rparr> \<and>
     logs' = logs \<and> (c \<longleftrightarrow> list_ex (\<lambda>a. \<not> skipped a) pre)"
proof -
  from reachable_loop_inv [OF assms(1)] obtain pre mi where
    pre: "getAmplifiers (getDetector e) = pre @ rest"
    and loop: "linearizeAmps (getDetector e) pre False (getMaskedImage e) = (Inr c, mi)"
    and e': "e' = e\<lparr>getMaskedImage := mi\<rparr>" "logs' = logs"
    by (auto simp: loop_inv_Loop)
  from assms(2,3) pre have "list_all coeffs_ok pre"
    "list_all (\<lambda>a. containsBox (imageBBox (getMaskedImage e)) (getBBox a)) pre"
    by (simp_all add: amps_in_image_def)
  from linearizeAmps_refines [OF this assms(4,5)] loop pre e' show ?thesis by auto
qed

theorem loop_holds_prefix_witness:
  "run_steps 2 (Start ex_exposure []) =
     Loop [ex_amp1] True (ex_exposure\<lparr>getMaskedImage := ex_half_corrected\<rparr>) [] \<and>
   linearizeSpec 128 [ex_amp0] (getMaskedImage ex_exposure) = ex_half_corrected"
  using loop_holds_prefix [OF run_steps_star [of "Start ex_exposure []" 2, unfolded ex_two_steps]
      ex_coeffs_ok ex_in_image ex_wf ex_suspect]
  by (simp add: ex_two_steps) (simp add: isr_defs)

end
