(* ===== verification/LinearizePixels.thy ===== *)
theory LinearizePixels
  imports ProportionalLinearize
begin

text \<open>
  \<open>ProportionalLinearizeTask.run\<close> read pixel by pixel.  The method loops
  over the amplifiers and updates the region of each in place; where the
  boxes of two amplifiers overlap, a pixel is corrected once for each
  amplifier that contains it, in the order of the detector, and flagged on
  the value it has when that amplifier is reached.

  \<^item> \<open>amp_pixel\<close> is the documented model for one pixel and one amplifier,
    \<open>pixel_through\<close> takes a pixel through the amplifiers of a detector, and
    \<open>pixelSpec\<close> does so for every pixel of a masked image: the loop over
    the amplifiers with the loop over the pixels outside.
  \<^item> The lemmas show that the two loops can be interchanged
    (\<open>linearizeSpec_pixelwise\<close>), with no condition on the boxes, and what
    \<open>pixel_through\<close> is when the boxes do not overlap.
  \<^item> \<open>ex_row\<close> is an amplifier on the first row of \<open>ex_image\<close>, which overlaps
    the amplifier \<open>ex_amp0\<close> on the first column.
  \<^item> The last property relates the flags to the corrected image, through
    the order of values that the correction keeps (\<open>corrected_gt_iff\<close>).
\<close>

unbundle bit_operations_syntax

section \<open>One pixel through the amplifiers\<close>

definition amp_pixel ::
  "maskPixel \<Rightarrow> amplifier \<Rightarrow> int \<Rightarrow> int \<Rightarrow> pyfloat \<times> maskPixel \<Rightarrow> pyfloat \<times> maskPixel" where
  "amp_pixel suspect amp x y vm =
     (if containsPoint (getBBox amp) x y
      then (corrected (squareCoeff_of amp) (fst vm),
            if flagged (maxUncorr_of amp) (fst vm) then snd vm OR suspect else snd vm)
      else vm)"

definition pixel_through ::
  "maskPixel \<Rightarrow> amplifier list \<Rightarrow> int \<Rightarrow> int \<Rightarrow> pyfloat \<times> maskPixel \<Rightarrow> pyfloat \<times> maskPixel" where
  "pixel_through suspect amps x y = fold (\<lambda>amp. amp_pixel suspect amp x y) amps"

definition pixelSpec :: "maskPixel \<Rightarrow> amplifier list \<Rightarrow> maskedImage \<Rightarrow> maskedImage" where
  "pixelSpec suspect amps mi =
     mi\<lparr>getImage :=
          map_plane (getXY0 mi) (\<lambda>x y vm. fst (pixel_through suspect amps x y vm))
            (zip_plane (getImage mi) (getMask mi)),
        getMask :=
          map_plane (getXY0 mi) (\<lambda>x y vm. snd (pixel_through suspect amps x y vm))
            (zip_plane (getImage mi) (getMask mi))\<rparr>"

section \<open>Overlapping amplifiers on the small exposure\<close>

definition ex_row :: amplifier where
  "ex_row = ex_amp0\<lparr>getName := ''R0'', getBBox := Box2I (0, 0) (2, 1)\<rparr>"

definition ex_overlapped :: maskedImage where
  "ex_overlapped = ex_image\<lparr>getImage := [[Fin 60, Fin (12 / 5)], [Fin (28 / 5), NaN]],
     getMask := [[128, 1], [0, 0]]\<rparr>"

definition ex_twice :: maskedImage where
  "ex_twice = ex_image\<lparr>getImage := [[Fin 60, Fin 12], [Fin (1092 / 125), NaN]],
     getMask := [[128, 129], [128, 0]]\<rparr>"

section \<open>The loop over the pixels\<close>

lemma pixel_through_simps [simp]:
  "pixel_through suspect [] x y vm = vm"
  "pixel_through suspect (amp # amps) x y vm =
     pixel_through suspect amps x y (amp_pixel suspect amp x y vm)"
  by (simp_all add: pixel_through_def)

lemma pixel_through_append:
  "pixel_through suspect (as @ bs) x y vm =
     pixel_through suspect bs x y (pixel_through suspect as x y vm)"
  by (simp add: pixel_through_def)

lemma pixel_through_disjoint:
  assumes "pairwise_disjoint (map getBBox amps)"
  shows "pixel_through bits amps x y vm =
     (case amp_at amps x y of None \<Rightarrow> vm | Some a \<Rightarrow> amp_pixel bits a x y vm)"
  using assms
proof (induction amps arbitrary: vm)
  case Nil
  then show ?case by simp
next
  case (Cons a amps)
  from Cons.prems have dj: "pairwise_disjoint (map getBBox amps)" by simp
  show ?case
  proof (cases "containsPoint (getBBox a) x y")
    case True
    with Cons.prems have "amp_at amps x y = None" by (blast intro: disjoint_amp_at_tl)
    with True Cons.IH [OF dj] show ?thesis by simp
  next
    case False
    with Cons.IH [OF dj] show ?thesis by (simp add: amp_pixel_def)
  qed
qed

lemma pixel_at_ampSpec:
  assumes "wf_image mi" "image_at mi x y = Some v" "mask_at mi x y = Some m"
  shows "image_at (ampSpec bits amp mi) x y = Some (fst (amp_pixel bits amp x y (v, m)))"
    and "mask_at (ampSpec bits amp mi) x y = Some (snd (amp_pixel bits amp x y (v, m)))"
  using assms by (simp_all add: image_at_ampSpec mask_at_ampSpec amp_pixel_def)

lemma pixel_at_linearizeSpec:
  assumes "wf_image mi" "image_at mi x y = Some v" "mask_at mi x y = Some m"
  shows "image_at (linearizeSpec bits amps mi) x y = Some (fst (pixel_through bits amps x y (v, m))) \<and>
     mask_at (linearizeSpec bits amps mi) x y = Some (snd (pixel_through bits amps x y (v, m)))"
  using assms
proof (induction amps arbitrary: mi v m)
  case Nil
  then show ?case by simp
next
  case (Cons amp amps)
  from Cons.IH [OF wf_ampSpec [OF Cons.prems(1)] pixel_at_ampSpec [OF Cons.prems]]
  show ?case by simp
qed

section \<open>The reference image\<close>

lemma pixelSpec_frame [simp]:
  "getVariance (pixelSpec bits amps mi) = getVariance mi"
  "getXY0 (pixelSpec bits amps mi) = getXY0 mi"
  "getMaskPlaneDict (pixelSpec bits amps mi) = getMaskPlaneDict mi"
  by (simp_all add: pixelSpec_def)

lemma pixelSpec_dims:
  assumes "wf_image mi"
  shows "imageWidth (pixelSpec bits amps mi) = imageWidth mi"
    "imageHeight (pixelSpec bits amps mi) = imageHeight mi"
proof -
  note r = wf_image_rects(1,2) [OF assms]
  note z = rect_zip_plane [OF r]
  from plane_width_rect [OF z] plane_width_rect [OF r(1)]
  show "imageWidth (pixelSpec bits amps mi) = imageWidth mi"
    by (auto simp: pixelSpec_def imageWidth_def split: if_splits)
  from rect_length [OF z]
  show "imageHeight (pixelSpec bits amps mi) = imageHeight mi"
    by (simp add: pixelSpec_def imageHeight_def [of "_\<lparr>getImage := _, getMask := _\<rparr>"]
        plane_height_def)
qed

lemma wf_pixelSpec: "wf_image mi \<Longrightarrow> wf_image (pixelSpec bits amps mi)"
  by (simp add: wf_image_def [of "pixelSpec _ _ _"] pixelSpec_dims)
    (simp add: wf_image_def pixelSpec_def rect_zip_plane)

lemma pixel_at_pixelSpec:
  assumes "wf_image mi"
  shows "image_at (pixelSpec bits amps mi) x y =
       (case (image_at mi x y, mask_at mi x y) of
          (Some v, Some m) \<Rightarrow> Some (fst (pixel_through bits amps x y (v, m))) | _ \<Rightarrow> None)"
    and "mask_at (pixelSpec bits amps mi) x y =
       (case (image_at mi x y, mask_at mi x y) of
          (Some v, Some m) \<Rightarrow> Some (snd (pixel_through bits amps x y (v, m))) | _ \<Rightarrow> None)"
  using pixel_zip_plane [OF wf_image_rects(1,2) [OF assms], of "getXY0 mi" x y]
  by (auto simp: mask_at_def image_at_def pixelSpec_def split: option.splits)

lemma pixels_at_linearizeSpec:
  assumes "wf_image mi"
  shows "image_at (linearizeSpec bits amps mi) x y =
       (case (image_at mi x y, mask_at mi x y) of
          (Some v, Some m) \<Rightarrow> Some (fst (pixel_through bits amps x y (v, m))) | _ \<Rightarrow> None)"
      (is ?image)
    and "mask_at (linearizeSpec bits amps mi) x y =
       (case (image_at mi x y, mask_at mi x y) of
          (Some v, Some m) \<Rightarrow> Some (snd (pixel_through bits amps x y (v, m))) | _ \<Rightarrow> None)"
      (is ?mask)
proof -
  note wfl = wf_linearizeSpec [OF assms, of bits amps]
  note box = image_at_in_box [OF wfl, of x y] mask_at_in_box [OF wfl, of x y]
    image_at_in_box [OF assms, of x y] mask_at_in_box [OF assms, of x y]
  have "?image \<and> ?mask"
  proof (cases "containsPoint (imageBBox mi) x y")
    case True
    with box obtain v m where "image_at mi x y = Some v" "mask_at mi x y = Some m" by auto
    with pixel_at_linearizeSpec [OF assms this] show ?thesis by simp
  next
    case False
    with box show ?thesis by simp
  qed
  then show ?image and ?mask by simp_all
qed

lemma linearizeSpec_pixelwise:
  assumes "wf_image mi"
  shows "linearizeSpec bits amps mi = pixelSpec bits amps mi"
  using assms
  by (intro maskedImage_eqI)
    (simp_all add: wf_linearizeSpec wf_pixelSpec pixelSpec_dims pixels_at_linearizeSpec
      pixel_at_pixelSpec variance_at_def)

lemmas pixel_eval [isr_defs] = amp_pixel_def pixelSpec_def ex_row_def ex_overlapped_def ex_twice_def

section \<open>Properties of the task\<close>

text \<open>
  Property C6 (equivalence).  The loop over the amplifiers computes what one
  pass over the pixels computes that takes each pixel through the
  amplifiers containing it, in the order of the detector: on a detector
  whose amplifiers pass the checks and lie inside the image, \<open>run\<close> returns
  normally and leaves the image \<open>pixelSpec\<close>, also where amplifier boxes
  overlap.
\<close>

theorem run_pixelwise:
  assumes "doCorrect (getDetector exposure) = Inr True"
    and "list_all coeffs_ok (getAmplifiers (getDetector exposure))"
    and "amps_in_image (getDetector exposure) (getMaskedImage exposure)"
    and "wf_image (getMaskedImage exposure)"
    and "planeBitMask (getMaskPlaneDict (getMaskedImage exposure)) ''SUSPECT'' = Some suspect"
  shows "ProportionalLinearizeTask_run exposure logs =
     (Inr (),
      exposure\<lparr>getMaskedImage :=
        pixelSpec suspect (getAmplifiers (getDetector exposure)) (getMaskedImage exposure)\<rparr>,
      if list_ex (\<lambda>a. \<not> skipped a) (getAmplifiers (getDetector exposure))
      then logs @ [InfoApplied (getId (getDetector exposure))] else logs)"
  using assms
  by (simp add: run_unfold amps_in_image_def linearizeAmps_refines [where bits = suspect]
      linearizeSpec_pixelwise)

theorem run_pixelwise_witness:
  "ProportionalLinearizeTask_run (ex_exposure_with [ex_amp0, ex_row]) [] =
     (Inr (), ex_exposure_with [ex_amp0, ex_row]\<lparr>getMaskedImage := ex_overlapped\<rparr>,
      [InfoApplied 7])"
  using run_pixelwise [of "ex_exposure_with [ex_amp0, ex_row]" 128 "[]"]
  by (simp add: isr_defs)

text \<open>
  Property C25 (functional).  \<open>run\<close> is not idempotent: called on the exposure
  it has just corrected, it corrects every pixel again, flags on the
  corrected values and logs a second INFO record; the result is that of one
  call on a detector that lists every amplifier twice.
\<close>

theorem run_twice:
  assumes "doCorrect (getDetector exposure) = Inr True"
    and "list_all coeffs_ok (getAmplifiers (getDetector exposure))"
    and "amps_in_image (getDetector exposure) (getMaskedImage exposure)"
    and "wf_image (getMaskedImage exposure)"
    and "planeBitMask (getMaskPlaneDict (getMaskedImage exposure)) ''SUSPECT'' = Some suspect"
    and "ProportionalLinearizeTask_run exposure logs = (r, exposure', logs')"
  shows "ProportionalLinearizeTask_run exposure' logs' =
     (Inr (),
      exposure\<lparr>getMaskedImage :=
        pixelSpec suspect (getAmplifiers (getDetector exposure) @ getAmplifiers (getDetector exposure))
          (getMaskedImage exposure)\<rparr>,
      if list_ex (\<lambda>a. \<not> skipped a) (getAmplifiers (getDetector exposure))
      then logs @ [InfoApplied (getId (getDetector exposure)),
                   InfoApplied (getId (getDetector exposure))]
      else logs)"
proof -
  let ?amps = "getAmplifiers (getDetector exposure)"
  let ?mi = "linearizeSpec suspect ?amps (getMaskedImage exposure)"
  from assms have first: "exposure' = exposure\<lparr>getMaskedImage := ?mi\<rparr>"
    "logs' = (if list_ex (\<lambda>a. \<not> skipped a) ?amps
              then logs @ [InfoApplied (getId (getDetector exposure))] else logs)"
    by (simp_all add: run_unfold amps_in_image_def linearizeAmps_refines [where bits = suspect])
  from assms(1-5) have "ProportionalLinearizeTask_run exposure' logs' =
      (Inr (), exposure'\<lparr>getMaskedImage := linearizeSpec suspect ?amps ?mi\<rparr>,
       if list_ex (\<lambda>a. \<not> skipped a) ?amps
       then logs' @ [InfoApplied (getId (getDetector exposure))] else logs')"
    unfolding first(1)
    by (simp add: run_unfold amps_in_image_def wf_linearizeSpec
        linearizeAmps_refines [where bits = suspect])
  moreover have "linearizeSpec suspect ?amps ?mi =
      pixelSpec suspect (?amps @ ?amps) (getMaskedImage exposure)"
    by (simp only: linearizeSpec_append [symmetric]) (rule linearizeSpec_pixelwise [OF assms(4)])
  ultimately show ?thesis by (simp add: first)
qed

theorem run_twice_witness:
  "ProportionalLinearizeTask_run (ex_exposure\<lparr>getMaskedImage := ex_corrected\<rparr>) [InfoApplied 7] =
     (Inr (), ex_exposure\<lparr>getMaskedImage := ex_twice\<rparr>, [InfoApplied 7, InfoApplied 7])"
  using run_twice [OF ex_wanted ex_coeffs_ok ex_in_image ex_wf ex_suspect ex_run]
  by (simp add: isr_defs)

text \<open>
  Property C27 (bounds).  The flags can be read off the corrected image: for a
  pixel of an amplifier whose square coefficient is not negative, whose
  uncorrected value was not negative and whose mask pixel did not carry the
  \<open>SUSPECT\<close> bit, the bit is set after \<open>run\<close> exactly when the threshold is
  positive and the corrected value exceeds the corrected threshold, because
  the correction keeps the order of such values.
\<close>

theorem run_flags_from_corrected:
  assumes "doCorrect (getDetector exposure) = Inr True"
    and "list_all coeffs_ok (getAmplifiers (getDetector exposure))"
    and "amps_in_image (getDetector exposure) (getMaskedImage exposure)"
    and "amps_disjoint (getDetector exposure)"
    and "wf_image (getMaskedImage exposure)"
    and "planeBitMask (getMaskPlaneDict (getMaskedImage exposure)) ''SUSPECT'' = Some suspect"
    and "ProportionalLinearizeTask_run exposure logs = (r, exposure', logs')"
    and "amp_at (getAmplifiers (getDetector exposure)) x y = Some a"
    and "py_ge (squareCoeff_of a) 0"
    and "image_at (getMaskedImage exposure) x y = Some v" "py_ge v 0"
    and "mask_at (getMaskedImage exposure) x y = Some m" "m AND suspect = 0"
  shows "\<exists>v' m'. image_at (getMaskedImage exposure') x y = Some v' \<and>
     mask_at (getMaskedImage exposure') x y = Some m' \<and>
     (m' AND suspect \<noteq> 0 \<longleftrightarrow>
        py_gt (maxUncorr_of a) 0 \<and>
        py_gt v' (corrected (squareCoeff_of a) (maxUncorr_of a)))"
proof -
  let ?amps = "getAmplifiers (getDetector exposure)" and ?mi = "getMaskedImage exposure"
  from assms(1,2,3,5,6,7)
  have e: "getMaskedImage exposure' = linearizeSpec suspect ?amps ?mi"
    by (auto simp: run_unfold amps_in_image_def linearizeAmps_refines [where bits = suspect])
  from assms(4) have dj: "pairwise_disjoint (map getBBox ?amps)"
    by (simp add: amps_disjoint_def)
  from assms(5) have wfd: "wf_dict (getMaskPlaneDict ?mi)" by (simp add: wf_image_def)
  note bits = suspect_test [OF wfd assms(6)]
  from assms(8,10,12,13) bits(1) [of m] flagged_corrected [OF assms(9,11), of "maxUncorr_of a"]
  show ?thesis
    unfolding e
    by (simp add: linearizeSpec_image_at [OF dj assms(5)] linearizeSpec_mask_at [OF dj assms(5)])
qed

theorem run_flags_from_corrected_witness:
  "image_at ex_corrected 0 0 = Some (Fin 20) \<and> mask_at ex_corrected 0 0 = Some 128 \<and>
   (128 :: maskPixel) AND 128 \<noteq> 0 \<and> py_gt (Fin 20) (corrected (Fin (1 / 10)) (Fin 5))"
  using run_flags_from_corrected [OF ex_wanted ex_coeffs_ok ex_in_image ex_disjoint ex_wf
      ex_suspect ex_run, of 0 0 ex_amp0 "Fin 10" 0]
  by (simp add: isr_defs squareCoeff_of_def maxUncorr_of_def)

end
