(* ===== verification/LinearizeCoords.thy ===== *)
theory LinearizeCoords
  imports ProportionalLinearize
begin

text \<open>
  The coordinate frame of \<open>ProportionalLinearizeTask.run\<close>.  The method makes
  the sub-image of an amplifier with the origin \<open>afwImage.PARENT\<close>: the box
  of the amplifier is read in the frame in which the image has its origin
  \<open>getXY0\<close>, not in the frame of the pixel array.

  \<^item> \<open>shift\<close> moves a box; \<open>move_image\<close>, \<open>move_detector\<close> and
    \<open>move_exposure\<close> move the origin of an image, the amplifier boxes of a
    detector, and both, by the same offset.
  \<^item> The lemmas show that every step of \<open>run\<close> commutes with such a move.
\<close>

section \<open>Moving boxes and images\<close>

definition shift :: "int \<Rightarrow> int \<Rightarrow> box2i \<Rightarrow> box2i" where
  "shift dx dy b = b\<lparr>getMinX := getMinX b + dx, getMinY := getMinY b + dy\<rparr>"

definition move_image :: "int \<Rightarrow> int \<Rightarrow> maskedImage \<Rightarrow> maskedImage" where
  "move_image dx dy mi = mi\<lparr>getXY0 := (fst (getXY0 mi) + dx, snd (getXY0 mi) + dy)\<rparr>"

definition move_detector :: "int \<Rightarrow> int \<Rightarrow> detector \<Rightarrow> detector" where
  "move_detector dx dy d =
     d\<lparr>getAmplifiers := map (\<lambda>amp. amp\<lparr>getBBox := shift dx dy (getBBox amp)\<rparr>) (getAmplifiers d)\<rparr>"

definition move_exposure :: "int \<Rightarrow> int \<Rightarrow> detector exposure \<Rightarrow> detector exposure" where
  "move_exposure dx dy e =
     e\<lparr>getMaskedImage := move_image dx dy (getMaskedImage e),
       getDetector := move_detector dx dy (getDetector e)\<rparr>"

section \<open>Steps of the task under a move\<close>

lemma shift_simps [simp]:
  "containsPoint (shift dx dy b) (x + dx) (y + dy) \<longleftrightarrow> containsPoint b x y"
  "containsBox (shift dx dy b) (shift dx dy c) \<longleftrightarrow> containsBox b c"
  "isEmpty (shift dx dy b) \<longleftrightarrow> isEmpty b"
  by (auto simp: shift_def containsPoint_def containsBox_def isEmpty_def)

lemma move_image_sel [simp]:
  "getImage (move_image dx dy mi) = getImage mi"
  "getMask (move_image dx dy mi) = getMask mi"
  "getVariance (move_image dx dy mi) = getVariance mi"
  "getMaskPlaneDict (move_image dx dy mi) = getMaskPlaneDict mi"
  "getXY0 (move_image dx dy mi) = (fst (getXY0 mi) + dx, snd (getXY0 mi) + dy)"
  "imageBBox (move_image dx dy mi) = shift dx dy (imageBBox mi)"
  by (simp_all add: move_image_def imageBBox_def imageWidth_def imageHeight_def shift_def)

lemma move_setMaskAbove:
  "setMaskAbove (shift dx dy b) t bits (move_image dx dy mi) =
   move_image dx dy (setMaskAbove b t bits mi)"
  by (simp add: setMaskAbove_def map_plane_shift move_image_def)

lemma move_scaleImage:
  "scaleImage (shift dx dy b) s (move_image dx dy mi) = move_image dx dy (scaleImage b s mi)"
  by (simp add: scaleImage_def update_box_def map_plane_shift move_image_def)

lemma move_linearizeAmp:
  "linearizeAmp det (amp\<lparr>getBBox := shift dx dy (getBBox amp)\<rparr>) (move_image dx dy mi) =
   map_sum id (apsnd (move_image dx dy)) (linearizeAmp det amp mi)"
  by (cases "unpack3 (take 3 (getLinearityCoeffs amp)) :: lin_error + _")
    (auto simp: linearizeAmp_def subImage_def FootprintSet_def getPlaneBitMask_def
      move_setMaskAbove move_scaleImage split: sum.splits option.splits)

lemma move_linearizeAmps:
  "linearizeAmps det (map (\<lambda>amp. amp\<lparr>getBBox := shift dx dy (getBBox amp)\<rparr>) amps) d
     (move_image dx dy mi) =
   apsnd (move_image dx dy) (linearizeAmps det amps d mi)"
proof (induction amps arbitrary: d mi)
  case Nil
  show ?case by simp
next
  case (Cons amp amps)
  show ?case
    by (cases "linearizeAmp det amp mi") (auto simp: move_linearizeAmp Cons.IH)
qed

lemma move_doCorrect [simp]: "doCorrect (move_detector dx dy d) = doCorrect d"
  by (cases "getAmplifiers d") (simp_all add: move_detector_def doCorrect_Cons)

section \<open>Properties of the task\<close>

text \<open>
  Property C23 (equivalence).  \<open>run\<close> depends on where the amplifier boxes
  lie relative to the image, and on nothing else of the coordinates: moving
  the origin of the image and every amplifier box by the same offset moves
  the result by that offset, whatever \<open>run\<close> returns, exceptions and the
  partially corrected exposure included.
\<close>

theorem run_translation:
  "ProportionalLinearizeTask_run (move_exposure dx dy exposure) logs =
     (case ProportionalLinearizeTask_run exposure logs of
        (r, exposure', logs') \<Rightarrow> (r, move_exposure dx dy exposure', logs'))"
proof -
  have id: "getId (move_detector dx dy (getDetector exposure)) = getId (getDetector exposure)"
    by (simp add: move_detector_def)
  show ?thesis
    by (simp add: ProportionalLinearizeTask_run_def Let_def move_exposure_def id
        linearizeAmps_det_irrelevant [OF id] move_linearizeAmps [unfolded apsnd_def]
        move_detector_def [of dx dy "getDetector exposure", THEN arg_cong [of _ _ getAmplifiers]]
        split: sum.splits bool.splits prod.splits)
qed

end
