(* ===== verification/LinearizeContract.thy ===== *)
theory LinearizeContract
  imports ProportionalLinearize
begin

text \<open>
  What \<open>ProportionalLinearizeTask.run\<close> does on every well-formed exposure,
  failures included, as one specification.

  \<^item> \<open>amp_fault\<close> is the exception the body of the loop raises for an
    amplifier, if any, read off its guards in the order the source has
    them: fewer than three coefficients, a second coefficient that is not
    zero, nothing to do, a box that is not inside the image, a positive
    threshold on a mask without the \<open>SUSPECT\<close> plane.  It depends on the
    image only through its bounding box and its mask plane dictionary, which
    the loop never changes.
  \<^item> \<open>runSpec\<close> is the contract: the answer of \<open>doCorrect\<close>, then the first
    fault among the amplifiers with the documented model applied to the
    amplifiers before it, or else the model applied to all of them and the
    INFO record.
  \<^item> \<open>suspect_bits\<close> is the bit mask of the \<open>SUSPECT\<close> plane, and 0 for a mask
    without it (no amplifier that flags gets that far then).
  \<^item> \<open>ex_no_suspect\<close> is the small exposure with a mask plane dictionary that
    lacks \<open>SUSPECT\<close>: its first amplifier only scales, its second one flags.
\<close>

section \<open>Faults and the contract\<close>

definition suspect_bits :: "maskedImage \<Rightarrow> maskPixel" where
  "suspect_bits mi =
     (case planeBitMask (getMaskPlaneDict mi) ''SUSPECT'' of None \<Rightarrow> 0 | Some bits \<Rightarrow> bits)"

definition amp_fault :: "detector \<Rightarrow> maskedImage \<Rightarrow> amplifier \<Rightarrow> lin_error option" where
  "amp_fault det mi amp =
     (let coeffs = getLinearityCoeffs amp in
      if length coeffs < 3 then Some (ValueError (length coeffs))
      else if py_ne (coeffs ! 1) 0 then
        Some (RuntimeError (CoeffOneNotZero (coeffs ! 1) (getId det) (getName amp)))
      else if skipped amp then None
      else if \<not> containsBox (imageBBox mi) (getBBox amp) then Some LengthError
      else if py_gt (maxUncorr_of amp) 0 \<and>
              planeBitMask (getMaskPlaneDict mi) ''SUSPECT'' = None
      then Some (InvalidParameterError ''SUSPECT'')
      else None)"

definition runSpec ::
  "detector exposure \<Rightarrow> log_record list \<Rightarrow>
   (lin_error + unit) \<times> detector exposure \<times> log_record list" where
  "runSpec exposure logs =
     (let det = getDetector exposure; mi = getMaskedImage exposure; amps = getAmplifiers det in
      case doCorrect det of
        Inl e \<Rightarrow> (Inl e, exposure, logs)
      | Inr False \<Rightarrow> (Inr (), exposure, logs @ [DebugNotWanted (getId det)])
      | Inr True \<Rightarrow>
          (case List.map_filter (amp_fault det mi) amps of
             [] \<Rightarrow>
               (Inr (), exposure\<lparr>getMaskedImage := linearizeSpec (suspect_bits mi) amps mi\<rparr>,
                if list_ex (\<lambda>a. \<not> skipped a) amps
                then logs @ [InfoApplied (getId det)] else logs)
           | e # _ \<Rightarrow>
               (Inl e,
                exposure\<lparr>getMaskedImage :=
                  linearizeSpec (suspect_bits mi)
                    (takeWhile (\<lambda>a. amp_fault det mi a = None) amps) mi\<rparr>,
                logs)))"

definition ex_no_suspect :: "detector exposure" where
  "ex_no_suspect =
     \<lparr>getMaskedImage = ex_image\<lparr>getMaskPlaneDict := [(''BAD'', 0), (''SAT'', 1)]\<rparr>,
      getDetector = \<lparr>getId = 7,
        getAmplifiers = [ex_amp0\<lparr>getLinearityCoeffs := [Fin (1 / 10), 0, 0]\<rparr>, ex_amp1]\<rparr>,
      getExptime = Fin 30\<rparr>"

section \<open>One amplifier\<close>

lemma amp_fault_frame:
  assumes "imageBBox mi' = imageBBox mi" "getMaskPlaneDict mi' = getMaskPlaneDict mi"
  shows "amp_fault det mi' = amp_fault det mi"
  by (rule ext) (simp add: amp_fault_def Let_def assms)

lemma amp_fault_coeffs_ok:
  assumes "coeffs_ok amp"
  shows "amp_fault det mi amp =
     (if skipped amp then None
      else if \<not> containsBox (imageBBox mi) (getBBox amp) then Some LengthError
      else if py_gt (maxUncorr_of amp) 0 \<and>
              planeBitMask (getMaskPlaneDict mi) ''SUSPECT'' = None
      then Some (InvalidParameterError ''SUSPECT'')
      else None)"
  using assms by (simp add: amp_fault_def Let_def coeffs_ok_def)

lemma amp_fault_not_ok:
  assumes "\<not> coeffs_ok amp"
  shows "amp_fault det mi amp =
     Some (if length (getLinearityCoeffs amp) < 3 then ValueError (length (getLinearityCoeffs amp))
           else RuntimeError
                  (CoeffOneNotZero (getLinearityCoeffs amp ! 1) (getId det) (getName amp)))"
  using assms by (simp add: amp_fault_def Let_def coeffs_ok_def)

lemma amp_fault_None_iff:
  "amp_fault det mi amp = None \<longleftrightarrow>
     coeffs_ok amp \<and>
     (skipped amp \<or>
      containsBox (imageBBox mi) (getBBox amp) \<and>
      (py_gt (maxUncorr_of amp) 0 \<longrightarrow> planeBitMask (getMaskPlaneDict mi) ''SUSPECT'' \<noteq> None))"
  by (cases "coeffs_ok amp") (auto simp: amp_fault_coeffs_ok amp_fault_not_ok)

lemma amp_fault_kinds:
  assumes "amp_fault det mi amp = Some e"
  shows "e = ValueError (length (getLinearityCoeffs amp)) \<or>
     e = RuntimeError (CoeffOneNotZero (getLinearityCoeffs amp ! 1) (getId det) (getName amp)) \<or>
     e = LengthError \<or> e = InvalidParameterError ''SUSPECT''"
  using assms by (auto simp: amp_fault_def Let_def split: if_splits)

lemma linearizeAmp_fault:
  assumes "wf_image mi"
  shows "linearizeAmp det amp mi =
     (case amp_fault det mi amp of
        Some e \<Rightarrow> Inl e
      | None \<Rightarrow> Inr (\<not> skipped amp, ampSpec (suspect_bits mi) amp mi))"
proof (cases "coeffs_ok amp")
  case False
  then show ?thesis
    by (simp add: amp_fault_not_ok linearizeAmp_short linearizeAmp_coeff1 coeffs_ok_def)
next
  case True
  with assms show ?thesis
    by (auto simp: linearizeAmp_coeffs_ok amp_fault_coeffs_ok suspect_bits_def
        skipped_ampSpec ampSpec_flagged ampSpec_unflagged split: option.splits)
qed

section \<open>The loop up to the first fault\<close>

lemma linearizeAmps_first_fault:
  assumes "wf_image mi"
    and "imageBBox mi = imageBBox mi0" "getMaskPlaneDict mi = getMaskPlaneDict mi0"
  shows "linearizeAmps det amps d mi =
     (case List.map_filter (amp_fault det mi0) amps of
        [] \<Rightarrow> (Inr (d \<or> list_ex (\<lambda>a. \<not> skipped a) amps), linearizeSpec (suspect_bits mi0) amps mi)
      | e # _ \<Rightarrow>
          (Inl e, linearizeSpec (suspect_bits mi0)
             (takeWhile (\<lambda>a. amp_fault det mi0 a = None) amps) mi))"
  using assms
proof (induction amps arbitrary: d mi)
  case Nil
  then show ?case by (simp add: List.map_filter_simps)
next
  case (Cons amp amps)
  note fr = amp_fault_frame [OF Cons.prems(2,3), of det]
  from Cons.prems(3) have bits: "suspect_bits mi = suspect_bits mi0" by (simp add: suspect_bits_def)
  show ?case
  proof (cases "amp_fault det mi0 amp")
    case None
    with linearizeAmp_fault [OF Cons.prems(1), of det amp]
    have step: "linearizeAmp det amp mi = Inr (\<not> skipped amp, ampSpec (suspect_bits mi0) amp mi)"
      by (simp add: fr bits)
    from Cons.prems show ?thesis
      by (simp add: step None Cons.IH wf_ampSpec disj_assoc List.map_filter_simps
          split: list.splits)
  next
    case (Some e)
    with linearizeAmp_fault [OF Cons.prems(1), of det amp] show ?thesis
      by (simp add: fr List.map_filter_simps)
  qed
qed

section \<open>When the contract raises\<close>

lemma runSpec_raises_iff:
  "raises (fst (runSpec exposure logs)) \<longleftrightarrow>
     raises (doCorrect (getDetector exposure)) \<or>
     doCorrect (getDetector exposure) = Inr True \<and>
     list_ex (\<lambda>a. amp_fault (getDetector exposure) (getMaskedImage exposure) a \<noteq> None)
       (getAmplifiers (getDetector exposure))"
proof (cases "doCorrect (getDetector exposure) = Inr True")
  case True
  let ?faults = "List.map_filter (amp_fault (getDetector exposure) (getMaskedImage exposure))
      (getAmplifiers (getDetector exposure))"
  from True have "raises (fst (runSpec exposure logs)) \<longleftrightarrow> ?faults \<noteq> []"
    by (simp add: runSpec_def Let_def split: list.splits)
  with True show ?thesis by (simp add: map_filter_Nil_iff)
next
  case False
  then show ?thesis by (auto simp: runSpec_def Let_def split: sum.splits)
qed

section \<open>Properties\<close>

text \<open>
  Property C2 (refinement).  On every exposure with a well-formed masked image
  \<open>run\<close> is its contract \<open>runSpec\<close>: it returns what \<open>doCorrect\<close> raises, or
  does nothing but log at level DEBUG when \<open>doCorrect\<close> says no; otherwise it
  raises the fault of the first amplifier that has one, leaving the
  documented model applied to the amplifiers before that one and logging
  nothing, and with no faulty amplifier it returns normally with the model
  applied to every amplifier, and logs at level INFO when one of them was
  not skipped.  No other hypothesis is needed: coefficients, boxes and mask
  planes are arbitrary.
\<close>

theorem run_complete:
  assumes "wf_image (getMaskedImage exposure)"
  shows "ProportionalLinearizeTask_run exposure logs = runSpec exposure logs"
proof (cases "doCorrect (getDetector exposure) = Inr True")
  case True
  then show ?thesis
    by (simp add: run_unfold runSpec_def Let_def linearizeAmps_first_fault [OF assms refl refl]
        split: list.splits)
next
  case False
  then show ?thesis
    by (auto simp: ProportionalLinearizeTask_run_def runSpec_def Let_def split: sum.splits)
qed

theorem run_complete_witness:
  "ProportionalLinearizeTask_run ex_no_suspect [] =
   (Inl (InvalidParameterError ''SUSPECT''),
    ex_no_suspect\<lparr>getMaskedImage := getMaskedImage ex_no_suspect
       \<lparr>getImage := [[Fin 20, Fin 2], [Fin (28 / 5), NaN]]\<rparr>\<rparr>, [])"
  using run_complete [of ex_no_suspect "[]"]
  by (simp add: ex_no_suspect_def runSpec_def amp_fault_def suspect_bits_def
      List.map_filter_simps isr_defs)

end
