(* ===== verification/IsrConfig.thy ===== *)
theory IsrConfig
  imports PyValues
begin

text \<open>
  \<open>IsrTaskConfig\<close> of \<open>python/lsst/ip/isr/isrTask.py\<close>: one record field per
  configuration field, with the declared defaults.  The two choice fields are
  strings that must be one of the allowed names; \<open>validate\<close> is the check the
  configuration framework applies to them.  The configurable field
  \<open>assembleCcd\<close> selects the sub-task that assembles a CCD; the model keeps
  the sub-task itself among the collaborators of the task, not in this
  record.
\<close>

section \<open>The configuration\<close>

record isrTaskConfig =
  doWrite :: bool
  fwhm :: pyfloat
  saturatedMaskName :: string
  flatScalingType :: string
  flatUserScale :: pyfloat
  overscanFitType :: string
  overscanPolyOrder :: int
  growSaturationFootprintSize :: int
  growDefectFootprintSize :: int
  setGainAssembledCcd :: bool
  keysToRemoveFromAssembledCcd :: "string list"
  reNormAssembledCcd :: bool

definition IsrTaskConfig :: isrTaskConfig where
  "IsrTaskConfig =
     \<lparr>doWrite = True,
      fwhm = 1,
      saturatedMaskName = ''SAT'',
      flatScalingType = ''USER'',
      flatUserScale = 1,
      overscanFitType = ''MEDIAN'',
      overscanPolyOrder = 1,
      growSaturationFootprintSize = 1,
      growDefectFootprintSize = 1,
      setGainAssembledCcd = True,
      keysToRemoveFromAssembledCcd = [],
      reNormAssembledCcd = True\<rparr>"

definition flatScalingType_allowed :: "string list" where
  "flatScalingType_allowed = [''USER'', ''MEAN'', ''MEDIAN'']"

definition overscanFitType_allowed :: "string list" where
  "overscanFitType_allowed = [''POLY'', ''MEAN'', ''MEDIAN'']"

definition validate :: "isrTaskConfig \<Rightarrow> 'm error + unit" where
  "validate c =
     (if flatScalingType c \<notin> set flatScalingType_allowed
      then Inl (FieldValidationError ''flatScalingType'')
      else if overscanFitType c \<notin> set overscanFitType_allowed
      then Inl (FieldValidationError ''overscanFitType'')
      else Inr ())"

section \<open>Facts\<close>

lemma validate_Inr_iff:
  "validate c = Inr () \<longleftrightarrow>
     flatScalingType c \<in> {''USER'', ''MEAN'', ''MEDIAN''} \<and>
     overscanFitType c \<in> {''POLY'', ''MEAN'', ''MEDIAN''}"
  by (simp add: validate_def flatScalingType_allowed_def overscanFitType_allowed_def)

lemma validate_defaults [simp]: "validate IsrTaskConfig = Inr ()"
  by (simp add: validate_Inr_iff) (simp add: IsrTaskConfig_def)

lemma validate_ignores_other_fields:
  "flatScalingType c' = flatScalingType c \<Longrightarrow> overscanFitType c' = overscanFitType c \<Longrightarrow>
   validate c' = (validate c :: 'm error + unit)"
  by (simp add: validate_def)

end
