(* ===== verification/IsrLib.thy ===== *)
theory IsrLib
  imports CameraGeom IsrConfig "HOL-Library.AList"
begin

text \<open>
  The collaborators of \<open>IsrTask\<close> that are not part of the repository.

  \<^item> \<open>isrLib\<close> is the interface of the numeric library \<open>isr\<close>, of the counter
    \<open>UnmaskedNanCounterF\<close> and of the sub-task \<open>assembleCcd\<close>: one field per
    routine the task calls, with the arguments the task passes.  A routine
    that updates a masked image in place returns the updated image; every
    routine may raise.  Nothing is assumed of the routines: the lemmas about
    the task hold for every value of this record, or name the law of the
    interface they need (\<open>keeps_detector\<close>, \<open>counts_unmasked_nans\<close>).
  \<^item> \<open>butlerDataRef\<close> is the data reference a sensor is processed through:
    the datasets it can load by name, and the list of what has been written
    through it.
  \<^item> \<open>idle_isr\<close> is a library whose routines leave every image as it is and
    whose counter counts the NaN pixels that carry no mask bit.  It
    discharges the laws of the interface and is the library of the closed
    instances.
\<close>

section \<open>Messages\<close>

datatype isr_message =
    MustBeExecutedOnAmp
  | UnmaskedNaNs int

type_synonym isr_error = "isr_message error"

type_synonym geomExposure = "pyDetector exposure"

section \<open>The numeric library\<close>

record isrLib =
  defaultOrigin :: imageOrigin
  isr_floatImageFromInt :: "geomExposure \<Rightarrow> isr_error + geomExposure"
  isr_makeThresholdMask :: "maskedImage \<Rightarrow> pyfloat \<Rightarrow> int \<Rightarrow> string \<Rightarrow> isr_error + maskedImage"
  isr_overscanCorrection :: "maskedImage \<Rightarrow> box2i \<Rightarrow> string \<Rightarrow> int \<Rightarrow> isr_error + maskedImage"
  isr_biasCorrection :: "maskedImage \<Rightarrow> maskedImage \<Rightarrow> isr_error + maskedImage"
  isr_darkCorrection ::
    "maskedImage \<Rightarrow> maskedImage \<Rightarrow> pyfloat \<Rightarrow> pyfloat \<Rightarrow> isr_error + maskedImage"
  isr_updateVariance :: "maskedImage \<Rightarrow> pyfloat \<Rightarrow> pyfloat \<Rightarrow> isr_error + maskedImage"
  isr_flatCorrection ::
    "maskedImage \<Rightarrow> maskedImage \<Rightarrow> string \<Rightarrow> pyfloat \<Rightarrow> isr_error + maskedImage"
  isr_saturationCorrection ::
    "maskedImage \<Rightarrow> pyfloat \<Rightarrow> pyfloat \<Rightarrow> int \<Rightarrow> string \<Rightarrow> isr_error + maskedImage"
  isr_interpolateFromMask ::
    "maskedImage \<Rightarrow> pyfloat \<Rightarrow> int \<Rightarrow> string \<Rightarrow> isr_error + maskedImage"
  isr_transposeMaskedImage :: "maskedImage \<Rightarrow> isr_error + maskedImage"
  isr_transposeDefectList :: "defect list \<Rightarrow> isr_error + defect list"
  isr_maskPixelsFromDefectList ::
    "maskedImage \<Rightarrow> defect list \<Rightarrow> string \<Rightarrow> isr_error + maskedImage"
  isr_getDefectListFromMask :: "maskedImage \<Rightarrow> string \<Rightarrow> int \<Rightarrow> isr_error + defect list"
  isr_interpolateDefectList :: "maskedImage \<Rightarrow> defect list \<Rightarrow> pyfloat \<Rightarrow> isr_error + maskedImage"
  UnmaskedNanCounterF_apply :: "maskedImage \<Rightarrow> isr_error + int \<times> maskedImage"
  assembleCcd_run :: "geomExposure \<Rightarrow> isr_error + geomExposure"

definition keeps_detector :: "isrLib \<Rightarrow> bool" where
  "keeps_detector isr \<longleftrightarrow>
     (\<forall>e e'. isr_floatImageFromInt isr e = Inr e' \<longrightarrow> getDetector e' = getDetector e)"

definition unmasked_nans :: "maskedImage \<Rightarrow> nat" where
  "unmasked_nans mi =
     length (filter (\<lambda>vm. isnan (fst vm) \<and> snd vm = 0)
               (concat (zip_plane (getImage mi) (getMask mi))))"

definition counts_unmasked_nans :: "isrLib \<Rightarrow> bool" where
  "counts_unmasked_nans isr \<longleftrightarrow>
     (\<forall>mi. \<exists>mi'. UnmaskedNanCounterF_apply isr mi = Inr (int (unmasked_nans mi), mi'))"

section \<open>The data reference\<close>

record butlerDataRef =
  dataId :: string
  datasets :: "(string \<times> geomExposure) list"
  persisted :: "(geomExposure \<times> string) list"

definition dataRef_get :: "butlerDataRef \<Rightarrow> string \<Rightarrow> isr_error + geomExposure" where
  "dataRef_get dataRef name =
     (case map_of (datasets dataRef) name of
        None \<Rightarrow> Inl (NoResults name)
      | Some e \<Rightarrow> Inr e)"

definition dataRef_getitem :: "butlerDataRef \<Rightarrow> string \<Rightarrow> isr_error + geomExposure" where
  "dataRef_getitem dataRef name =
     (case map_of (datasets dataRef) name of
        None \<Rightarrow> Inl (KeyError name)
      | Some e \<Rightarrow> Inr e)"

definition dataRef_put :: "geomExposure \<Rightarrow> string \<Rightarrow> butlerDataRef \<Rightarrow> butlerDataRef" where
  "dataRef_put e name dataRef = dataRef\<lparr>persisted := persisted dataRef @ [(e, name)]\<rparr>"

definition metadata_set :: "string \<Rightarrow> int \<Rightarrow> (string \<times> int) list \<Rightarrow> (string \<times> int) list" where
  "metadata_set name v md = AList.update name v md"

section \<open>A library that leaves images alone\<close>

definition idle_isr :: isrLib where
  "idle_isr =
     \<lparr>defaultOrigin = PARENT,
      isr_floatImageFromInt = Inr,
      isr_makeThresholdMask = (\<lambda>mi saturation growFootprints maskName. Inr mi),
      isr_overscanCorrection = (\<lambda>mi overscan fittype polyorder. Inr mi),
      isr_biasCorrection = (\<lambda>mi biasMI. Inr mi),
      isr_darkCorrection = (\<lambda>mi darkMI expScale darkScale. Inr mi),
      isr_updateVariance = (\<lambda>mi gain readNoise. Inr mi),
      isr_flatCorrection = (\<lambda>mi flatMI scalingType userScale. Inr mi),
      isr_saturationCorrection = (\<lambda>mi saturation fwhm growFootprints maskName. Inr mi),
      isr_interpolateFromMask = (\<lambda>mi fwhm growFootprints maskName. Inr mi),
      isr_transposeMaskedImage = Inr,
      isr_transposeDefectList = Inr,
      isr_maskPixelsFromDefectList = (\<lambda>mi defectList maskName. Inr mi),
      isr_getDefectListFromMask = (\<lambda>mi maskName growFootprints. Inr []),
      isr_interpolateDefectList = (\<lambda>mi defectList fwhm. Inr mi),
      UnmaskedNanCounterF_apply = (\<lambda>mi. Inr (int (unmasked_nans mi), mi)),
      assembleCcd_run = Inr\<rparr>"

section \<open>Facts\<close>

lemma dataRef_get_simps:
  "map_of (datasets dataRef) name = Some e \<Longrightarrow> dataRef_get dataRef name = Inr e"
  "map_of (datasets dataRef) name = None \<Longrightarrow> dataRef_get dataRef name = Inl (NoResults name)"
  "map_of (datasets dataRef) name = Some e \<Longrightarrow> dataRef_getitem dataRef name = Inr e"
  "map_of (datasets dataRef) name = None \<Longrightarrow> dataRef_getitem dataRef name = Inl (KeyError name)"
  by (simp_all add: dataRef_get_def dataRef_getitem_def)

lemma dataRef_put_sel [simp]:
  "dataId (dataRef_put e name dataRef) = dataId dataRef"
  "datasets (dataRef_put e name dataRef) = datasets dataRef"
  "persisted (dataRef_put e name dataRef) = persisted dataRef @ [(e, name)]"
  by (simp_all add: dataRef_put_def)

lemma dataRef_get_put [simp]:
  "dataRef_get (dataRef_put e name' dataRef) name = dataRef_get dataRef name"
  "dataRef_getitem (dataRef_put e name' dataRef) name = dataRef_getitem dataRef name"
  by (simp_all add: dataRef_get_def dataRef_getitem_def)

lemma metadata_set_lookup [simp]:
  "map_of (metadata_set name v md) name' = (if name' = name then Some v else map_of md name')"
  by (simp add: metadata_set_def update_conv')

lemma metadata_set_idem [simp]:
  "metadata_set name v (metadata_set name w md) = metadata_set name v md"
  by (simp add: metadata_set_def)

lemma metadata_set_distinct:
  "distinct (map fst md) \<Longrightarrow> distinct (map fst (metadata_set name v md))"
  by (simp add: metadata_set_def distinct_update)

lemma metadata_set_keys:
  "fst ` set (metadata_set name v md) = insert name (fst ` set md)"
  unfolding metadata_set_def by (induction md) auto

lemma unmasked_nans_addMaskPlane:
  "addMaskPlane name mi = Inr mi' \<Longrightarrow> unmasked_nans mi' = unmasked_nans mi"
  by (simp add: unmasked_nans_def addMaskPlane_frame)

lemma unmasked_nans_zero_iff:
  "unmasked_nans mi = 0 \<longleftrightarrow>
     (\<forall>row \<in> set (zip_plane (getImage mi) (getMask mi)).
        \<forall>vm \<in> set row. \<not> (isnan (fst vm) \<and> snd vm = 0))"
  by (auto simp: unmasked_nans_def filter_empty_conv)

lemma idle_keeps_detector [simp]: "keeps_detector idle_isr"
  by (simp add: keeps_detector_def idle_isr_def)

lemma idle_counts_unmasked_nans [simp]: "counts_unmasked_nans idle_isr"
  by (simp add: counts_unmasked_nans_def idle_isr_def)

lemma counts_unmasked_nansD:
  assumes "counts_unmasked_nans isr"
  obtains mi' where "UnmaskedNanCounterF_apply isr mi = Inr (int (unmasked_nans mi), mi')"
  using assms by (auto simp: counts_unmasked_nans_def)

end
