(* ===== verification/IsrTask.thy ===== *)
theory IsrTask
  imports IsrLib
begin

text \<open>
  \<open>IsrTask\<close> of \<open>python/lsst/ip/isr/isrTask.py\<close>.

  \<^item> \<open>isrTask\<close> is the state of a task object: its configuration, the flag
    \<open>transposeForInterpolation\<close>, its metadata and its log.  \<open>IsrTask_init\<close> is
    the constructor.
  \<^item> Each method is one definition with the method's name, taking the
    library, the task and the method's arguments.  A method that updates its
    exposure in place returns the updated exposure; \<open>maskAndInterpNan\<close> and
    \<open>IsrTask_run\<close> also return the task, whose metadata and log they write,
    and \<open>IsrTask_run\<close> the data reference, through which it would persist
    the result.  When a collaborator raises, the model returns the
    exception and not the exposure the collaborator was working on.
  \<^item> \<open>load_name\<close> is Python's lookup of a name that a function body reads
    without binding it: the module's global names are found, any other name
    raises \<open>NameError\<close>.  A method whose body reads such a name is modelled
    with the lookup in place, followed by what the body would do with the
    object that was meant.
  \<^item> \<open>ampLoop\<close> is the loop of \<open>run\<close> over the amplifiers; \<open>run_corrections\<close>
    is the body of \<open>run\<close> from loading the raw exposure to the interpolation
    over saturated pixels.
\<close>

section \<open>The task object\<close>

datatype isr_log = PerformingISR string

record isrTask =
  config :: isrTaskConfig
  transposeForInterpolation :: bool
  metadata :: "(string \<times> int) list"
  tasklog :: "isr_log list"

definition IsrTask_init :: "isrTaskConfig \<Rightarrow> isrTask" where
  "IsrTask_init c =
     \<lparr>config = c, transposeForInterpolation = False, metadata = [], tasklog = []\<rparr>"

section \<open>Names\<close>

definition module_names :: "string list" where
  "module_names =
     [''afwImage'', ''measAlg'', ''cameraGeom'', ''pexConfig'', ''pipeBase'', ''isr'',
      ''UnmaskedNanCounterF'', ''AssembleCcdTask'', ''IsrTaskConfig'', ''IsrTask'']"

definition load_name :: "string list \<Rightarrow> string \<Rightarrow> 'a \<Rightarrow> isr_error + 'a" where
  "load_name local_names name meant =
     (if name \<in> set local_names \<or> name \<in> set module_names then Inr meant
      else Inl (NameError name))"

section \<open>The methods\<close>

definition checkIsAmp :: "pyDetector \<Rightarrow> bool" where
  "checkIsAmp detector = (case detector of Some (Amp a) \<Rightarrow> True | _ \<Rightarrow> False)"

definition biasCorrection ::
  "isrLib \<Rightarrow> isrTask \<Rightarrow> geomExposure \<Rightarrow> butlerDataRef \<Rightarrow> isr_error + geomExposure" where
  "biasCorrection isr self exposure dataRef =
     rbind (load_name [''self'', ''exposure'', ''dataRef''] ''sensorRef'' dataRef) (\<lambda>sensorRef.
     rbind (dataRef_get sensorRef ''bias'') (\<lambda>bias.
     let biasMI = getMaskedImage bias in
     rbind (load_name [''self'', ''exposure'', ''dataRef'', ''biasMI''] ''ccdExp'' exposure) (\<lambda>ccdExp.
     rbind (isr_biasCorrection isr (getMaskedImage ccdExp) biasMI) (\<lambda>mi.
     Inr (ccdExp\<lparr>getMaskedImage := mi\<rparr>)))))"

definition darkCorrection ::
  "isrLib \<Rightarrow> isrTask \<Rightarrow> geomExposure \<Rightarrow> butlerDataRef \<Rightarrow> isr_error + geomExposure" where
  "darkCorrection isr self exposure dataRef =
     rbind (dataRef_getitem dataRef ''dark'') (\<lambda>darkexposure.
     let darkScale = getExptime darkexposure;
         expScale = getExptime exposure in
     rbind (isr_darkCorrection isr (getMaskedImage exposure) (getMaskedImage darkexposure)
              expScale darkScale) (\<lambda>mi.
     Inr (exposure\<lparr>getMaskedImage := mi\<rparr>)))"

definition updateVariance ::
  "isrLib \<Rightarrow> isrTask \<Rightarrow> geomExposure \<Rightarrow> pyDetector \<Rightarrow> isr_error + geomExposure" where
  "updateVariance isr self exposure ccd =
     rbind (load_name [''self'', ''exposure'', ''ccd''] ''ccdExp'' exposure) (\<lambda>ccdExp.
     rbind (detector_getElectronicParams ccd) (\<lambda>ep.
     rbind (isr_updateVariance isr (getMaskedImage ccdExp) (getGain ep) (getReadNoise ep)) (\<lambda>mi.
     Inr (ccdExp\<lparr>getMaskedImage := mi\<rparr>))))"

definition flatCorrection ::
  "isrLib \<Rightarrow> isrTask \<Rightarrow> geomExposure \<Rightarrow> butlerDataRef \<Rightarrow> isr_error + geomExposure" where
  "flatCorrection isr self exposure dataRef =
     rbind (dataRef_getitem dataRef ''flat'') (\<lambda>flatfield.
     rbind (isr_flatCorrection isr (getMaskedImage exposure) (getMaskedImage flatfield)
              (flatScalingType (config self)) (flatUserScale (config self))) (\<lambda>mi.
     Inr (exposure\<lparr>getMaskedImage := mi\<rparr>)))"

definition saturationCorrection ::
  "isrLib \<Rightarrow> isrTask \<Rightarrow> geomExposure \<Rightarrow> pyDetector \<Rightarrow> isr_error + geomExposure" where
  "saturationCorrection isr self exposure detector =
     (if \<not> checkIsAmp detector then Inl (RuntimeError MustBeExecutedOnAmp)
      else
        let grow = growSaturationFootprintSize (config self);
            maskName = saturatedMaskName (config self) in
        rbind (detector_getElectronicParams detector) (\<lambda>ep.
        let satvalue = getSaturationLevel ep in
        rbind (isr_saturationCorrection isr (getMaskedImage exposure) satvalue
                 (fwhm (config self)) grow maskName) (\<lambda>mi.
        Inr (exposure\<lparr>getMaskedImage := mi\<rparr>))))"

definition saturationDetection ::
  "isrLib \<Rightarrow> isrTask \<Rightarrow> geomExposure \<Rightarrow> pyDetector \<Rightarrow> isr_error + geomExposure" where
  "saturationDetection isr self exposure detector =
     (if \<not> checkIsAmp detector then Inl (RuntimeError MustBeExecutedOnAmp)
      else
        rbind (detector_getElectronicParams detector) (\<lambda>ep.
        let satvalue = getSaturationLevel ep;
            maskName = saturatedMaskName (config self) in
        rbind (isr_makeThresholdMask isr (getMaskedImage exposure) satvalue 0 maskName) (\<lambda>mi.
        Inr (exposure\<lparr>getMaskedImage := mi\<rparr>))))"

definition saturationInterpolation ::
  "isrLib \<Rightarrow> isrTask \<Rightarrow> geomExposure \<Rightarrow> isr_error + geomExposure" where
  "saturationInterpolation isr self exposure =
     (let maskName = saturatedMaskName (config self);
          grow = growSaturationFootprintSize (config self) in
      if transposeForInterpolation self then
        rbind (isr_transposeMaskedImage isr (getMaskedImage exposure)) (\<lambda>mi.
        rbind (isr_interpolateFromMask isr mi (fwhm (config self)) grow maskName) (\<lambda>mi.
        rbind (isr_transposeMaskedImage isr mi) (\<lambda>mi.
        Inr (exposure\<lparr>getMaskedImage := mi\<rparr>))))
      else
        rbind (isr_interpolateFromMask isr (getMaskedImage exposure) (fwhm (config self))
                 grow maskName) (\<lambda>mi.
        Inr (exposure\<lparr>getMaskedImage := mi\<rparr>)))"

definition maskAndInterpDefect ::
  "isrLib \<Rightarrow> isrTask \<Rightarrow> geomExposure \<Rightarrow> pyDetector \<Rightarrow> isr_error + geomExposure" where
  "maskAndInterpDefect isr self exposure detector =
     (let grow = growDefectFootprintSize (config self) in
      rbind (detector_getDefects detector) (\<lambda>defectBaseList.
      let defectList = fold (\<lambda>d defectList. defectList @ [Defect (defect_getBBox d)])
                         defectBaseList [] in
      rbind (isr_maskPixelsFromDefectList isr (getMaskedImage exposure) defectList ''BAD'') (\<lambda>mi.
      rbind (isr_getDefectListFromMask isr mi ''BAD'' grow) (\<lambda>defectList.
      if transposeForInterpolation self then
        rbind (isr_transposeMaskedImage isr mi) (\<lambda>mi.
        rbind (isr_transposeDefectList isr defectList) (\<lambda>defectList.
        rbind (isr_interpolateDefectList isr mi defectList (fwhm (config self))) (\<lambda>mi.
        rbind (isr_transposeMaskedImage isr mi) (\<lambda>mi.
        Inr (exposure\<lparr>getMaskedImage := mi\<rparr>)))))
      else
        rbind (isr_interpolateDefectList isr mi defectList (fwhm (config self))) (\<lambda>mi.
        Inr (exposure\<lparr>getMaskedImage := mi\<rparr>))))))"

definition interpolateUnmaskedNans ::
  "isrLib \<Rightarrow> isrTask \<Rightarrow> geomExposure \<Rightarrow> isr_error + geomExposure" where
  "interpolateUnmaskedNans isr self exposure =
     (let grow = growDefectFootprintSize (config self) in
      rbind (isr_getDefectListFromMask isr (getMaskedImage exposure) ''UNMASKEDNAN'' grow)
        (\<lambda>undefects.
      if transposeForInterpolation self then
        rbind (isr_transposeMaskedImage isr (getMaskedImage exposure)) (\<lambda>mi.
        rbind (load_name [''self'', ''exposure'', ''fwhm'', ''grow'', ''unc'', ''nnans'',
                 ''undefects'', ''mi'', ''defectList''] ''uudefects'' undefects) (\<lambda>uudefects.
        rbind (isr_transposeDefectList isr uudefects) (\<lambda>defectList.
        rbind (isr_interpolateDefectList isr mi defectList (fwhm (config self))) (\<lambda>mi.
        rbind (isr_transposeMaskedImage isr mi) (\<lambda>mi.
        Inr (exposure\<lparr>getMaskedImage := mi\<rparr>))))))
      else
        rbind (load_name [''self'', ''exposure'', ''fwhm'', ''grow'', ''unc'', ''nnans'',
                 ''undefects'', ''mi'', ''defectList''] ''uudefects'' undefects) (\<lambda>uudefects.
        rbind (isr_interpolateDefectList isr (getMaskedImage exposure) uudefects
                 (fwhm (config self))) (\<lambda>mi.
        Inr (exposure\<lparr>getMaskedImage := mi\<rparr>)))))"

definition maskAndInterpNan ::
  "isrLib \<Rightarrow> isrTask \<Rightarrow> geomExposure \<Rightarrow> (isr_error + geomExposure) \<times> isrTask" where
  "maskAndInterpNan isr self exposure =
     (case rbind (addMaskPlane ''UNMASKEDNAN'' (getMaskedImage exposure))
             (UnmaskedNanCounterF_apply isr) of
        Inl e \<Rightarrow> (Inl e, self)
      | Inr (nnans, mi) \<Rightarrow>
          (let self' = self\<lparr>metadata := metadata_set ''NUMNANS'' nnans (metadata self)\<rparr>;
               exposure' = exposure\<lparr>getMaskedImage := mi\<rparr> in
           if \<not> nnans = 0 then (Inl (RuntimeError (UnmaskedNaNs nnans)), self')
           else if nnans > 0 then (interpolateUnmaskedNans isr self' exposure', self')
           else (Inr exposure', self')))"

definition overscanCorrection ::
  "isrLib \<Rightarrow> isrTask \<Rightarrow> geomExposure \<Rightarrow> pyDetector \<Rightarrow> isr_error + geomExposure" where
  "overscanCorrection isr self exposure detector =
     (if \<not> checkIsAmp detector then Inl (RuntimeError MustBeExecutedOnAmp)
      else
        let fittype = overscanFitType (config self);
            polyorder = overscanPolyOrder (config self) in
        rbind (detector_getDiskBiasSec detector) (\<lambda>biasSec.
        rbind (ImageFactory (defaultOrigin isr) (getMaskedImage exposure) biasSec) (\<lambda>overscan.
        rbind (isr_overscanCorrection isr (getMaskedImage exposure) overscan fittype polyorder)
          (\<lambda>mi.
        Inr (exposure\<lparr>getMaskedImage := mi\<rparr>)))))"

section \<open>The main method\<close>

fun ampLoop ::
  "isrLib \<Rightarrow> isrTask \<Rightarrow> ampData list \<Rightarrow> geomExposure \<Rightarrow> isr_error + geomExposure" where
  "ampLoop isr self [] ccdExp = Inr ccdExp"
| "ampLoop isr self (amp # amps) ccdExp =
     rbind (ExposureFactory (defaultOrigin isr) ccdExp (getDiskAllPixels amp)) (\<lambda>ampExp.
     let amp' = cast_Amp (getDetector ampExp) in
     rbind (saturationDetection isr self ampExp amp') (\<lambda>ampExp.
     rbind (overscanCorrection isr self ampExp amp') (\<lambda>ampExp.
     ampLoop isr self amps
       (ccdExp\<lparr>getMaskedImage :=
          paste (getMaskedImage ampExp) (getMaskedImage ccdExp)\<rparr>))))"

definition run_corrections ::
  "isrLib \<Rightarrow> isrTask \<Rightarrow> butlerDataRef \<Rightarrow> isr_error + geomExposure" where
  "run_corrections isr self sensorRef =
     rbind (dataRef_get sensorRef ''raw'') (\<lambda>ccdExp.
     let ccd = cast_Ccd (getDetector ccdExp) in
     rbind (isr_floatImageFromInt isr ccdExp) (\<lambda>ccdExp.
     rbind (iterate_detector ccd) (\<lambda>amps.
     rbind (ampLoop isr self amps ccdExp) (\<lambda>ccdExp.
     rbind (biasCorrection isr self ccdExp sensorRef) (\<lambda>ccdExp.
     rbind (darkCorrection isr self ccdExp sensorRef) (\<lambda>ccdExp.
     rbind (updateVariance isr self ccdExp ccd) (\<lambda>ccdExp.
     rbind (flatCorrection isr self ccdExp sensorRef) (\<lambda>ccdExp.
     rbind (assembleCcd_run isr ccdExp) (\<lambda>ccdExp.
     let ccd = cast_Ccd (getDetector ccdExp) in
     rbind (maskAndInterpDefect isr self ccdExp ccd) (\<lambda>ccdExp.
     saturationInterpolation isr self ccdExp))))))))))"

definition IsrTask_run ::
  "isrLib \<Rightarrow> isrTask \<Rightarrow> butlerDataRef \<Rightarrow>
   (isr_error + geomExposure) \<times> isrTask \<times> butlerDataRef" where
  "IsrTask_run isr self sensorRef =
     (let self1 = self\<lparr>tasklog := tasklog self @ [PerformingISR (dataId sensorRef)]\<rparr> in
      case run_corrections isr self1 sensorRef of
        Inl e \<Rightarrow> (Inl e, self1, sensorRef)
      | Inr ccdExp \<Rightarrow>
          (case maskAndInterpNan isr self1 ccdExp of
             (Inl e, self2) \<Rightarrow> (Inl e, self2, sensorRef)
           | (Inr ccdExp, self2) \<Rightarrow>
               (Inr ccdExp, self2,
                if doWrite (config self2) then dataRef_put ccdExp ''visitCCD'' sensorRef
                else sensorRef)))"

section \<open>What the methods leave alone, and the states a task can be in\<close>

definition same_calib :: "geomExposure \<Rightarrow> geomExposure \<Rightarrow> bool" where
  "same_calib e e' \<longleftrightarrow> getDetector e' = getDetector e \<and> getExptime e' = getExptime e"

text \<open>
  Only the constructor, \<open>run\<close> and \<open>maskAndInterpNan\<close> write attributes of the
  task object; \<open>reachable\<close> is the set of states they produce.
\<close>

inductive reachable :: "isrTask \<Rightarrow> bool" where
  init: "reachable (IsrTask_init c)"
| run: "reachable self \<Longrightarrow> reachable (fst (snd (IsrTask_run isr self sensorRef)))"
| nan: "reachable self \<Longrightarrow> reachable (snd (maskAndInterpNan isr self exposure))"

section \<open>A small sensor\<close>

definition ex_amp :: ampData where
  "ex_amp =
     \<lparr>getElectronicParams = \<lparr>getGain = 2, getReadNoise = 5, getSaturationLevel = Fin 9\<rparr>,
      getDiskAllPixels = Box2I (0, 0) (1, 2), getDiskBiasSec = Box2I (1, 0) (1, 2)\<rparr>"

definition ex_raw :: "pyDetector \<Rightarrow> geomExposure" where
  "ex_raw d = \<lparr>getMaskedImage = ex_image, getDetector = d, getExptime = Fin 30\<rparr>"

definition ex_sensorRef :: "pyDetector \<Rightarrow> butlerDataRef" where
  "ex_sensorRef d =
     \<lparr>dataId = ''visit=1 ccd=7'', datasets = [(''raw'', ex_raw d), (''dark'', ex_raw d)],
      persisted = []\<rparr>"

definition ex_ccd :: "ampData list \<Rightarrow> pyDetector" where
  "ex_ccd amps = Some (Ccd \<lparr>getAmps = amps, getDefects = [Defect (Box2I (1, 1) (1, 1))]\<rparr>)"

section \<open>Names and guards\<close>

lemma load_name_unbound:
  "name \<notin> set local_names \<Longrightarrow> name \<notin> set module_names \<Longrightarrow>
   load_name local_names name meant = Inl (NameError name)"
  by (simp add: load_name_def)

lemma load_name_bound:
  "name \<in> set local_names \<or> name \<in> set module_names \<Longrightarrow>
   load_name local_names name meant = Inr meant"
  by (auto simp: load_name_def)

lemma checkIsAmp_iff: "checkIsAmp d \<longleftrightarrow> (\<exists>a. d = Some (Amp a))"
  by (auto simp: checkIsAmp_def split: option.splits geomDetector.splits)

lemma checkIsAmp_simps [simp]:
  "checkIsAmp (Some (Amp a))" "\<not> checkIsAmp (Some (Ccd c))" "\<not> checkIsAmp None"
  by (simp_all add: checkIsAmp_def)

lemma checkIsAmp_cast [simp]:
  "checkIsAmp (cast_Amp d) = checkIsAmp d" "\<not> checkIsAmp (cast_Ccd d)"
  by (auto simp: checkIsAmp_iff cast_Amp_def cast_Ccd_def split: option.splits geomDetector.splits)

lemma amp_only_methods:
  assumes "\<not> checkIsAmp detector"
  shows "saturationCorrection isr self exposure detector = Inl (RuntimeError MustBeExecutedOnAmp) \<and>
     saturationDetection isr self exposure detector = Inl (RuntimeError MustBeExecutedOnAmp) \<and>
     overscanCorrection isr self exposure detector = Inl (RuntimeError MustBeExecutedOnAmp)"
  using assms
  by (simp add: saturationCorrection_def saturationDetection_def overscanCorrection_def)

lemma biasCorrection_raises [simp]:
  "biasCorrection isr self exposure dataRef = Inl (NameError ''sensorRef'')"
  by (simp add: biasCorrection_def load_name_def module_names_def)

lemma updateVariance_raises [simp]:
  "updateVariance isr self exposure ccd = Inl (NameError ''ccdExp'')"
  by (simp add: updateVariance_def load_name_def module_names_def)

section \<open>The main method, step by step\<close>

lemma run_corrections_raises: "raises (run_corrections isr self sensorRef)"
  unfolding run_corrections_def Let_def by (intro raises_rbindI) simp

lemma ampLoop_not_amp:
  assumes "\<not> checkIsAmp (getDetector ccdExp)"
  shows "ampLoop isr self (amp # amps) ccdExp =
     (if containsBox (imageBBox (getMaskedImage ccdExp))
           (toParent (defaultOrigin isr) (getXY0 (getMaskedImage ccdExp)) (getDiskAllPixels amp))
      then Inl (RuntimeError MustBeExecutedOnAmp) else Inl LengthError)"
  using assms
  by (simp add: ExposureFactory_def saturationDetection_def Let_def)

lemma run_unfold_raw:
  assumes "dataRef_get sensorRef ''raw'' = Inr raw"
    and "isr_floatImageFromInt isr raw = Inr ccdExp"
  shows "run_corrections isr self sensorRef =
     rbind (iterate_detector (cast_Ccd (getDetector raw))) (\<lambda>amps.
     rbind (ampLoop isr self amps ccdExp) (\<lambda>ccdExp. Inl (NameError ''sensorRef'')))"
  using assms by (simp add: run_corrections_def Let_def)

lemma run_corrections_outcome:
  assumes "keeps_detector isr"
    and "dataRef_get sensorRef ''raw'' = Inr raw"
    and "isr_floatImageFromInt isr raw = Inr ccdExp"
  shows "run_corrections isr self sensorRef =
     (case getDetector raw of
        Some (Ccd c) \<Rightarrow>
          (case getAmps c of
             [] \<Rightarrow> Inl (NameError ''sensorRef'')
           | amp # amps \<Rightarrow>
               if containsBox (imageBBox (getMaskedImage ccdExp))
                    (toParent (defaultOrigin isr) (getXY0 (getMaskedImage ccdExp))
                       (getDiskAllPixels amp))
               then Inl (RuntimeError MustBeExecutedOnAmp) else Inl LengthError)
      | _ \<Rightarrow> Inl (TypeError ''NoneType''))"
proof -
  from assms(1,3) have det: "getDetector ccdExp = getDetector raw"
    by (simp add: keeps_detector_def)
  show ?thesis
  proof (cases "getDetector raw")
    case None
    then show ?thesis by (simp add: run_unfold_raw [OF assms(2,3)])
  next
    case (Some g)
    show ?thesis
    proof (cases g)
      case (Amp a)
      with Some show ?thesis by (simp add: run_unfold_raw [OF assms(2,3)])
    next
      case (Ccd c)
      with Some det have "\<not> checkIsAmp (getDetector ccdExp)" by simp
      with Some Ccd show ?thesis
        by (cases "getAmps c")
          (simp_all add: run_unfold_raw [OF assms(2,3)] ampLoop_not_amp del: ampLoop.simps(2))
    qed
  qed
qed

lemma run_corrections_cong:
  assumes "keeps_detector isr"
    and "isr_floatImageFromInt isr' = isr_floatImageFromInt isr"
    and "defaultOrigin isr' = defaultOrigin isr"
  shows "run_corrections isr' self sensorRef = run_corrections isr self sensorRef"
proof (cases "dataRef_get sensorRef ''raw''")
  case (Inl e)
  then show ?thesis by (simp add: run_corrections_def)
next
  case (Inr raw)
  from assms(1,2) have k': "keeps_detector isr'" by (simp add: keeps_detector_def)
  show ?thesis
  proof (cases "isr_floatImageFromInt isr raw")
    case (Inl e)
    with Inr assms(2) show ?thesis by (simp add: run_corrections_def)
  next
    case conv: (Inr ccdExp)
    with assms(2) have conv': "isr_floatImageFromInt isr' raw = Inr ccdExp" by simp
    show ?thesis
      unfolding run_corrections_outcome [OF assms(1) Inr conv]
        run_corrections_outcome [OF k' Inr conv'] assms(3) ..
  qed
qed

lemma run_corrections_self:
  assumes "keeps_detector isr"
  shows "run_corrections isr self' sensorRef = run_corrections isr self sensorRef"
proof (cases "dataRef_get sensorRef ''raw''")
  case (Inl e)
  then show ?thesis by (simp add: run_corrections_def)
next
  case (Inr raw)
  show ?thesis
  proof (cases "isr_floatImageFromInt isr raw")
    case (Inl e)
    with Inr show ?thesis by (simp add: run_corrections_def)
  next
    case conv: (Inr ccdExp)
    show ?thesis unfolding run_corrections_outcome [OF assms Inr conv] ..
  qed
qed

lemma IsrTask_run_fst:
  "fst (IsrTask_run isr self sensorRef) =
     run_corrections isr (self\<lparr>tasklog := tasklog self @ [PerformingISR (dataId sensorRef)]\<rparr>)
       sensorRef"
  using run_corrections_raises
    [of isr "self\<lparr>tasklog := tasklog self @ [PerformingISR (dataId sensorRef)]\<rparr>" sensorRef]
  by (auto simp: IsrTask_run_def Let_def raises_iff)

lemma IsrTask_run_task:
  "fst (snd (IsrTask_run isr self sensorRef)) =
     self\<lparr>tasklog := tasklog self @ [PerformingISR (dataId sensorRef)]\<rparr>"
  "snd (snd (IsrTask_run isr self sensorRef)) = sensorRef"
  using run_corrections_raises
    [of isr "self\<lparr>tasklog := tasklog self @ [PerformingISR (dataId sensorRef)]\<rparr>" sensorRef]
  by (auto simp: IsrTask_run_def Let_def raises_iff)

lemma IsrTask_run_uses_only_conversion:
  assumes "keeps_detector isr"
    and "isr_floatImageFromInt isr' = isr_floatImageFromInt isr"
    and "defaultOrigin isr' = defaultOrigin isr"
  shows "IsrTask_run isr' self sensorRef = IsrTask_run isr self sensorRef"
  by (rule prod_eqI) (simp_all add: IsrTask_run_fst IsrTask_run_task
      run_corrections_cong [OF assms] prod_eq_iff)

lemma IsrTask_run_load_errors:
  assumes "rbind (dataRef_get sensorRef ''raw'') (isr_floatImageFromInt isr) = Inl e"
  shows "fst (IsrTask_run isr self sensorRef) = Inl e \<and>
     (map_of (datasets sensorRef) ''raw'' = None \<longrightarrow> e = NoResults ''raw'')"
  using assms
  by (auto simp: IsrTask_run_fst run_corrections_def dataRef_get_def
      split: option.splits rbind_splits)

section \<open>Masking of NaN pixels, defects and saturated pixels\<close>

lemma maskAndInterpNan_unfold:
  "maskAndInterpNan isr self exposure =
     (case rbind (addMaskPlane ''UNMASKEDNAN'' (getMaskedImage exposure))
             (UnmaskedNanCounterF_apply isr) of
        Inl e \<Rightarrow> (Inl e, self)
      | Inr (nnans, mi) \<Rightarrow>
          (if nnans = 0 then Inr (exposure\<lparr>getMaskedImage := mi\<rparr>)
           else Inl (RuntimeError (UnmaskedNaNs nnans)),
           self\<lparr>metadata := metadata_set ''NUMNANS'' nnans (metadata self)\<rparr>))"
  by (simp add: maskAndInterpNan_def Let_def split: sum.splits prod.splits)

lemma maskAndInterpNan_task:
  "config (snd (maskAndInterpNan isr self exposure)) = config self"
  "transposeForInterpolation (snd (maskAndInterpNan isr self exposure)) =
     transposeForInterpolation self"
  "tasklog (snd (maskAndInterpNan isr self exposure)) = tasklog self"
  by (simp_all add: maskAndInterpNan_unfold split: sum.splits prod.splits)

lemma copy_defects:
  "fold (\<lambda>d defectList. defectList @ [Defect (defect_getBBox d)]) ds acc = acc @ ds"
proof (induction ds arbitrary: acc)
  case Nil
  show ?case by simp
next
  case (Cons d ds)
  then show ?case by (cases d) simp
qed

lemma maskAndInterpDefect_unfold:
  assumes "\<not> transposeForInterpolation self"
  shows "maskAndInterpDefect isr self exposure detector =
     rbind (detector_getDefects detector) (\<lambda>defects.
     rbind (isr_maskPixelsFromDefectList isr (getMaskedImage exposure) defects ''BAD'') (\<lambda>mi.
     rbind (isr_getDefectListFromMask isr mi ''BAD'' (growDefectFootprintSize (config self)))
       (\<lambda>defectList.
     rbind (isr_interpolateDefectList isr mi defectList (fwhm (config self))) (\<lambda>mi.
     Inr (exposure\<lparr>getMaskedImage := mi\<rparr>)))))"
  using assms by (simp add: maskAndInterpDefect_def Let_def copy_defects)

lemma saturationInterpolation_unfold:
  assumes "\<not> transposeForInterpolation self"
  shows "saturationInterpolation isr self exposure =
     rbind (isr_interpolateFromMask isr (getMaskedImage exposure) (fwhm (config self))
              (growSaturationFootprintSize (config self)) (saturatedMaskName (config self)))
       (\<lambda>mi. Inr (exposure\<lparr>getMaskedImage := mi\<rparr>))"
  using assms by (simp add: saturationInterpolation_def Let_def)

section \<open>Invariants of the task object\<close>

lemma methods_keep_calib:
  "(darkCorrection isr self exposure dataRef = Inr e' \<longrightarrow> same_calib exposure e') \<and>
   (flatCorrection isr self exposure dataRef = Inr e' \<longrightarrow> same_calib exposure e') \<and>
   (saturationCorrection isr self exposure detector = Inr e' \<longrightarrow> same_calib exposure e') \<and>
   (saturationDetection isr self exposure detector = Inr e' \<longrightarrow> same_calib exposure e') \<and>
   (overscanCorrection isr self exposure detector = Inr e' \<longrightarrow> same_calib exposure e') \<and>
   (saturationInterpolation isr self exposure = Inr e' \<longrightarrow> same_calib exposure e') \<and>
   (maskAndInterpDefect isr self exposure detector = Inr e' \<longrightarrow> same_calib exposure e') \<and>
   (fst (maskAndInterpNan isr self exposure) = Inr e' \<longrightarrow> same_calib exposure e')"
  by (auto simp: darkCorrection_def flatCorrection_def saturationCorrection_def
      saturationDetection_def overscanCorrection_def saturationInterpolation_def
      maskAndInterpDefect_def maskAndInterpNan_unfold same_calib_def Let_def rbind_eq_Inr_iff
      split: if_splits sum.splits prod.splits)

lemma reachable_flag: "reachable self \<Longrightarrow> \<not> transposeForInterpolation self"
  by (induction rule: reachable.induct)
    (simp_all add: IsrTask_init_def IsrTask_run_task maskAndInterpNan_task)

lemma reachable_metadata:
  "reachable self \<Longrightarrow>
   distinct (map fst (metadata self)) \<and> fst ` set (metadata self) \<subseteq> {''NUMNANS''}"
proof (induction rule: reachable.induct)
  case (init c)
  show ?case by (simp add: IsrTask_init_def)
next
  case (run self isr sensorRef)
  then show ?case by (simp add: IsrTask_run_task)
next
  case (nan self isr exposure)
  then show ?case
    by (auto simp: maskAndInterpNan_unfold metadata_set_distinct metadata_set_keys
        split: sum.splits prod.splits)
qed

section \<open>Evaluating closed instances\<close>

lemmas isr_eval [isr_defs] =
  ex_amp_def ex_raw_def ex_sensorRef_def ex_ccd_def ex_image_def idle_isr_def
  IsrTask_init_def IsrTaskConfig_def dataRef_get_def dataRef_getitem_def dataRef_put_def
  toParent_def imageBBox_def imageWidth_def imageHeight_def plane_width_def plane_height_def
  containsBox_def isEmpty_def Box2I_def unmasked_nans_def zip_plane_def
  defaultMaskPlaneDict_def metadata_set_def

lemma ex_addMaskPlane:
  "addMaskPlane ''UNMASKEDNAN'' ex_image =
     Inr (ex_image\<lparr>getMaskPlaneDict := defaultMaskPlaneDict @ [(''UNMASKEDNAN'', 9)]\<rparr>)"
  by (simp add: addMaskPlane_def ex_image_def defaultMaskPlaneDict_def upt_rec)

section \<open>Properties of the task\<close>

text \<open>
  Property C4 (error).  \<open>IsrTask.run\<close> never returns a result.  Whatever
  the data reference holds and whatever the library does, it raises; the only
  lasting effect is the INFO record in the log: the metadata of the task is
  not written and nothing is persisted through the data reference, although
  \<open>doWrite\<close> is true by default.
\<close>

theorem IsrTask_run_never_succeeds:
  "\<exists>e. IsrTask_run isr self sensorRef =
     (Inl e, self\<lparr>tasklog := tasklog self @ [PerformingISR (dataId sensorRef)]\<rparr>, sensorRef)"
  using run_corrections_raises
    [of isr "self\<lparr>tasklog := tasklog self @ [PerformingISR (dataId sensorRef)]\<rparr>" sensorRef]
  by (auto simp: IsrTask_run_def Let_def raises_iff)

theorem IsrTask_run_never_succeeds_witness:
  "IsrTask_run idle_isr (IsrTask_init IsrTaskConfig) (ex_sensorRef (ex_ccd [])) =
     (Inl (NameError ''sensorRef''),
      (IsrTask_init IsrTaskConfig)\<lparr>tasklog := [PerformingISR ''visit=1 ccd=7'']\<rparr>,
      ex_sensorRef (ex_ccd []))"
  using IsrTask_run_never_succeeds [of idle_isr "IsrTask_init IsrTaskConfig" "ex_sensorRef (ex_ccd [])"]
  by (simp add: IsrTask_run_def run_corrections_def Let_def isr_eval)

text \<open>
  Property C8 (error).  With a library whose conversion to floating point
  keeps the detector of the exposure, the exception \<open>run\<close> raises once the raw
  exposure is loaded and converted is determined by the detector alone:
  \<open>TypeError\<close> when it is not a CCD (the loop iterates over \<open>None\<close>);
  \<open>NameError\<close> for \<open>sensorRef\<close>, in \<open>biasCorrection\<close>, when the CCD has no
  amplifier; otherwise the first amplifier fails, with \<open>LengthError\<close> when its
  region is not inside the image and else with the \<open>RuntimeError\<close> of
  \<open>saturationDetection\<close>, because the sub-exposure carries the CCD and the
  cast to an amplifier gives \<open>None\<close>.
\<close>

theorem IsrTask_run_outcome:
  assumes "keeps_detector isr"
    and "dataRef_get sensorRef ''raw'' = Inr raw"
    and "isr_floatImageFromInt isr raw = Inr ccdExp"
  shows "fst (IsrTask_run isr self sensorRef) =
     (case getDetector raw of
        Some (Ccd c) \<Rightarrow>
          (case getAmps c of
             [] \<Rightarrow> Inl (NameError ''sensorRef'')
           | amp # amps \<Rightarrow>
               if containsBox (imageBBox (getMaskedImage ccdExp))
                    (toParent (defaultOrigin isr) (getXY0 (getMaskedImage ccdExp))
                       (getDiskAllPixels amp))
               then Inl (RuntimeError MustBeExecutedOnAmp) else Inl LengthError)
      | _ \<Rightarrow> Inl (TypeError ''NoneType''))"
  unfolding IsrTask_run_fst by (rule run_corrections_outcome [OF assms])

theorem IsrTask_run_outcome_witness:
  "fst (IsrTask_run idle_isr (IsrTask_init IsrTaskConfig) (ex_sensorRef (ex_ccd [ex_amp]))) =
     Inl (RuntimeError MustBeExecutedOnAmp) \<and>
   fst (IsrTask_run idle_isr (IsrTask_init IsrTaskConfig)
          (ex_sensorRef (ex_ccd [ex_amp\<lparr>getDiskAllPixels := Box2I (0, 0) (3, 2)\<rparr>]))) =
     Inl LengthError \<and>
   fst (IsrTask_run idle_isr (IsrTask_init IsrTaskConfig) (ex_sensorRef (Some (Amp ex_amp)))) =
     Inl (TypeError ''NoneType'')"
  using IsrTask_run_outcome [OF idle_keeps_detector, of "ex_sensorRef (ex_ccd [ex_amp])"
      "ex_raw (ex_ccd [ex_amp])" "ex_raw (ex_ccd [ex_amp])" "IsrTask_init IsrTaskConfig"]
    IsrTask_run_outcome [OF idle_keeps_detector, of
      "ex_sensorRef (ex_ccd [ex_amp\<lparr>getDiskAllPixels := Box2I (0, 0) (3, 2)\<rparr>])"
      "ex_raw (ex_ccd [ex_amp\<lparr>getDiskAllPixels := Box2I (0, 0) (3, 2)\<rparr>])"
      "ex_raw (ex_ccd [ex_amp\<lparr>getDiskAllPixels := Box2I (0, 0) (3, 2)\<rparr>])"
      "IsrTask_init IsrTaskConfig"]
    IsrTask_run_outcome [OF idle_keeps_detector, of "ex_sensorRef (Some (Amp ex_amp))"
      "ex_raw (Some (Amp ex_amp))" "ex_raw (Some (Amp ex_amp))" "IsrTask_init IsrTaskConfig"]
  by (simp add: isr_eval)

text \<open>
  Property C33 (error).  \<open>biasCorrection\<close> and \<open>updateVariance\<close> read names
  that are neither parameters nor module globals (\<open>sensorRef\<close>, \<open>ccdExp\<close>):
  each raises \<open>NameError\<close> on every call, before it reads an argument or calls
  the library.
\<close>

theorem name_errors:
  "biasCorrection isr self exposure dataRef = Inl (NameError ''sensorRef'') \<and>
   updateVariance isr self exposure ccd = Inl (NameError ''ccdExp'')"
  by (simp add: biasCorrection_def updateVariance_def load_name_def module_names_def)

theorem name_errors_witness:
  "biasCorrection idle_isr (IsrTask_init IsrTaskConfig) (ex_raw None) (ex_sensorRef None) =
     Inl (NameError ''sensorRef'') \<and>
   updateVariance idle_isr (IsrTask_init IsrTaskConfig) (ex_raw None) (Some (Amp ex_amp)) =
     Inl (NameError ''ccdExp'')"
  using name_errors [of idle_isr "IsrTask_init IsrTaskConfig" "ex_raw None" "ex_sensorRef None"
      "Some (Amp ex_amp)"]
  by simp

text \<open>
  Property C9 (functional).  With a counter that reports the number of NaN
  pixels carrying no mask bit, and room for one more mask plane,
  \<open>maskAndInterpNan\<close> records that number under \<open>NUMNANS\<close> in the metadata in
  every case, returns the exposure with its detector and calibration when
  the number is zero, and raises the \<open>RuntimeError\<close> that reports the number
  otherwise.
\<close>

theorem maskAndInterpNan_contract:
  assumes "counts_unmasked_nans isr"
    and "length (getMaskPlaneDict (getMaskedImage exposure)) < 16"
  shows "map_of (metadata (snd (maskAndInterpNan isr self exposure))) ''NUMNANS'' =
       Some (int (unmasked_nans (getMaskedImage exposure))) \<and>
     (unmasked_nans (getMaskedImage exposure) = 0 \<longrightarrow>
        (\<exists>e'. fst (maskAndInterpNan isr self exposure) = Inr e' \<and> same_calib exposure e')) \<and>
     (unmasked_nans (getMaskedImage exposure) \<noteq> 0 \<longrightarrow>
        fst (maskAndInterpNan isr self exposure) =
          Inl (RuntimeError (UnmaskedNaNs (int (unmasked_nans (getMaskedImage exposure))))))"
proof -
  from addMaskPlane_room [OF assms(2)] obtain mi0 :: maskedImage
    where mi0: "(addMaskPlane ''UNMASKEDNAN'' (getMaskedImage exposure)
                   :: isr_error + maskedImage) = Inr mi0"
    by blast
  from assms(1) obtain mi where
    "UnmaskedNanCounterF_apply isr mi0 = Inr (int (unmasked_nans mi0), mi)"
    by (rule counts_unmasked_nansD)
  with mi0 show ?thesis
    by (simp add: maskAndInterpNan_unfold unmasked_nans_addMaskPlane [OF mi0] same_calib_def)
qed

theorem maskAndInterpNan_contract_witness:
  "maskAndInterpNan idle_isr (IsrTask_init IsrTaskConfig) (ex_raw None) =
     (Inl (RuntimeError (UnmaskedNaNs 1)),
      (IsrTask_init IsrTaskConfig)\<lparr>metadata := [(''NUMNANS'', 1)]\<rparr>)"
  using maskAndInterpNan_contract [OF idle_counts_unmasked_nans, of "ex_raw None"
      "IsrTask_init IsrTaskConfig"]
  by (simp add: maskAndInterpNan_unfold ex_raw_def ex_addMaskPlane)
    (simp add: isr_eval)

text \<open>
  Property C34 (equivalence).  \<open>maskAndInterpNan\<close> never interpolates: the
  branch that would is guarded by \<open>nnans > 0\<close> after the method has raised
  for every count other than zero.  Replacing the four routines of that
  branch by any others changes nothing of what the method returns or writes.
\<close>

theorem maskAndInterpNan_never_interpolates:
  "maskAndInterpNan
     (isr\<lparr>isr_getDefectListFromMask := g, isr_transposeMaskedImage := t,
          isr_transposeDefectList := td, isr_interpolateDefectList := i\<rparr>) self exposure =
   maskAndInterpNan isr self exposure"
  by (simp add: maskAndInterpNan_unfold)

theorem maskAndInterpNan_never_interpolates_witness:
  "maskAndInterpNan
     (idle_isr\<lparr>isr_getDefectListFromMask := (\<lambda>mi n g. Inl LengthError),
               isr_transposeMaskedImage := (\<lambda>mi. Inl LengthError),
               isr_transposeDefectList := (\<lambda>ds. Inl LengthError),
               isr_interpolateDefectList := (\<lambda>mi ds f. Inl LengthError)\<rparr>)
     (IsrTask_init IsrTaskConfig) (ex_raw None) =
   (Inl (RuntimeError (UnmaskedNaNs 1)),
    (IsrTask_init IsrTaskConfig)\<lparr>metadata := [(''NUMNANS'', 1)]\<rparr>)"
  using maskAndInterpNan_never_interpolates [where isr = idle_isr
      and g = "\<lambda>mi n g. Inl LengthError" and t = "\<lambda>mi. Inl LengthError"
      and td = "\<lambda>ds. Inl LengthError" and i = "\<lambda>mi ds f. Inl LengthError"
      and self = "IsrTask_init IsrTaskConfig" and exposure = "ex_raw None"]
  by (simp add: maskAndInterpNan_unfold ex_raw_def ex_addMaskPlane)
    (simp add: isr_eval)

text \<open>
  Property C40 (invariant).  \<open>transposeForInterpolation\<close> is false in every
  state a task can reach through its constructor, \<open>run\<close> and
  \<open>maskAndInterpNan\<close>; hence \<open>saturationInterpolation\<close> and
  \<open>maskAndInterpDefect\<close> never call the two transposition routines: replacing
  them changes nothing.
\<close>

theorem never_transposes:
  assumes "reachable self"
  shows "saturationInterpolation
       (isr\<lparr>isr_transposeMaskedImage := t, isr_transposeDefectList := td\<rparr>) self exposure =
     saturationInterpolation isr self exposure \<and>
   maskAndInterpDefect
       (isr\<lparr>isr_transposeMaskedImage := t, isr_transposeDefectList := td\<rparr>) self exposure detector =
     maskAndInterpDefect isr self exposure detector"
  using reachable_flag [OF assms]
  by (simp add: saturationInterpolation_unfold maskAndInterpDefect_unfold)

theorem never_transposes_witness:
  "saturationInterpolation
     (idle_isr\<lparr>isr_transposeMaskedImage := (\<lambda>mi. Inl LengthError),
               isr_transposeDefectList := (\<lambda>ds. Inl LengthError)\<rparr>)
     (IsrTask_init IsrTaskConfig) (ex_raw None) = Inr (ex_raw None)"
  using never_transposes [where isr = idle_isr and t = "\<lambda>mi. Inl LengthError"
      and td = "\<lambda>ds. Inl LengthError" and exposure = "ex_raw None" and detector = None,
      OF reachable.init [of IsrTaskConfig]]
  by (simp add: saturationInterpolation_def isr_eval)

text \<open>
  Property C39 (safety).  No field of the configuration has any influence on
  \<open>run\<close>: with a conversion that keeps the detector, running a task with
  another configuration gives the same exception and the same data
  reference, and the task differs in its configuration only.  In particular
  \<open>doWrite\<close> is never consulted, as \<open>run\<close> raises before it gets there.
\<close>

theorem IsrTask_run_ignores_config:
  assumes "keeps_detector isr"
  shows "IsrTask_run isr (self\<lparr>config := c\<rparr>) sensorRef =
     (case IsrTask_run isr self sensorRef of
        (result, self', sensorRef') \<Rightarrow> (result, self'\<lparr>config := c\<rparr>, sensorRef'))"
  by (rule prod_eqI)
    (simp_all add: split_def IsrTask_run_fst IsrTask_run_task run_corrections_self [OF assms]
      prod_eq_iff)

theorem IsrTask_run_ignores_config_witness:
  "fst (IsrTask_run idle_isr
          (IsrTask_init (IsrTaskConfig\<lparr>doWrite := False, saturatedMaskName := ''BAD''\<rparr>))
          (ex_sensorRef (ex_ccd [ex_amp]))) =
   fst (IsrTask_run idle_isr (IsrTask_init IsrTaskConfig) (ex_sensorRef (ex_ccd [ex_amp])))"
  using IsrTask_run_ignores_config [OF idle_keeps_detector,
      where self = "IsrTask_init IsrTaskConfig"
        and c = "IsrTaskConfig\<lparr>doWrite := False, saturatedMaskName := ''BAD''\<rparr>"
        and sensorRef = "ex_sensorRef (ex_ccd [ex_amp])"]
  by (simp add: IsrTask_init_def split_def)

end
