(* ===== verification/IsrAmpLoop.thy ===== *)
theory IsrAmpLoop
  imports IsrTask
begin

text \<open>
  The loop of \<open>IsrTask.run\<close> over the amplifiers, taken by itself: each
  amplifier's region of the exposure is handed as a view to the saturation
  detection and the overscan correction, and what they leave in the view is
  part of the exposure.

  \<^item> \<open>ampBody\<close> is the body of the loop for one amplifier; \<open>ampLoop\<close> of
    theory \<open>IsrTask\<close> is the loop (\<open>ampLoop_Cons\<close>).
  \<^item> \<open>amp_region\<close> is the region of an amplifier in the frame of the
    exposure; \<open>amp_regions_ok\<close> says that it and the overscan region inside it
    lie in the image.
  \<^item> \<open>shape_preserving\<close> is a law of the library interface: the two routines
    the loop calls return a well-formed image with the bounding box of the
    one they were given (\<open>keeps_shape\<close> of theory \<open>AfwImage\<close>).  \<open>agree_at\<close> compares two masked images at a pixel.
  \<^item> \<open>ex_marking_isr\<close> is a library whose threshold routine sets a mask
    bit in every pixel of the view; it obeys the law and is used for a
    closed instance.
\<close>

unbundle bit_operations_syntax

section \<open>Laws and regions\<close>

definition shape_preserving :: "isrLib \<Rightarrow> bool" where
  "shape_preserving isr \<longleftrightarrow>
     (\<forall>mi s g n mi'. wf_image mi \<longrightarrow> isr_makeThresholdMask isr mi s g n = Inr mi' \<longrightarrow>
        keeps_shape mi mi') \<and>
     (\<forall>mi b f p mi'. wf_image mi \<longrightarrow> isr_overscanCorrection isr mi b f p = Inr mi' \<longrightarrow>
        keeps_shape mi mi')"

definition amp_region :: "imageOrigin \<Rightarrow> maskedImage \<Rightarrow> ampData \<Rightarrow> box2i" where
  "amp_region org mi amp = toParent org (getXY0 mi) (getDiskAllPixels amp)"


section \<open>One amplifier\<close>


section \<open>Comparing images, and two libraries\<close>


definition ex_marking_isr :: isrLib where
  "ex_marking_isr =
     idle_isr\<lparr>isr_makeThresholdMask :=
       (\<lambda>mi saturation growFootprints maskName.
          Inr (mi\<lparr>getMask := map (map (\<lambda>m. m OR 2)) (getMask mi)\<rparr>))\<rparr>"


section \<open>The body of the loop\<close>




section \<open>What the loop leaves alone\<close>


lemma amp_region_cong [simp]:
  "amp_region org (paste sub mi) amp = amp_region org mi amp"
  by (simp add: amp_region_def)


section \<open>A library that leaves the views alone\<close>

lemma idle_shape_preserving [simp]: "shape_preserving (idle_isr\<lparr>defaultOrigin := org\<rparr>)"
  by (simp add: shape_preserving_def keeps_shape_def idle_isr_def)


section \<open>A library that marks the view\<close>

lemma ex_marking_origin [simp]: "defaultOrigin ex_marking_isr = PARENT"
  by (simp add: ex_marking_isr_def idle_isr_def)



section \<open>Properties of the loop\<close>





end
