(* ===== verification/Spec2Isabelle.thy ===== *)
theory Spec2Isabelle
  imports StoreTest LinearizeSteps LinearizePixels LinearizeCoords LinearizeContract IsrAmpStore
begin

text \<open>
  A verification development for \<open>ip_isr\<close>, the instrument signature removal
  package: the two pipeline tasks of \<open>python/lsst/ip/isr\<close>, modelled as
  functions of Isabelle/HOL, with the theorems that state what they do.

  \<^bold>\<open>The program.\<close>  \<open>proportionalLinearize.py\<close> holds
  \<open>ProportionalLinearizeTask\<close>, which corrects an exposure for detector
  non-linearity, amplifier by amplifier, in place.  \<open>isrTask.py\<close> holds
  \<open>IsrTaskConfig\<close> and \<open>IsrTask\<close>, which sequences the corrections of a raw
  exposure through routines of a numeric library that is not part of the
  repository.  The two tasks do not call each other; both work on the
  exposures, masked images, boxes and detectors of the host framework.
  \<open>tests/testProportionalLinearityTask.py\<close> is the unit test of the first
  task.

  \<^bold>\<open>The theories.\<close>
  \<^item> \<open>ISR_Prelude\<close>: the result type of a call that may raise (\<open>rbind\<close> on a
    sum, \<open>raises\<close>), planes of pixels addressed by integer coordinates
    (\<open>map_plane\<close>, \<open>pixel\<close>, \<open>rect\<close>), and the collections \<open>isr_defs\<close>,
    \<open>isr_frame\<close>, \<open>isr_wf\<close> that the component proofs draw on.
  \<^item> \<open>PyValues\<close>: Python floats as \<open>pyfloat\<close> (a real or NaN) with the
    comparisons of Python, and exceptions as the datatype \<open>error\<close>.
  \<^item> \<open>AfwGeom\<close>, \<open>AfwImage\<close>, \<open>CameraGeom\<close>: the framework objects the tasks
    read and write: boxes, masked images with their mask plane dictionary,
    views of a parent image (\<open>update_box\<close>, \<open>crop\<close>, \<open>paste\<close>), the detector
    of the newer interface (a list of amplifiers with linearity
    coefficients) and of the older one (\<open>Amp\<close> or \<open>Ccd\<close>).  The framework is
    outside the repository; these are modelled from the way the sources and
    the unit test use them.
  \<^item> \<open>ProportionalLinearize\<close>: \<open>doCorrect\<close> and \<open>ProportionalLinearizeTask_run\<close>
    (methods \<open>doCorrect\<close> and \<open>run\<close>), with \<open>linearizeAmp\<close> for the body of the
    loop of \<open>run\<close> and \<open>linearizeAmps\<close> for the loop; the documented model
    of the class as \<open>corrected\<close>, \<open>flagged\<close>, \<open>ampSpec\<close>, \<open>linearizeSpec\<close>.
  \<^item> \<open>LinearizeContract\<close>: the contract of \<open>run\<close> on every well-formed
    exposure: \<open>amp_fault\<close> for the exception an amplifier makes the body of
    the loop raise, \<open>runSpec\<close> for the first fault and the documented model
    up to it.
  \<^item> \<open>LinearizePixels\<close>: the documented model read pixel by pixel:
    \<open>amp_pixel\<close> for one pixel and one amplifier, \<open>pixel_through\<close> for one
    pixel and the amplifiers of a detector, \<open>pixelSpec\<close> for the image; the
    loop over the amplifiers with the loop over the pixels outside.
  \<^item> \<open>LinearizeCoords\<close>: moving an exposure in its coordinate frame
    (\<open>shift\<close>, \<open>move_image\<close>, \<open>move_detector\<close>, \<open>move_exposure\<close>).
  \<^item> \<open>LinearizeSteps\<close>: \<open>run\<close> once more, as the step relation \<open>run_step\<close> over
    its control points \<open>runState\<close> (before the decision, in the loop,
    returned, raised), with the step function \<open>run_next\<close> and its iteration
    \<open>run_steps\<close>, so that the states between two amplifiers exist in the
    model.
  \<^item> \<open>ImageStore\<close>: \<open>run\<close> a third time, on objects: a store of pixel
    buffers, a masked image as a reference \<open>imageRef\<close> (a buffer and a
    window on it), \<open>view_ref\<close> and \<open>deepCopy\<close> for the two constructors the
    sources use, and \<open>run_st\<close> with \<open>linearizeAmps_st\<close>, \<open>linearizeAmp_st\<close>,
    \<open>FootprintSet_st\<close>, \<open>scaleImage_st\<close> writing the store.
  \<^item> \<open>StoreTest\<close>: the unit test on the store: \<open>setUp_st\<close>,
    \<open>testBasicCorrection_st\<close>, which assigns to the arrays of the image in
    place (\<open>write_ref\<close>), and \<open>testNoCorrection_st\<close>, which takes the deep copy.
  \<^item> \<open>LinearizeTest\<close>: the unit test: \<open>makeSimpleDetector\<close>, \<open>setUp\<close>, and the
    test cases \<open>testBasicCorrection\<close> and \<open>testNoCorrection\<close> as booleans; the
    whole-array expressions the test expects as \<open>uniformSpec\<close>.
  \<^item> \<open>IsrConfig\<close>: the record \<open>isrTaskConfig\<close>, its defaults
    \<open>IsrTaskConfig\<close> and the validation of its two choice fields.
  \<^item> \<open>IsrLib\<close>: the interface \<open>isrLib\<close> of the numeric library, one field per
    routine \<open>IsrTask\<close> calls; the data reference; the library \<open>idle_isr\<close>
    used for closed instances.
  \<^item> \<open>IsrTask\<close>: the task object \<open>isrTask\<close>, one definition per method of
    \<open>IsrTask\<close> under the method's name, \<open>ampLoop\<close> and \<open>run_corrections\<close> for
    the parts of \<open>run\<close>, and \<open>IsrTask_run\<close> for \<open>run\<close>.
  \<^item> \<open>IsrAmpLoop\<close>: the loop of \<open>IsrTask.run\<close> over the amplifiers by itself:
    its body \<open>ampBody\<close>, the regions it views, and the law \<open>shape_preserving\<close>
    of the library under which it is confined to them.
  \<^item> \<open>IsrAmpStore\<close>: that loop on the store, with sub-exposures that are
    views (\<open>ampBody_st\<close>, \<open>ampLoop_st\<close>).
  \<^item> This theory: the two test cases, and what the tasks promise each other
    about the mask.

  \<^bold>\<open>State and effects.\<close>  The sources update their exposure in place.  A
  method is modelled as a function that returns the updated exposure; where
  the update can be interrupted by an exception of the method itself
  (\<open>ProportionalLinearizeTask.run\<close>), the exposure is returned beside the
  exception, so that the partial update is part of the result.  An exception
  is a value \<open>Inl e\<close> of the result.  Log records, task metadata and writes
  through the data reference are lists in the state that is passed along.
  Loops over amplifiers are structural recursions over the list of
  amplifiers, so every definition is total and can be evaluated.  The loop
  of \<open>ProportionalLinearizeTask.run\<close> is modelled a second time as a step
  relation; there a step of the loop is one whole iteration, because the
  body raises, if at all, before it writes a pixel.  The relation needs no
  fuel: \<open>fuel\<close> is the measure that proves it terminates, the number of
  amplifiers still to come plus the steps around the loop, and \<open>run_steps\<close>
  run that many times reaches the end (\<open>start_steps\<close>).
  Where a claim depends on which objects share pixels, the exposure is a
  reference into a store (a list of buffers addressed by position): a view
  has the buffer of its parent, a deep copy a new one, and what an object
  shows is \<open>deref\<close>, the crop of its buffer to its window.  A method that
  updates its exposure in place is then \<open>method_st\<close> of the function on
  values it computes: the masked image that function returns is written
  through the reference.

  \<^bold>\<open>What the theorems show.\<close>
  \<^item> For \<open>ProportionalLinearizeTask\<close>: \<open>run\<close> implements the documented model
    (\<open>run_implements_model\<close>, a refinement through \<open>linearizeAmps_refines\<close>),
    pixel by pixel when the amplifiers do not overlap (\<open>run_pixels\<close>);
    \<open>doCorrect\<close> on every branch (\<open>doCorrect_cases\<close>); each exception of \<open>run\<close>
    with the partially corrected exposure it leaves (\<open>run_coeff1_error\<close>,
    \<open>run_short_coeffs_error\<close>, \<open>run_bbox_outside_error\<close>); what \<open>run\<close> never
    changes, whatever it returns (\<open>run_frame\<close>, \<open>run_preserves_wf\<close>,
    \<open>run_mask_bits\<close>, by the invariant rule \<open>run_invariant\<close>); the cases in
    which it does nothing (\<open>run_not_wanted\<close>, \<open>run_all_skipped\<close>); what it
    does not read (\<open>run_reads_first_type_only\<close>, lemma \<open>run_ignores_extra_coeffs\<close>);
    that the order of the amplifiers does not matter when their boxes do
    not overlap (\<open>run_order_irrelevant\<close>); what it logs on every input
    (\<open>run_log_cases\<close>); that a square coefficient that is not negative never
    lowers a pixel (\<open>run_never_lowers\<close>); that mask pixels keep to the bits
    the mask plane dictionary defines (\<open>run_keeps_mask_typed\<close>); and that a
    NaN coefficient is not rejected (\<open>run_nan_coefficient\<close>).
  \<^item> For the contract: \<open>run\<close> equals \<open>runSpec\<close> on every exposure with a
    well-formed masked image, whatever the coefficients, boxes and mask
    planes are (\<open>run_complete\<close>, from \<open>linearizeAmp_fault\<close> and
    \<open>linearizeAmps_first_fault\<close>); so \<open>run\<close> raises exactly when \<open>doCorrect\<close>
    does or an amplifier has a fault (\<open>runSpec_raises_iff\<close>), and the
    exceptions of the loop are the four of \<open>amp_fault_kinds\<close>.
  \<^item> For \<open>run\<close> pixel by pixel: the loop over the amplifiers and the loop
    over the pixels can be interchanged, whether or not amplifier boxes
    overlap (\<open>run_pixelwise\<close>, from \<open>linearizeSpec_pixelwise\<close>); a second call
    corrects and flags again (\<open>run_twice\<close>); with a square coefficient that
    is not negative the correction keeps the order of values that are not
    negative (\<open>corrected_gt_iff\<close>, \<open>corrected_le\<close>), so the flags can be read
    off the corrected image (\<open>run_flags_from_corrected\<close>).
  \<^item> For the coordinates: \<open>run\<close> commutes with a move of the image origin
    and the amplifier boxes by the same offset (\<open>run_translation\<close>), so only
    the position of the boxes relative to the image matters.
  \<^item> For the step relation of \<open>run\<close>: it terminates (\<open>run_step_terminates\<close>),
    reaches a state that holds the result of the recursive definition within
    a bounded number of steps (\<open>run_reaches_outcome\<close>), can end in no other
    result (\<open>small_step_sound\<close>, from the invariant \<open>loop_inv\<close> by induction
    over the steps), and in every state of the loop the exposure holds the
    documented model applied to the amplifiers processed so far
    (\<open>loop_holds_prefix\<close>).
  \<^item> For \<open>run\<close> on the store: it implements \<open>ProportionalLinearizeTask_run\<close>
    through \<open>deref\<close> (\<open>run_st_refines\<close>, from \<open>linearizeAmps_st_refines\<close> and
    \<open>crop_scaleImage\<close>, \<open>crop_setMaskAbove\<close>), also when the exposure is
    itself a window on a larger buffer; it writes one buffer, so that a deep
    copy keeps the pixels it was taken from while a view on the exposure
    shows the corrected ones (\<open>run_st_aliasing\<close>).  A write through a view
    is a paste into the parent (\<open>deref_write_view\<close>), which is how the theories
    on values model the sub-images of \<open>IsrTask.run\<close>.
  \<^item> For the unit test: on amplifiers that tile the image and carry the same
    coefficients \<open>run\<close> computes the whole-array expressions of the test
    (\<open>run_uniform\<close>, \<open>run_uniform_pixels\<close>); hence both test cases pass, on
    values (\<open>testBasicCorrection_value\<close>, \<open>testNoCorrection_value\<close>) and, since
    the test cases on the store hold exactly when those on values do
    (\<open>testBasicCorrection_st_eq\<close>, \<open>testNoCorrection_st_eq\<close>), on objects
    (\<open>testBasicCorrection_passes\<close>, \<open>testNoCorrection_passes\<close>).  They are
    proved for the 1000 by 600 image of the test from these lemmas and the
    geometry of \<open>makeSimpleDetector\<close>, not by evaluating the image.
  \<^item> For \<open>IsrTask\<close>: \<open>run\<close> raises on every input and persists nothing
    (\<open>IsrTask_run_never_succeeds\<close>), with the exception that of loading or
    converting the raw exposure (\<open>IsrTask_run_load_errors\<close>) or else determined
    by the detector (\<open>IsrTask_run_outcome\<close>), and no routine of the library involved
    but the conversion to floating point (\<open>IsrTask_run_uses_only_conversion\<close>);
    \<open>biasCorrection\<close> and \<open>updateVariance\<close> raise \<open>NameError\<close> on every call
    (\<open>name_errors\<close>); the amplifier-only methods reject anything else
    (\<open>amp_only_methods\<close>); \<open>maskAndInterpNan\<close> counts, records and fails on
    unmasked NaN pixels and never interpolates (\<open>maskAndInterpNan_contract\<close>,
    \<open>maskAndInterpNan_never_interpolates\<close>); the transposed branches are dead
    in every reachable state of the task (\<open>never_transposes\<close>, by rule
    induction on \<open>reachable\<close>); every method keeps detector and calibration
    (\<open>methods_keep_calib\<close>); no field of the configuration influences \<open>run\<close>
    (\<open>IsrTask_run_ignores_config\<close>).
  \<^item> For the loop of \<open>IsrTask.run\<close> over the amplifiers: with a library that
    keeps the shape of the images it is given, the loop changes no pixel
    outside the amplifiers' regions (\<open>ampLoop_frame\<close>); with one that changes
    nothing, view and write-back give the exposure back (\<open>ampLoop_roundtrip\<close>,
    from \<open>paste_crop\<close>).  In \<open>run\<close> itself the loop fails at the first
    amplifier, as \<open>IsrTask_run_outcome\<close> shows; these two theorems are about
    the loop on an exposure that carries an amplifier.  On the store, where
    the sub-exposure is a view that the two methods update in place, the
    loop gives the same exposure or exception (\<open>ampLoop_on_views\<close>, from
    \<open>methods_on_view\<close> and \<open>paste_paste\<close>).
  \<^item> Across the two tasks: the linearity correction never touches the mask
    plane in which \<open>IsrTask\<close> records saturation
    (\<open>linearize_keeps_saturation_plane\<close>, from \<open>planeBitMask_disjoint\<close>).
  \<^item> Each theorem with a hypothesis is followed by a closed instance on the
    2 by 2 image \<open>ex_image\<close>, evaluated by the simplifier.

  \<^bold>\<open>Abstractions.\<close>
  \<^item> Floating point: finite values are real numbers and arithmetic on them
    is exact; rounding, overflow and the infinities are not modelled.  NaN
    is modelled, with Python's comparisons.  The theorems therefore state
    the arithmetic of the correction, not its rounding error.
  \<^item> Mask pixels are 16-bit words; a mask plane dictionary binds names to
    bit numbers below 16.
  \<^item> The threshold of the footprint search is taken as strict (\<open>v > t\<close>), as
    the unit test writes it; the ramp of the test has no pixel at the
    threshold (\<open>test_threshold_not_decided\<close>), so the test passes with either
    reading.
  \<^item> The \<open>SUSPECT\<close> plane is taken as required: flagging on a mask whose
    dictionary lacks it raises the framework's \<open>InvalidParameterError\<close>
    (\<open>getPlaneBitMask\<close>).  The unit test asks the mask for the bit of the
    plane before it calls \<open>run\<close>; every theorem that speaks of flags assumes
    the plane, and \<open>run_complete\<close> covers the mask without it.
  \<^item> The comparison of the unit test allows a tolerance; the model compares
    with equality, which is stronger.
  \<^item> A sub-exposure shares the detector and calibration of its parent, as
    the framework's constructor does; whether a box without an explicit
    origin is relative to the parent or to the image is the parameter
    \<open>defaultOrigin\<close> of the library interface.
  \<^item> A routine of the library that works in place is a field of \<open>isrLib\<close>
    that returns the image.  That the image it returns has the shape of
    the one it was given, which a routine working in place cannot help, is
    the law \<open>shape_preserving\<close>; the theorems on the loop over the amplifiers
    name it as a hypothesis.
  \<^item> When a routine of the library raises inside a method of \<open>IsrTask\<close>, the
    model keeps the exception and not the state of the buffers the routine
    was working on.

  \<^bold>\<open>Not modelled.\<close>  The numeric library \<open>isr\<close>, \<open>UnmaskedNanCounterF\<close> and
  \<open>AssembleCcdTask\<close> (outside the repository: they are the fields of
  \<open>isrLib\<close>, about which nothing is assumed beyond the laws
  \<open>keeps_detector\<close>, \<open>counts_unmasked_nans\<close> and \<open>shape_preserving\<close> where a
  theorem names them; the spec treats these routines as opaque, so there is
  no reference implementation of them to model); test discovery and
  \<open>tearDown\<close> of the unit test; the debugging display called at the end of
  \<open>IsrTask.run\<close>; timing decorators; the text of log and exception messages
  (a message is a constructor with the values it is formatted from).  Of
  the two source files, what no definition translates is the import
  statements, the docstrings and the class attributes \<open>ConfigClass\<close> and
  \<open>_DefaultName\<close>, which name the task to the framework.
\<close>

section \<open>The unit test, run on the model\<close>

text \<open>
  The test cases on values: the image the exposure holds is passed to \<open>run\<close>
  and the image it returns is compared.
\<close>

lemma testBasicCorrection_value: "testBasicCorrection"
proof -
  let ?w = "getWidth expBBox" and ?h = "getHeight expBBox"
  let ?im = "fill_flat (linspace 0 51000 (?w * ?h)) (replicate ?h (replicate ?w 0))"
  let ?mi = "\<lparr>getImage = ?im, getMask = replicate ?h (replicate ?w 0), getVariance = ?im,
     getXY0 = (getMinX expBBox, getMinY expBBox), getMaskPlaneDict = defaultMaskPlaneDict\<rparr>"
  let ?d = "setLinearity ''PROPORTIONAL'' (Some [Fin (1 / 100000), 0, Fin 50000]) makeSimpleDetector"
  have pos: "0 < ?w" "0 < ?h" by (simp_all add: expBBox_eq)
  have rim: "rect ?w ?h ?im" using pos by simp
  have wf: "wf_image ?mi"
    using pos by (simp add: wf_image_def imageWidth_def imageHeight_def plane_height_def)
  have box: "imageBBox ?mi = expBBox"
    using pos by (simp add: imageBBox_def imageWidth_def imageHeight_def plane_height_def)
  have run: "ProportionalLinearizeTask_run
       \<lparr>getMaskedImage = ?mi, getDetector = ?d, getExptime = 0\<rparr> [] =
     (Inr (),
      \<lparr>getMaskedImage = uniformSpec 128 (Fin (1 / 100000)) (Fin 50000) ?mi,
       getDetector = ?d, getExptime = 0\<rparr>,
      [InfoApplied (getId makeSimpleDetector)])"
    using run_uniform [OF simple_amps_nonempty wf simple_amps_disjoint, of 128
        "Fin (1 / 100000)" "Fin 50000" 0 "[]"]
      simple_amps_cover simple_amps_inside
    by (simp add: box)
  have mask: "getMask (uniformSpec 128 (Fin (1 / 100000)) (Fin 50000) ?mi) =
      map (map (\<lambda>v. if py_gt v (Fin 50000) then 128 else 0)) ?im"
    by (simp add: uniformSpec_def map2_map2_const [OF rim] flagged_def)
  show ?thesis
    using run mask pos
    by (simp add: testBasicCorrection_def setUp_def Let_def uniformSpec_def ExposureF_def
        plane_height_def)
qed


text \<open>
  Property C12 (functional).  The test case \<open>testBasicCorrection\<close> passes: on
  the detector of \<open>makeSimpleDetector\<close> (four amplifiers of 500 by 300 pixels
  tiling the image), with the coefficients \<open>(1e-5, 0, 50000)\<close>, after the ramp
  from 0 to 51000 has been assigned to the image and variance arrays of the
  exposure and zero to its mask, \<open>run\<close> returns normally and the exposure
  holds exactly the image, mask and variance arrays the test computed
  before the call with whole-array expressions.
\<close>

theorem testBasicCorrection_passes: "testBasicCorrection_st"
  using testBasicCorrection_value by (simp add: testBasicCorrection_st_eq)


section \<open>The two tasks on one mask\<close>

text \<open>
  Property C15 (safety).  The linearity correction never touches the mask
  plane in which \<open>IsrTask\<close> records saturation (\<open>saturatedMaskName\<close>, by
  default \<open>SAT\<close>): after \<open>ProportionalLinearizeTask.run\<close>, whatever it returns,
  every mask pixel has the bit of that plane as it was, so saturation may
  be detected before the correction, as the documentation of
  \<open>saturationCorrection\<close> asks.
\<close>

theorem linearize_keeps_saturation_plane:
  assumes "ProportionalLinearizeTask_run exposure logs = (r, exposure', logs')"
    and "wf_image (getMaskedImage exposure)"
    and "planeBitMask (getMaskPlaneDict (getMaskedImage exposure))
           (saturatedMaskName IsrTaskConfig) = Some sat"
    and "mask_at (getMaskedImage exposure) x y = Some m"
  shows "\<exists>m'. mask_at (getMaskedImage exposure') x y = Some m' \<and> m' AND sat = m AND sat"
proof -
  from assms(2) have wfd: "wf_dict (getMaskPlaneDict (getMaskedImage exposure))"
    by (simp add: wf_image_def)
  have ne: "''SUSPECT'' \<noteq> saturatedMaskName IsrTaskConfig" by (simp add: IsrTaskConfig_def)
  from run_mask_at_cases [OF assms(1,2,4)] show ?thesis
  proof
    assume "mask_at (getMaskedImage exposure') x y = Some m"
    then show ?thesis by simp
  next
    assume "\<exists>suspect. planeBitMask (getMaskPlaneDict (getMaskedImage exposure)) ''SUSPECT'' =
        Some suspect \<and> mask_at (getMaskedImage exposure') x y = Some (m OR suspect)"
    then obtain suspect where
      s: "planeBitMask (getMaskPlaneDict (getMaskedImage exposure)) ''SUSPECT'' = Some suspect"
      and m': "mask_at (getMaskedImage exposure') x y = Some (m OR suspect)" by blast
    from planeBitMask_disjoint [OF wfd s assms(3) ne] m' show ?thesis
      by (simp add: bit.conj_disj_distrib2)
  qed
qed

theorem linearize_keeps_saturation_plane_witness:
  "mask_at ex_corrected 0 0 = Some 128 \<and> (128 :: maskPixel) AND 2 = 0 AND 2"
  using linearize_keeps_saturation_plane [OF ex_run ex_wf, of 2 0 0 0]
  by (simp add: isr_defs IsrTaskConfig_def)

end
